theory Spec2Isabelle
  imports Complex_Main "HOL-Library.Sublist"
begin

section \<open>Python values, exceptions and strings\<close>

text \<open>
  The services are Python programs whose data are JSON-shaped Python values: tool results
  are dictionaries, HTTP bodies are whatever \<^verbatim>\<open>response.json()\<close> decodes. A dictionary
  is an association list in insertion order with distinct keys; \<^verbatim>\<open>None\<close> is a value of
  its own, since a function that falls off its end returns it.

  A Python string is the \<^typ>\<open>string\<close> of the bytes of its UTF-8 encoding (a lone
  surrogate, which a string may hold, written by the same scheme), so that an ASCII
  literal of the source is the same literal here and a Chinese one is its bytes.
  Searching and comparing strings byte by byte is searching and comparing them character
  by character, since no character's encoding occurs inside another's.
\<close>

datatype pyfloat = Finite rat | PosInf | NegInf | NaN

datatype pyval =
    PNone
  | PBool bool
  | PInt int
  | PFloat pyfloat
  | PStr string
  | PList "pyval list"
  | PDict "(string \<times> pyval) list"

datatype exc_class =
    RequestException
  | JSONDecodeError
  | RecursionError
  | ValueError
  | AttributeError
  | TypeError
  | OtherException

datatype exc = Exc exc_class string

fun exc_cls :: "exc \<Rightarrow> exc_class" where
  "exc_cls (Exc c m) = c"

text \<open>\<^verbatim>\<open>str(e)\<close>: the message an exception carries.\<close>

fun str_exc :: "exc \<Rightarrow> string" where
  "str_exc (Exc c m) = m"

text \<open>\<^verbatim>\<open>type(v).__name__\<close>, as it appears in the interpreter's error messages.\<close>

fun type_name :: "pyval \<Rightarrow> string" where
  "type_name PNone = ''NoneType''"
| "type_name (PBool b) = ''bool''"
| "type_name (PInt i) = ''int''"
| "type_name (PFloat f) = ''float''"
| "type_name (PStr s) = ''str''"
| "type_name (PList xs) = ''list''"
| "type_name (PDict kvs) = ''dict''"

text \<open>Truth value of an object, as \<^verbatim>\<open>if logs:\<close> tests it.\<close>

fun truthy :: "pyval \<Rightarrow> bool" where
  "truthy PNone = False"
| "truthy (PBool b) = b"
| "truthy (PInt i) = (i \<noteq> 0)"
| "truthy (PFloat (Finite r)) = (r \<noteq> 0)"
| "truthy (PFloat f) = True"
| "truthy (PStr s) = (s \<noteq> [])"
| "truthy (PList xs) = (xs \<noteq> [])"
| "truthy (PDict kvs) = (kvs \<noteq> [])"

text \<open>\<^verbatim>\<open>d.get(k, default)\<close> on a dictionary.\<close>

definition dict_get :: "(string \<times> pyval) list \<Rightarrow> string \<Rightarrow> pyval \<Rightarrow> pyval" where
  "dict_get d k dflt = (case map_of d k of None \<Rightarrow> dflt | Some v \<Rightarrow> v)"

text \<open>
  \<^verbatim>\<open>v.get(k, default)\<close> on any value: only a dictionary has the method, everything else
  raises \<^verbatim>\<open>AttributeError\<close>.
\<close>

definition no_attribute :: "pyval \<Rightarrow> string \<Rightarrow> exc" where
  "no_attribute v a =
     Exc AttributeError ([CHR 0x27] @ type_name v @ [CHR 0x27] @ '' object has no attribute ''
                          @ [CHR 0x27] @ a @ [CHR 0x27])"

fun py_get :: "pyval \<Rightarrow> string \<Rightarrow> pyval \<Rightarrow> exc + pyval" where
  "py_get (PDict d) k dflt = Inr (dict_get d k dflt)"
| "py_get v k dflt = Inl (no_attribute v ''get'')"

text \<open>
  The characters of a string: in UTF-8 a character is one byte followed by its
  continuation bytes, the bytes \<^verbatim>\<open>10xxxxxx\<close>.
\<close>

definition is_continuation :: "char \<Rightarrow> bool" where
  "is_continuation b = (digit7 b \<and> \<not> digit6 b)"

function chars :: "string \<Rightarrow> string list" where
  "chars [] = []"
| "chars (b # bs) = (b # takeWhile is_continuation bs) # chars (dropWhile is_continuation bs)"
  by pat_completeness auto
termination
  by (relation "measure length") (auto simp: length_dropWhile_le less_Suc_eq_le)

text \<open>
  What a list of characters looks like: each is a byte with continuation bytes after it,
  and none but the first starts with a continuation byte. Such a list is the list of the
  characters of the string it spells.
\<close>

fun separate :: "string list \<Rightarrow> bool" where
  "separate [] = True"
| "separate (c # cs) =
     (c \<noteq> [] \<and> list_all is_continuation (tl c)
      \<and> (case cs of [] \<Rightarrow> True | d # ds \<Rightarrow> d \<noteq> [] \<and> \<not> is_continuation (hd d))
      \<and> separate cs)"

text \<open>
  The characters \<^verbatim>\<open>str.strip\<close> and \<^verbatim>\<open>str.isspace\<close> take for whitespace, in code
  point order: U+0009 to U+000D, U+001C to U+001F, U+0020, U+0085, U+00A0, U+1680,
  U+2000 to U+200A, U+2028, U+2029, U+202F, U+205F and U+3000.
\<close>

definition whitespace :: "string list" where
  "whitespace =
     [[CHR 0x09], [CHR 0x0A], [CHR 0x0B], [CHR 0x0C], [CHR 0x0D],
      [CHR 0x1C], [CHR 0x1D], [CHR 0x1E], [CHR 0x1F], [CHR 0x20],
      [CHR 0xC2, CHR 0x85], [CHR 0xC2, CHR 0xA0], [CHR 0xE1, CHR 0x9A, CHR 0x80],
      [CHR 0xE2, CHR 0x80, CHR 0x80], [CHR 0xE2, CHR 0x80, CHR 0x81],
      [CHR 0xE2, CHR 0x80, CHR 0x82], [CHR 0xE2, CHR 0x80, CHR 0x83],
      [CHR 0xE2, CHR 0x80, CHR 0x84], [CHR 0xE2, CHR 0x80, CHR 0x85],
      [CHR 0xE2, CHR 0x80, CHR 0x86], [CHR 0xE2, CHR 0x80, CHR 0x87],
      [CHR 0xE2, CHR 0x80, CHR 0x88], [CHR 0xE2, CHR 0x80, CHR 0x89],
      [CHR 0xE2, CHR 0x80, CHR 0x8A], [CHR 0xE2, CHR 0x80, CHR 0xA8],
      [CHR 0xE2, CHR 0x80, CHR 0xA9], [CHR 0xE2, CHR 0x80, CHR 0xAF],
      [CHR 0xE2, CHR 0x81, CHR 0x9F], [CHR 0xE3, CHR 0x80, CHR 0x80]]"

definition is_space :: "string \<Rightarrow> bool" where
  "is_space c = (c \<in> set whitespace)"

text \<open>\<^verbatim>\<open>s.strip()\<close>: the whitespace characters at both ends are dropped.\<close>

definition trim :: "string list \<Rightarrow> string list" where
  "trim cs = rev (dropWhile is_space (rev (dropWhile is_space cs)))"

definition strip :: "string \<Rightarrow> string" where
  "strip s = concat (trim (chars s))"

text \<open>
  \<^verbatim>\<open>str.lower\<close> is used by one test only, whether \<^verbatim>\<open>info\<close> occurs in a lowercased log
  line, and is given by its ASCII part. The full mapping agrees with it on that test: the
  one character outside ASCII whose lowercase form has one of these four letters is
  U+0130, and there the \<^verbatim>\<open>i\<close> is followed by U+0307.
\<close>

definition ascii_lowercase :: string where
  "ascii_lowercase = ''abcdefghijklmnopqrstuvwxyz''"

definition ascii_uppercase :: string where
  "ascii_uppercase = ''ABCDEFGHIJKLMNOPQRSTUVWXYZ''"

definition lower_char :: "char \<Rightarrow> char" where
  "lower_char c =
     (case map_of (zip ascii_uppercase ascii_lowercase) c of Some l \<Rightarrow> l | None \<Rightarrow> c)"

definition lower :: "string \<Rightarrow> string" where
  "lower s = map lower_char s"

subsection \<open>Uppercase\<close>

text \<open>
  \<^verbatim>\<open>str.upper\<close> replaces every character by its full uppercase mapping of the Unicode
  Character Database (version 14.0, the one of CPython 3.11): the uppercase of
  \<^verbatim>\<open>UnicodeData.txt\<close>, or the longer one of \<^verbatim>\<open>SpecialCasing.txt\<close> where there is
  one, as U+00DF giving \<^verbatim>\<open>SS\<close>. The mapping looks at no neighbour. It is the table
  below, of the 1525 characters that it changes, in code point order, one row for the
  characters that share all their UTF-8 bytes but the last: a row pairs that last byte
  with the bytes of the uppercase form. So \<open>upper_row_C4\<close>, the characters U+0100 to
  U+013F, sends \<^verbatim>\<open>0xB1\<close>, the dotless i U+0131, to \<^verbatim>\<open>I\<close>.
\<close>

definition upper_row_ascii :: "(char \<times> string) list" where
  "upper_row_ascii =
     [(CHR 0x61, [CHR 0x41]), (CHR 0x62, [CHR 0x42]), (CHR 0x63, [CHR 0x43]),
      (CHR 0x64, [CHR 0x44]), (CHR 0x65, [CHR 0x45]), (CHR 0x66, [CHR 0x46]),
      (CHR 0x67, [CHR 0x47]), (CHR 0x68, [CHR 0x48]), (CHR 0x69, [CHR 0x49]),
      (CHR 0x6A, [CHR 0x4A]), (CHR 0x6B, [CHR 0x4B]), (CHR 0x6C, [CHR 0x4C]),
      (CHR 0x6D, [CHR 0x4D]), (CHR 0x6E, [CHR 0x4E]), (CHR 0x6F, [CHR 0x4F]),
      (CHR 0x70, [CHR 0x50]), (CHR 0x71, [CHR 0x51]), (CHR 0x72, [CHR 0x52]),
      (CHR 0x73, [CHR 0x53]), (CHR 0x74, [CHR 0x54]), (CHR 0x75, [CHR 0x55]),
      (CHR 0x76, [CHR 0x56]), (CHR 0x77, [CHR 0x57]), (CHR 0x78, [CHR 0x58]),
      (CHR 0x79, [CHR 0x59]), (CHR 0x7A, [CHR 0x5A])]"

definition upper_row_C2 :: "(char \<times> string) list" where
  "upper_row_C2 =
     [(CHR 0xB5, [CHR 0xCE, CHR 0x9C])]"

definition upper_row_C3 :: "(char \<times> string) list" where
  "upper_row_C3 =
     [(CHR 0x9F, [CHR 0x53, CHR 0x53]), (CHR 0xA0, [CHR 0xC3, CHR 0x80]),
      (CHR 0xA1, [CHR 0xC3, CHR 0x81]), (CHR 0xA2, [CHR 0xC3, CHR 0x82]),
      (CHR 0xA3, [CHR 0xC3, CHR 0x83]), (CHR 0xA4, [CHR 0xC3, CHR 0x84]),
      (CHR 0xA5, [CHR 0xC3, CHR 0x85]), (CHR 0xA6, [CHR 0xC3, CHR 0x86]),
      (CHR 0xA7, [CHR 0xC3, CHR 0x87]), (CHR 0xA8, [CHR 0xC3, CHR 0x88]),
      (CHR 0xA9, [CHR 0xC3, CHR 0x89]), (CHR 0xAA, [CHR 0xC3, CHR 0x8A]),
      (CHR 0xAB, [CHR 0xC3, CHR 0x8B]), (CHR 0xAC, [CHR 0xC3, CHR 0x8C]),
      (CHR 0xAD, [CHR 0xC3, CHR 0x8D]), (CHR 0xAE, [CHR 0xC3, CHR 0x8E]),
      (CHR 0xAF, [CHR 0xC3, CHR 0x8F]), (CHR 0xB0, [CHR 0xC3, CHR 0x90]),
      (CHR 0xB1, [CHR 0xC3, CHR 0x91]), (CHR 0xB2, [CHR 0xC3, CHR 0x92]),
      (CHR 0xB3, [CHR 0xC3, CHR 0x93]), (CHR 0xB4, [CHR 0xC3, CHR 0x94]),
      (CHR 0xB5, [CHR 0xC3, CHR 0x95]), (CHR 0xB6, [CHR 0xC3, CHR 0x96]),
      (CHR 0xB8, [CHR 0xC3, CHR 0x98]), (CHR 0xB9, [CHR 0xC3, CHR 0x99]),
      (CHR 0xBA, [CHR 0xC3, CHR 0x9A]), (CHR 0xBB, [CHR 0xC3, CHR 0x9B]),
      (CHR 0xBC, [CHR 0xC3, CHR 0x9C]), (CHR 0xBD, [CHR 0xC3, CHR 0x9D]),
      (CHR 0xBE, [CHR 0xC3, CHR 0x9E]), (CHR 0xBF, [CHR 0xC5, CHR 0xB8])]"

definition upper_row_C4 :: "(char \<times> string) list" where
  "upper_row_C4 =
     [(CHR 0x81, [CHR 0xC4, CHR 0x80]), (CHR 0x83, [CHR 0xC4, CHR 0x82]),
      (CHR 0x85, [CHR 0xC4, CHR 0x84]), (CHR 0x87, [CHR 0xC4, CHR 0x86]),
      (CHR 0x89, [CHR 0xC4, CHR 0x88]), (CHR 0x8B, [CHR 0xC4, CHR 0x8A]),
      (CHR 0x8D, [CHR 0xC4, CHR 0x8C]), (CHR 0x8F, [CHR 0xC4, CHR 0x8E]),
      (CHR 0x91, [CHR 0xC4, CHR 0x90]), (CHR 0x93, [CHR 0xC4, CHR 0x92]),
      (CHR 0x95, [CHR 0xC4, CHR 0x94]), (CHR 0x97, [CHR 0xC4, CHR 0x96]),
      (CHR 0x99, [CHR 0xC4, CHR 0x98]), (CHR 0x9B, [CHR 0xC4, CHR 0x9A]),
      (CHR 0x9D, [CHR 0xC4, CHR 0x9C]), (CHR 0x9F, [CHR 0xC4, CHR 0x9E]),
      (CHR 0xA1, [CHR 0xC4, CHR 0xA0]), (CHR 0xA3, [CHR 0xC4, CHR 0xA2]),
      (CHR 0xA5, [CHR 0xC4, CHR 0xA4]), (CHR 0xA7, [CHR 0xC4, CHR 0xA6]),
      (CHR 0xA9, [CHR 0xC4, CHR 0xA8]), (CHR 0xAB, [CHR 0xC4, CHR 0xAA]),
      (CHR 0xAD, [CHR 0xC4, CHR 0xAC]), (CHR 0xAF, [CHR 0xC4, CHR 0xAE]), (CHR 0xB1, [CHR 0x49]),
      (CHR 0xB3, [CHR 0xC4, CHR 0xB2]), (CHR 0xB5, [CHR 0xC4, CHR 0xB4]),
      (CHR 0xB7, [CHR 0xC4, CHR 0xB6]), (CHR 0xBA, [CHR 0xC4, CHR 0xB9]),
      (CHR 0xBC, [CHR 0xC4, CHR 0xBB]), (CHR 0xBE, [CHR 0xC4, CHR 0xBD])]"

definition upper_row_C5 :: "(char \<times> string) list" where
  "upper_row_C5 =
     [(CHR 0x80, [CHR 0xC4, CHR 0xBF]), (CHR 0x82, [CHR 0xC5, CHR 0x81]),
      (CHR 0x84, [CHR 0xC5, CHR 0x83]), (CHR 0x86, [CHR 0xC5, CHR 0x85]),
      (CHR 0x88, [CHR 0xC5, CHR 0x87]), (CHR 0x89, [CHR 0xCA, CHR 0xBC, CHR 0x4E]),
      (CHR 0x8B, [CHR 0xC5, CHR 0x8A]), (CHR 0x8D, [CHR 0xC5, CHR 0x8C]),
      (CHR 0x8F, [CHR 0xC5, CHR 0x8E]), (CHR 0x91, [CHR 0xC5, CHR 0x90]),
      (CHR 0x93, [CHR 0xC5, CHR 0x92]), (CHR 0x95, [CHR 0xC5, CHR 0x94]),
      (CHR 0x97, [CHR 0xC5, CHR 0x96]), (CHR 0x99, [CHR 0xC5, CHR 0x98]),
      (CHR 0x9B, [CHR 0xC5, CHR 0x9A]), (CHR 0x9D, [CHR 0xC5, CHR 0x9C]),
      (CHR 0x9F, [CHR 0xC5, CHR 0x9E]), (CHR 0xA1, [CHR 0xC5, CHR 0xA0]),
      (CHR 0xA3, [CHR 0xC5, CHR 0xA2]), (CHR 0xA5, [CHR 0xC5, CHR 0xA4]),
      (CHR 0xA7, [CHR 0xC5, CHR 0xA6]), (CHR 0xA9, [CHR 0xC5, CHR 0xA8]),
      (CHR 0xAB, [CHR 0xC5, CHR 0xAA]), (CHR 0xAD, [CHR 0xC5, CHR 0xAC]),
      (CHR 0xAF, [CHR 0xC5, CHR 0xAE]), (CHR 0xB1, [CHR 0xC5, CHR 0xB0]),
      (CHR 0xB3, [CHR 0xC5, CHR 0xB2]), (CHR 0xB5, [CHR 0xC5, CHR 0xB4]),
      (CHR 0xB7, [CHR 0xC5, CHR 0xB6]), (CHR 0xBA, [CHR 0xC5, CHR 0xB9]),
      (CHR 0xBC, [CHR 0xC5, CHR 0xBB]), (CHR 0xBE, [CHR 0xC5, CHR 0xBD]), (CHR 0xBF, [CHR 0x53])]"

definition upper_row_C6 :: "(char \<times> string) list" where
  "upper_row_C6 =
     [(CHR 0x80, [CHR 0xC9, CHR 0x83]), (CHR 0x83, [CHR 0xC6, CHR 0x82]),
      (CHR 0x85, [CHR 0xC6, CHR 0x84]), (CHR 0x88, [CHR 0xC6, CHR 0x87]),
      (CHR 0x8C, [CHR 0xC6, CHR 0x8B]), (CHR 0x92, [CHR 0xC6, CHR 0x91]),
      (CHR 0x95, [CHR 0xC7, CHR 0xB6]), (CHR 0x99, [CHR 0xC6, CHR 0x98]),
      (CHR 0x9A, [CHR 0xC8, CHR 0xBD]), (CHR 0x9E, [CHR 0xC8, CHR 0xA0]),
      (CHR 0xA1, [CHR 0xC6, CHR 0xA0]), (CHR 0xA3, [CHR 0xC6, CHR 0xA2]),
      (CHR 0xA5, [CHR 0xC6, CHR 0xA4]), (CHR 0xA8, [CHR 0xC6, CHR 0xA7]),
      (CHR 0xAD, [CHR 0xC6, CHR 0xAC]), (CHR 0xB0, [CHR 0xC6, CHR 0xAF]),
      (CHR 0xB4, [CHR 0xC6, CHR 0xB3]), (CHR 0xB6, [CHR 0xC6, CHR 0xB5]),
      (CHR 0xB9, [CHR 0xC6, CHR 0xB8]), (CHR 0xBD, [CHR 0xC6, CHR 0xBC]),
      (CHR 0xBF, [CHR 0xC7, CHR 0xB7])]"

definition upper_row_C7 :: "(char \<times> string) list" where
  "upper_row_C7 =
     [(CHR 0x85, [CHR 0xC7, CHR 0x84]), (CHR 0x86, [CHR 0xC7, CHR 0x84]),
      (CHR 0x88, [CHR 0xC7, CHR 0x87]), (CHR 0x89, [CHR 0xC7, CHR 0x87]),
      (CHR 0x8B, [CHR 0xC7, CHR 0x8A]), (CHR 0x8C, [CHR 0xC7, CHR 0x8A]),
      (CHR 0x8E, [CHR 0xC7, CHR 0x8D]), (CHR 0x90, [CHR 0xC7, CHR 0x8F]),
      (CHR 0x92, [CHR 0xC7, CHR 0x91]), (CHR 0x94, [CHR 0xC7, CHR 0x93]),
      (CHR 0x96, [CHR 0xC7, CHR 0x95]), (CHR 0x98, [CHR 0xC7, CHR 0x97]),
      (CHR 0x9A, [CHR 0xC7, CHR 0x99]), (CHR 0x9C, [CHR 0xC7, CHR 0x9B]),
      (CHR 0x9D, [CHR 0xC6, CHR 0x8E]), (CHR 0x9F, [CHR 0xC7, CHR 0x9E]),
      (CHR 0xA1, [CHR 0xC7, CHR 0xA0]), (CHR 0xA3, [CHR 0xC7, CHR 0xA2]),
      (CHR 0xA5, [CHR 0xC7, CHR 0xA4]), (CHR 0xA7, [CHR 0xC7, CHR 0xA6]),
      (CHR 0xA9, [CHR 0xC7, CHR 0xA8]), (CHR 0xAB, [CHR 0xC7, CHR 0xAA]),
      (CHR 0xAD, [CHR 0xC7, CHR 0xAC]), (CHR 0xAF, [CHR 0xC7, CHR 0xAE]),
      (CHR 0xB0, [CHR 0x4A, CHR 0xCC, CHR 0x8C]), (CHR 0xB2, [CHR 0xC7, CHR 0xB1]),
      (CHR 0xB3, [CHR 0xC7, CHR 0xB1]), (CHR 0xB5, [CHR 0xC7, CHR 0xB4]),
      (CHR 0xB9, [CHR 0xC7, CHR 0xB8]), (CHR 0xBB, [CHR 0xC7, CHR 0xBA]),
      (CHR 0xBD, [CHR 0xC7, CHR 0xBC]), (CHR 0xBF, [CHR 0xC7, CHR 0xBE])]"

definition upper_row_C8 :: "(char \<times> string) list" where
  "upper_row_C8 =
     [(CHR 0x81, [CHR 0xC8, CHR 0x80]), (CHR 0x83, [CHR 0xC8, CHR 0x82]),
      (CHR 0x85, [CHR 0xC8, CHR 0x84]), (CHR 0x87, [CHR 0xC8, CHR 0x86]),
      (CHR 0x89, [CHR 0xC8, CHR 0x88]), (CHR 0x8B, [CHR 0xC8, CHR 0x8A]),
      (CHR 0x8D, [CHR 0xC8, CHR 0x8C]), (CHR 0x8F, [CHR 0xC8, CHR 0x8E]),
      (CHR 0x91, [CHR 0xC8, CHR 0x90]), (CHR 0x93, [CHR 0xC8, CHR 0x92]),
      (CHR 0x95, [CHR 0xC8, CHR 0x94]), (CHR 0x97, [CHR 0xC8, CHR 0x96]),
      (CHR 0x99, [CHR 0xC8, CHR 0x98]), (CHR 0x9B, [CHR 0xC8, CHR 0x9A]),
      (CHR 0x9D, [CHR 0xC8, CHR 0x9C]), (CHR 0x9F, [CHR 0xC8, CHR 0x9E]),
      (CHR 0xA3, [CHR 0xC8, CHR 0xA2]), (CHR 0xA5, [CHR 0xC8, CHR 0xA4]),
      (CHR 0xA7, [CHR 0xC8, CHR 0xA6]), (CHR 0xA9, [CHR 0xC8, CHR 0xA8]),
      (CHR 0xAB, [CHR 0xC8, CHR 0xAA]), (CHR 0xAD, [CHR 0xC8, CHR 0xAC]),
      (CHR 0xAF, [CHR 0xC8, CHR 0xAE]), (CHR 0xB1, [CHR 0xC8, CHR 0xB0]),
      (CHR 0xB3, [CHR 0xC8, CHR 0xB2]), (CHR 0xBC, [CHR 0xC8, CHR 0xBB]),
      (CHR 0xBF, [CHR 0xE2, CHR 0xB1, CHR 0xBE])]"

definition upper_row_C9 :: "(char \<times> string) list" where
  "upper_row_C9 =
     [(CHR 0x80, [CHR 0xE2, CHR 0xB1, CHR 0xBF]), (CHR 0x82, [CHR 0xC9, CHR 0x81]),
      (CHR 0x87, [CHR 0xC9, CHR 0x86]), (CHR 0x89, [CHR 0xC9, CHR 0x88]),
      (CHR 0x8B, [CHR 0xC9, CHR 0x8A]), (CHR 0x8D, [CHR 0xC9, CHR 0x8C]),
      (CHR 0x8F, [CHR 0xC9, CHR 0x8E]), (CHR 0x90, [CHR 0xE2, CHR 0xB1, CHR 0xAF]),
      (CHR 0x91, [CHR 0xE2, CHR 0xB1, CHR 0xAD]), (CHR 0x92, [CHR 0xE2, CHR 0xB1, CHR 0xB0]),
      (CHR 0x93, [CHR 0xC6, CHR 0x81]), (CHR 0x94, [CHR 0xC6, CHR 0x86]),
      (CHR 0x96, [CHR 0xC6, CHR 0x89]), (CHR 0x97, [CHR 0xC6, CHR 0x8A]),
      (CHR 0x99, [CHR 0xC6, CHR 0x8F]), (CHR 0x9B, [CHR 0xC6, CHR 0x90]),
      (CHR 0x9C, [CHR 0xEA, CHR 0x9E, CHR 0xAB]), (CHR 0xA0, [CHR 0xC6, CHR 0x93]),
      (CHR 0xA1, [CHR 0xEA, CHR 0x9E, CHR 0xAC]), (CHR 0xA3, [CHR 0xC6, CHR 0x94]),
      (CHR 0xA5, [CHR 0xEA, CHR 0x9E, CHR 0x8D]), (CHR 0xA6, [CHR 0xEA, CHR 0x9E, CHR 0xAA]),
      (CHR 0xA8, [CHR 0xC6, CHR 0x97]), (CHR 0xA9, [CHR 0xC6, CHR 0x96]),
      (CHR 0xAA, [CHR 0xEA, CHR 0x9E, CHR 0xAE]), (CHR 0xAB, [CHR 0xE2, CHR 0xB1, CHR 0xA2]),
      (CHR 0xAC, [CHR 0xEA, CHR 0x9E, CHR 0xAD]), (CHR 0xAF, [CHR 0xC6, CHR 0x9C]),
      (CHR 0xB1, [CHR 0xE2, CHR 0xB1, CHR 0xAE]), (CHR 0xB2, [CHR 0xC6, CHR 0x9D]),
      (CHR 0xB5, [CHR 0xC6, CHR 0x9F]), (CHR 0xBD, [CHR 0xE2, CHR 0xB1, CHR 0xA4])]"

definition upper_row_CA :: "(char \<times> string) list" where
  "upper_row_CA =
     [(CHR 0x80, [CHR 0xC6, CHR 0xA6]), (CHR 0x82, [CHR 0xEA, CHR 0x9F, CHR 0x85]),
      (CHR 0x83, [CHR 0xC6, CHR 0xA9]), (CHR 0x87, [CHR 0xEA, CHR 0x9E, CHR 0xB1]),
      (CHR 0x88, [CHR 0xC6, CHR 0xAE]), (CHR 0x89, [CHR 0xC9, CHR 0x84]),
      (CHR 0x8A, [CHR 0xC6, CHR 0xB1]), (CHR 0x8B, [CHR 0xC6, CHR 0xB2]),
      (CHR 0x8C, [CHR 0xC9, CHR 0x85]), (CHR 0x92, [CHR 0xC6, CHR 0xB7]),
      (CHR 0x9D, [CHR 0xEA, CHR 0x9E, CHR 0xB2]), (CHR 0x9E, [CHR 0xEA, CHR 0x9E, CHR 0xB0])]"

definition upper_row_CD :: "(char \<times> string) list" where
  "upper_row_CD =
     [(CHR 0x85, [CHR 0xCE, CHR 0x99]), (CHR 0xB1, [CHR 0xCD, CHR 0xB0]),
      (CHR 0xB3, [CHR 0xCD, CHR 0xB2]), (CHR 0xB7, [CHR 0xCD, CHR 0xB6]),
      (CHR 0xBB, [CHR 0xCF, CHR 0xBD]), (CHR 0xBC, [CHR 0xCF, CHR 0xBE]),
      (CHR 0xBD, [CHR 0xCF, CHR 0xBF])]"

definition upper_row_CE :: "(char \<times> string) list" where
  "upper_row_CE =
     [(CHR 0x90, [CHR 0xCE, CHR 0x99, CHR 0xCC, CHR 0x88, CHR 0xCC, CHR 0x81]),
      (CHR 0xAC, [CHR 0xCE, CHR 0x86]), (CHR 0xAD, [CHR 0xCE, CHR 0x88]),
      (CHR 0xAE, [CHR 0xCE, CHR 0x89]), (CHR 0xAF, [CHR 0xCE, CHR 0x8A]),
      (CHR 0xB0, [CHR 0xCE, CHR 0xA5, CHR 0xCC, CHR 0x88, CHR 0xCC, CHR 0x81]),
      (CHR 0xB1, [CHR 0xCE, CHR 0x91]), (CHR 0xB2, [CHR 0xCE, CHR 0x92]),
      (CHR 0xB3, [CHR 0xCE, CHR 0x93]), (CHR 0xB4, [CHR 0xCE, CHR 0x94]),
      (CHR 0xB5, [CHR 0xCE, CHR 0x95]), (CHR 0xB6, [CHR 0xCE, CHR 0x96]),
      (CHR 0xB7, [CHR 0xCE, CHR 0x97]), (CHR 0xB8, [CHR 0xCE, CHR 0x98]),
      (CHR 0xB9, [CHR 0xCE, CHR 0x99]), (CHR 0xBA, [CHR 0xCE, CHR 0x9A]),
      (CHR 0xBB, [CHR 0xCE, CHR 0x9B]), (CHR 0xBC, [CHR 0xCE, CHR 0x9C]),
      (CHR 0xBD, [CHR 0xCE, CHR 0x9D]), (CHR 0xBE, [CHR 0xCE, CHR 0x9E]),
      (CHR 0xBF, [CHR 0xCE, CHR 0x9F])]"

definition upper_row_CF :: "(char \<times> string) list" where
  "upper_row_CF =
     [(CHR 0x80, [CHR 0xCE, CHR 0xA0]), (CHR 0x81, [CHR 0xCE, CHR 0xA1]),
      (CHR 0x82, [CHR 0xCE, CHR 0xA3]), (CHR 0x83, [CHR 0xCE, CHR 0xA3]),
      (CHR 0x84, [CHR 0xCE, CHR 0xA4]), (CHR 0x85, [CHR 0xCE, CHR 0xA5]),
      (CHR 0x86, [CHR 0xCE, CHR 0xA6]), (CHR 0x87, [CHR 0xCE, CHR 0xA7]),
      (CHR 0x88, [CHR 0xCE, CHR 0xA8]), (CHR 0x89, [CHR 0xCE, CHR 0xA9]),
      (CHR 0x8A, [CHR 0xCE, CHR 0xAA]), (CHR 0x8B, [CHR 0xCE, CHR 0xAB]),
      (CHR 0x8C, [CHR 0xCE, CHR 0x8C]), (CHR 0x8D, [CHR 0xCE, CHR 0x8E]),
      (CHR 0x8E, [CHR 0xCE, CHR 0x8F]), (CHR 0x90, [CHR 0xCE, CHR 0x92]),
      (CHR 0x91, [CHR 0xCE, CHR 0x98]), (CHR 0x95, [CHR 0xCE, CHR 0xA6]),
      (CHR 0x96, [CHR 0xCE, CHR 0xA0]), (CHR 0x97, [CHR 0xCF, CHR 0x8F]),
      (CHR 0x99, [CHR 0xCF, CHR 0x98]), (CHR 0x9B, [CHR 0xCF, CHR 0x9A]),
      (CHR 0x9D, [CHR 0xCF, CHR 0x9C]), (CHR 0x9F, [CHR 0xCF, CHR 0x9E]),
      (CHR 0xA1, [CHR 0xCF, CHR 0xA0]), (CHR 0xA3, [CHR 0xCF, CHR 0xA2]),
      (CHR 0xA5, [CHR 0xCF, CHR 0xA4]), (CHR 0xA7, [CHR 0xCF, CHR 0xA6]),
      (CHR 0xA9, [CHR 0xCF, CHR 0xA8]), (CHR 0xAB, [CHR 0xCF, CHR 0xAA]),
      (CHR 0xAD, [CHR 0xCF, CHR 0xAC]), (CHR 0xAF, [CHR 0xCF, CHR 0xAE]),
      (CHR 0xB0, [CHR 0xCE, CHR 0x9A]), (CHR 0xB1, [CHR 0xCE, CHR 0xA1]),
      (CHR 0xB2, [CHR 0xCF, CHR 0xB9]), (CHR 0xB3, [CHR 0xCD, CHR 0xBF]),
      (CHR 0xB5, [CHR 0xCE, CHR 0x95]), (CHR 0xB8, [CHR 0xCF, CHR 0xB7]),
      (CHR 0xBB, [CHR 0xCF, CHR 0xBA])]"

definition upper_row_D0 :: "(char \<times> string) list" where
  "upper_row_D0 =
     [(CHR 0xB0, [CHR 0xD0, CHR 0x90]), (CHR 0xB1, [CHR 0xD0, CHR 0x91]),
      (CHR 0xB2, [CHR 0xD0, CHR 0x92]), (CHR 0xB3, [CHR 0xD0, CHR 0x93]),
      (CHR 0xB4, [CHR 0xD0, CHR 0x94]), (CHR 0xB5, [CHR 0xD0, CHR 0x95]),
      (CHR 0xB6, [CHR 0xD0, CHR 0x96]), (CHR 0xB7, [CHR 0xD0, CHR 0x97]),
      (CHR 0xB8, [CHR 0xD0, CHR 0x98]), (CHR 0xB9, [CHR 0xD0, CHR 0x99]),
      (CHR 0xBA, [CHR 0xD0, CHR 0x9A]), (CHR 0xBB, [CHR 0xD0, CHR 0x9B]),
      (CHR 0xBC, [CHR 0xD0, CHR 0x9C]), (CHR 0xBD, [CHR 0xD0, CHR 0x9D]),
      (CHR 0xBE, [CHR 0xD0, CHR 0x9E]), (CHR 0xBF, [CHR 0xD0, CHR 0x9F])]"

definition upper_row_D1 :: "(char \<times> string) list" where
  "upper_row_D1 =
     [(CHR 0x80, [CHR 0xD0, CHR 0xA0]), (CHR 0x81, [CHR 0xD0, CHR 0xA1]),
      (CHR 0x82, [CHR 0xD0, CHR 0xA2]), (CHR 0x83, [CHR 0xD0, CHR 0xA3]),
      (CHR 0x84, [CHR 0xD0, CHR 0xA4]), (CHR 0x85, [CHR 0xD0, CHR 0xA5]),
      (CHR 0x86, [CHR 0xD0, CHR 0xA6]), (CHR 0x87, [CHR 0xD0, CHR 0xA7]),
      (CHR 0x88, [CHR 0xD0, CHR 0xA8]), (CHR 0x89, [CHR 0xD0, CHR 0xA9]),
      (CHR 0x8A, [CHR 0xD0, CHR 0xAA]), (CHR 0x8B, [CHR 0xD0, CHR 0xAB]),
      (CHR 0x8C, [CHR 0xD0, CHR 0xAC]), (CHR 0x8D, [CHR 0xD0, CHR 0xAD]),
      (CHR 0x8E, [CHR 0xD0, CHR 0xAE]), (CHR 0x8F, [CHR 0xD0, CHR 0xAF]),
      (CHR 0x90, [CHR 0xD0, CHR 0x80]), (CHR 0x91, [CHR 0xD0, CHR 0x81]),
      (CHR 0x92, [CHR 0xD0, CHR 0x82]), (CHR 0x93, [CHR 0xD0, CHR 0x83]),
      (CHR 0x94, [CHR 0xD0, CHR 0x84]), (CHR 0x95, [CHR 0xD0, CHR 0x85]),
      (CHR 0x96, [CHR 0xD0, CHR 0x86]), (CHR 0x97, [CHR 0xD0, CHR 0x87]),
      (CHR 0x98, [CHR 0xD0, CHR 0x88]), (CHR 0x99, [CHR 0xD0, CHR 0x89]),
      (CHR 0x9A, [CHR 0xD0, CHR 0x8A]), (CHR 0x9B, [CHR 0xD0, CHR 0x8B]),
      (CHR 0x9C, [CHR 0xD0, CHR 0x8C]), (CHR 0x9D, [CHR 0xD0, CHR 0x8D]),
      (CHR 0x9E, [CHR 0xD0, CHR 0x8E]), (CHR 0x9F, [CHR 0xD0, CHR 0x8F]),
      (CHR 0xA1, [CHR 0xD1, CHR 0xA0]), (CHR 0xA3, [CHR 0xD1, CHR 0xA2]),
      (CHR 0xA5, [CHR 0xD1, CHR 0xA4]), (CHR 0xA7, [CHR 0xD1, CHR 0xA6]),
      (CHR 0xA9, [CHR 0xD1, CHR 0xA8]), (CHR 0xAB, [CHR 0xD1, CHR 0xAA]),
      (CHR 0xAD, [CHR 0xD1, CHR 0xAC]), (CHR 0xAF, [CHR 0xD1, CHR 0xAE]),
      (CHR 0xB1, [CHR 0xD1, CHR 0xB0]), (CHR 0xB3, [CHR 0xD1, CHR 0xB2]),
      (CHR 0xB5, [CHR 0xD1, CHR 0xB4]), (CHR 0xB7, [CHR 0xD1, CHR 0xB6]),
      (CHR 0xB9, [CHR 0xD1, CHR 0xB8]), (CHR 0xBB, [CHR 0xD1, CHR 0xBA]),
      (CHR 0xBD, [CHR 0xD1, CHR 0xBC]), (CHR 0xBF, [CHR 0xD1, CHR 0xBE])]"

definition upper_row_D2 :: "(char \<times> string) list" where
  "upper_row_D2 =
     [(CHR 0x81, [CHR 0xD2, CHR 0x80]), (CHR 0x8B, [CHR 0xD2, CHR 0x8A]),
      (CHR 0x8D, [CHR 0xD2, CHR 0x8C]), (CHR 0x8F, [CHR 0xD2, CHR 0x8E]),
      (CHR 0x91, [CHR 0xD2, CHR 0x90]), (CHR 0x93, [CHR 0xD2, CHR 0x92]),
      (CHR 0x95, [CHR 0xD2, CHR 0x94]), (CHR 0x97, [CHR 0xD2, CHR 0x96]),
      (CHR 0x99, [CHR 0xD2, CHR 0x98]), (CHR 0x9B, [CHR 0xD2, CHR 0x9A]),
      (CHR 0x9D, [CHR 0xD2, CHR 0x9C]), (CHR 0x9F, [CHR 0xD2, CHR 0x9E]),
      (CHR 0xA1, [CHR 0xD2, CHR 0xA0]), (CHR 0xA3, [CHR 0xD2, CHR 0xA2]),
      (CHR 0xA5, [CHR 0xD2, CHR 0xA4]), (CHR 0xA7, [CHR 0xD2, CHR 0xA6]),
      (CHR 0xA9, [CHR 0xD2, CHR 0xA8]), (CHR 0xAB, [CHR 0xD2, CHR 0xAA]),
      (CHR 0xAD, [CHR 0xD2, CHR 0xAC]), (CHR 0xAF, [CHR 0xD2, CHR 0xAE]),
      (CHR 0xB1, [CHR 0xD2, CHR 0xB0]), (CHR 0xB3, [CHR 0xD2, CHR 0xB2]),
      (CHR 0xB5, [CHR 0xD2, CHR 0xB4]), (CHR 0xB7, [CHR 0xD2, CHR 0xB6]),
      (CHR 0xB9, [CHR 0xD2, CHR 0xB8]), (CHR 0xBB, [CHR 0xD2, CHR 0xBA]),
      (CHR 0xBD, [CHR 0xD2, CHR 0xBC]), (CHR 0xBF, [CHR 0xD2, CHR 0xBE])]"

definition upper_row_D3 :: "(char \<times> string) list" where
  "upper_row_D3 =
     [(CHR 0x82, [CHR 0xD3, CHR 0x81]), (CHR 0x84, [CHR 0xD3, CHR 0x83]),
      (CHR 0x86, [CHR 0xD3, CHR 0x85]), (CHR 0x88, [CHR 0xD3, CHR 0x87]),
      (CHR 0x8A, [CHR 0xD3, CHR 0x89]), (CHR 0x8C, [CHR 0xD3, CHR 0x8B]),
      (CHR 0x8E, [CHR 0xD3, CHR 0x8D]), (CHR 0x8F, [CHR 0xD3, CHR 0x80]),
      (CHR 0x91, [CHR 0xD3, CHR 0x90]), (CHR 0x93, [CHR 0xD3, CHR 0x92]),
      (CHR 0x95, [CHR 0xD3, CHR 0x94]), (CHR 0x97, [CHR 0xD3, CHR 0x96]),
      (CHR 0x99, [CHR 0xD3, CHR 0x98]), (CHR 0x9B, [CHR 0xD3, CHR 0x9A]),
      (CHR 0x9D, [CHR 0xD3, CHR 0x9C]), (CHR 0x9F, [CHR 0xD3, CHR 0x9E]),
      (CHR 0xA1, [CHR 0xD3, CHR 0xA0]), (CHR 0xA3, [CHR 0xD3, CHR 0xA2]),
      (CHR 0xA5, [CHR 0xD3, CHR 0xA4]), (CHR 0xA7, [CHR 0xD3, CHR 0xA6]),
      (CHR 0xA9, [CHR 0xD3, CHR 0xA8]), (CHR 0xAB, [CHR 0xD3, CHR 0xAA]),
      (CHR 0xAD, [CHR 0xD3, CHR 0xAC]), (CHR 0xAF, [CHR 0xD3, CHR 0xAE]),
      (CHR 0xB1, [CHR 0xD3, CHR 0xB0]), (CHR 0xB3, [CHR 0xD3, CHR 0xB2]),
      (CHR 0xB5, [CHR 0xD3, CHR 0xB4]), (CHR 0xB7, [CHR 0xD3, CHR 0xB6]),
      (CHR 0xB9, [CHR 0xD3, CHR 0xB8]), (CHR 0xBB, [CHR 0xD3, CHR 0xBA]),
      (CHR 0xBD, [CHR 0xD3, CHR 0xBC]), (CHR 0xBF, [CHR 0xD3, CHR 0xBE])]"

definition upper_row_D4 :: "(char \<times> string) list" where
  "upper_row_D4 =
     [(CHR 0x81, [CHR 0xD4, CHR 0x80]), (CHR 0x83, [CHR 0xD4, CHR 0x82]),
      (CHR 0x85, [CHR 0xD4, CHR 0x84]), (CHR 0x87, [CHR 0xD4, CHR 0x86]),
      (CHR 0x89, [CHR 0xD4, CHR 0x88]), (CHR 0x8B, [CHR 0xD4, CHR 0x8A]),
      (CHR 0x8D, [CHR 0xD4, CHR 0x8C]), (CHR 0x8F, [CHR 0xD4, CHR 0x8E]),
      (CHR 0x91, [CHR 0xD4, CHR 0x90]), (CHR 0x93, [CHR 0xD4, CHR 0x92]),
      (CHR 0x95, [CHR 0xD4, CHR 0x94]), (CHR 0x97, [CHR 0xD4, CHR 0x96]),
      (CHR 0x99, [CHR 0xD4, CHR 0x98]), (CHR 0x9B, [CHR 0xD4, CHR 0x9A]),
      (CHR 0x9D, [CHR 0xD4, CHR 0x9C]), (CHR 0x9F, [CHR 0xD4, CHR 0x9E]),
      (CHR 0xA1, [CHR 0xD4, CHR 0xA0]), (CHR 0xA3, [CHR 0xD4, CHR 0xA2]),
      (CHR 0xA5, [CHR 0xD4, CHR 0xA4]), (CHR 0xA7, [CHR 0xD4, CHR 0xA6]),
      (CHR 0xA9, [CHR 0xD4, CHR 0xA8]), (CHR 0xAB, [CHR 0xD4, CHR 0xAA]),
      (CHR 0xAD, [CHR 0xD4, CHR 0xAC]), (CHR 0xAF, [CHR 0xD4, CHR 0xAE])]"

definition upper_row_D5 :: "(char \<times> string) list" where
  "upper_row_D5 =
     [(CHR 0xA1, [CHR 0xD4, CHR 0xB1]), (CHR 0xA2, [CHR 0xD4, CHR 0xB2]),
      (CHR 0xA3, [CHR 0xD4, CHR 0xB3]), (CHR 0xA4, [CHR 0xD4, CHR 0xB4]),
      (CHR 0xA5, [CHR 0xD4, CHR 0xB5]), (CHR 0xA6, [CHR 0xD4, CHR 0xB6]),
      (CHR 0xA7, [CHR 0xD4, CHR 0xB7]), (CHR 0xA8, [CHR 0xD4, CHR 0xB8]),
      (CHR 0xA9, [CHR 0xD4, CHR 0xB9]), (CHR 0xAA, [CHR 0xD4, CHR 0xBA]),
      (CHR 0xAB, [CHR 0xD4, CHR 0xBB]), (CHR 0xAC, [CHR 0xD4, CHR 0xBC]),
      (CHR 0xAD, [CHR 0xD4, CHR 0xBD]), (CHR 0xAE, [CHR 0xD4, CHR 0xBE]),
      (CHR 0xAF, [CHR 0xD4, CHR 0xBF]), (CHR 0xB0, [CHR 0xD5, CHR 0x80]),
      (CHR 0xB1, [CHR 0xD5, CHR 0x81]), (CHR 0xB2, [CHR 0xD5, CHR 0x82]),
      (CHR 0xB3, [CHR 0xD5, CHR 0x83]), (CHR 0xB4, [CHR 0xD5, CHR 0x84]),
      (CHR 0xB5, [CHR 0xD5, CHR 0x85]), (CHR 0xB6, [CHR 0xD5, CHR 0x86]),
      (CHR 0xB7, [CHR 0xD5, CHR 0x87]), (CHR 0xB8, [CHR 0xD5, CHR 0x88]),
      (CHR 0xB9, [CHR 0xD5, CHR 0x89]), (CHR 0xBA, [CHR 0xD5, CHR 0x8A]),
      (CHR 0xBB, [CHR 0xD5, CHR 0x8B]), (CHR 0xBC, [CHR 0xD5, CHR 0x8C]),
      (CHR 0xBD, [CHR 0xD5, CHR 0x8D]), (CHR 0xBE, [CHR 0xD5, CHR 0x8E]),
      (CHR 0xBF, [CHR 0xD5, CHR 0x8F])]"

definition upper_row_D6 :: "(char \<times> string) list" where
  "upper_row_D6 =
     [(CHR 0x80, [CHR 0xD5, CHR 0x90]), (CHR 0x81, [CHR 0xD5, CHR 0x91]),
      (CHR 0x82, [CHR 0xD5, CHR 0x92]), (CHR 0x83, [CHR 0xD5, CHR 0x93]),
      (CHR 0x84, [CHR 0xD5, CHR 0x94]), (CHR 0x85, [CHR 0xD5, CHR 0x95]),
      (CHR 0x86, [CHR 0xD5, CHR 0x96]), (CHR 0x87, [CHR 0xD4, CHR 0xB5, CHR 0xD5, CHR 0x92])]"

definition upper_row_E1_83 :: "(char \<times> string) list" where
  "upper_row_E1_83 =
     [(CHR 0x90, [CHR 0xE1, CHR 0xB2, CHR 0x90]), (CHR 0x91, [CHR 0xE1, CHR 0xB2, CHR 0x91]),
      (CHR 0x92, [CHR 0xE1, CHR 0xB2, CHR 0x92]), (CHR 0x93, [CHR 0xE1, CHR 0xB2, CHR 0x93]),
      (CHR 0x94, [CHR 0xE1, CHR 0xB2, CHR 0x94]), (CHR 0x95, [CHR 0xE1, CHR 0xB2, CHR 0x95]),
      (CHR 0x96, [CHR 0xE1, CHR 0xB2, CHR 0x96]), (CHR 0x97, [CHR 0xE1, CHR 0xB2, CHR 0x97]),
      (CHR 0x98, [CHR 0xE1, CHR 0xB2, CHR 0x98]), (CHR 0x99, [CHR 0xE1, CHR 0xB2, CHR 0x99]),
      (CHR 0x9A, [CHR 0xE1, CHR 0xB2, CHR 0x9A]), (CHR 0x9B, [CHR 0xE1, CHR 0xB2, CHR 0x9B]),
      (CHR 0x9C, [CHR 0xE1, CHR 0xB2, CHR 0x9C]), (CHR 0x9D, [CHR 0xE1, CHR 0xB2, CHR 0x9D]),
      (CHR 0x9E, [CHR 0xE1, CHR 0xB2, CHR 0x9E]), (CHR 0x9F, [CHR 0xE1, CHR 0xB2, CHR 0x9F]),
      (CHR 0xA0, [CHR 0xE1, CHR 0xB2, CHR 0xA0]), (CHR 0xA1, [CHR 0xE1, CHR 0xB2, CHR 0xA1]),
      (CHR 0xA2, [CHR 0xE1, CHR 0xB2, CHR 0xA2]), (CHR 0xA3, [CHR 0xE1, CHR 0xB2, CHR 0xA3]),
      (CHR 0xA4, [CHR 0xE1, CHR 0xB2, CHR 0xA4]), (CHR 0xA5, [CHR 0xE1, CHR 0xB2, CHR 0xA5]),
      (CHR 0xA6, [CHR 0xE1, CHR 0xB2, CHR 0xA6]), (CHR 0xA7, [CHR 0xE1, CHR 0xB2, CHR 0xA7]),
      (CHR 0xA8, [CHR 0xE1, CHR 0xB2, CHR 0xA8]), (CHR 0xA9, [CHR 0xE1, CHR 0xB2, CHR 0xA9]),
      (CHR 0xAA, [CHR 0xE1, CHR 0xB2, CHR 0xAA]), (CHR 0xAB, [CHR 0xE1, CHR 0xB2, CHR 0xAB]),
      (CHR 0xAC, [CHR 0xE1, CHR 0xB2, CHR 0xAC]), (CHR 0xAD, [CHR 0xE1, CHR 0xB2, CHR 0xAD]),
      (CHR 0xAE, [CHR 0xE1, CHR 0xB2, CHR 0xAE]), (CHR 0xAF, [CHR 0xE1, CHR 0xB2, CHR 0xAF]),
      (CHR 0xB0, [CHR 0xE1, CHR 0xB2, CHR 0xB0]), (CHR 0xB1, [CHR 0xE1, CHR 0xB2, CHR 0xB1]),
      (CHR 0xB2, [CHR 0xE1, CHR 0xB2, CHR 0xB2]), (CHR 0xB3, [CHR 0xE1, CHR 0xB2, CHR 0xB3]),
      (CHR 0xB4, [CHR 0xE1, CHR 0xB2, CHR 0xB4]), (CHR 0xB5, [CHR 0xE1, CHR 0xB2, CHR 0xB5]),
      (CHR 0xB6, [CHR 0xE1, CHR 0xB2, CHR 0xB6]), (CHR 0xB7, [CHR 0xE1, CHR 0xB2, CHR 0xB7]),
      (CHR 0xB8, [CHR 0xE1, CHR 0xB2, CHR 0xB8]), (CHR 0xB9, [CHR 0xE1, CHR 0xB2, CHR 0xB9]),
      (CHR 0xBA, [CHR 0xE1, CHR 0xB2, CHR 0xBA]), (CHR 0xBD, [CHR 0xE1, CHR 0xB2, CHR 0xBD]),
      (CHR 0xBE, [CHR 0xE1, CHR 0xB2, CHR 0xBE]), (CHR 0xBF, [CHR 0xE1, CHR 0xB2, CHR 0xBF])]"

definition upper_row_E1_8F :: "(char \<times> string) list" where
  "upper_row_E1_8F =
     [(CHR 0xB8, [CHR 0xE1, CHR 0x8F, CHR 0xB0]), (CHR 0xB9, [CHR 0xE1, CHR 0x8F, CHR 0xB1]),
      (CHR 0xBA, [CHR 0xE1, CHR 0x8F, CHR 0xB2]), (CHR 0xBB, [CHR 0xE1, CHR 0x8F, CHR 0xB3]),
      (CHR 0xBC, [CHR 0xE1, CHR 0x8F, CHR 0xB4]), (CHR 0xBD, [CHR 0xE1, CHR 0x8F, CHR 0xB5])]"

definition upper_row_E1_B2 :: "(char \<times> string) list" where
  "upper_row_E1_B2 =
     [(CHR 0x80, [CHR 0xD0, CHR 0x92]), (CHR 0x81, [CHR 0xD0, CHR 0x94]),
      (CHR 0x82, [CHR 0xD0, CHR 0x9E]), (CHR 0x83, [CHR 0xD0, CHR 0xA1]),
      (CHR 0x84, [CHR 0xD0, CHR 0xA2]), (CHR 0x85, [CHR 0xD0, CHR 0xA2]),
      (CHR 0x86, [CHR 0xD0, CHR 0xAA]), (CHR 0x87, [CHR 0xD1, CHR 0xA2]),
      (CHR 0x88, [CHR 0xEA, CHR 0x99, CHR 0x8A])]"

definition upper_row_E1_B5 :: "(char \<times> string) list" where
  "upper_row_E1_B5 =
     [(CHR 0xB9, [CHR 0xEA, CHR 0x9D, CHR 0xBD]), (CHR 0xBD, [CHR 0xE2, CHR 0xB1, CHR 0xA3])]"

definition upper_row_E1_B6 :: "(char \<times> string) list" where
  "upper_row_E1_B6 =
     [(CHR 0x8E, [CHR 0xEA, CHR 0x9F, CHR 0x86])]"

definition upper_row_E1_B8 :: "(char \<times> string) list" where
  "upper_row_E1_B8 =
     [(CHR 0x81, [CHR 0xE1, CHR 0xB8, CHR 0x80]), (CHR 0x83, [CHR 0xE1, CHR 0xB8, CHR 0x82]),
      (CHR 0x85, [CHR 0xE1, CHR 0xB8, CHR 0x84]), (CHR 0x87, [CHR 0xE1, CHR 0xB8, CHR 0x86]),
      (CHR 0x89, [CHR 0xE1, CHR 0xB8, CHR 0x88]), (CHR 0x8B, [CHR 0xE1, CHR 0xB8, CHR 0x8A]),
      (CHR 0x8D, [CHR 0xE1, CHR 0xB8, CHR 0x8C]), (CHR 0x8F, [CHR 0xE1, CHR 0xB8, CHR 0x8E]),
      (CHR 0x91, [CHR 0xE1, CHR 0xB8, CHR 0x90]), (CHR 0x93, [CHR 0xE1, CHR 0xB8, CHR 0x92]),
      (CHR 0x95, [CHR 0xE1, CHR 0xB8, CHR 0x94]), (CHR 0x97, [CHR 0xE1, CHR 0xB8, CHR 0x96]),
      (CHR 0x99, [CHR 0xE1, CHR 0xB8, CHR 0x98]), (CHR 0x9B, [CHR 0xE1, CHR 0xB8, CHR 0x9A]),
      (CHR 0x9D, [CHR 0xE1, CHR 0xB8, CHR 0x9C]), (CHR 0x9F, [CHR 0xE1, CHR 0xB8, CHR 0x9E]),
      (CHR 0xA1, [CHR 0xE1, CHR 0xB8, CHR 0xA0]), (CHR 0xA3, [CHR 0xE1, CHR 0xB8, CHR 0xA2]),
      (CHR 0xA5, [CHR 0xE1, CHR 0xB8, CHR 0xA4]), (CHR 0xA7, [CHR 0xE1, CHR 0xB8, CHR 0xA6]),
      (CHR 0xA9, [CHR 0xE1, CHR 0xB8, CHR 0xA8]), (CHR 0xAB, [CHR 0xE1, CHR 0xB8, CHR 0xAA]),
      (CHR 0xAD, [CHR 0xE1, CHR 0xB8, CHR 0xAC]), (CHR 0xAF, [CHR 0xE1, CHR 0xB8, CHR 0xAE]),
      (CHR 0xB1, [CHR 0xE1, CHR 0xB8, CHR 0xB0]), (CHR 0xB3, [CHR 0xE1, CHR 0xB8, CHR 0xB2]),
      (CHR 0xB5, [CHR 0xE1, CHR 0xB8, CHR 0xB4]), (CHR 0xB7, [CHR 0xE1, CHR 0xB8, CHR 0xB6]),
      (CHR 0xB9, [CHR 0xE1, CHR 0xB8, CHR 0xB8]), (CHR 0xBB, [CHR 0xE1, CHR 0xB8, CHR 0xBA]),
      (CHR 0xBD, [CHR 0xE1, CHR 0xB8, CHR 0xBC]), (CHR 0xBF, [CHR 0xE1, CHR 0xB8, CHR 0xBE])]"

definition upper_row_E1_B9 :: "(char \<times> string) list" where
  "upper_row_E1_B9 =
     [(CHR 0x81, [CHR 0xE1, CHR 0xB9, CHR 0x80]), (CHR 0x83, [CHR 0xE1, CHR 0xB9, CHR 0x82]),
      (CHR 0x85, [CHR 0xE1, CHR 0xB9, CHR 0x84]), (CHR 0x87, [CHR 0xE1, CHR 0xB9, CHR 0x86]),
      (CHR 0x89, [CHR 0xE1, CHR 0xB9, CHR 0x88]), (CHR 0x8B, [CHR 0xE1, CHR 0xB9, CHR 0x8A]),
      (CHR 0x8D, [CHR 0xE1, CHR 0xB9, CHR 0x8C]), (CHR 0x8F, [CHR 0xE1, CHR 0xB9, CHR 0x8E]),
      (CHR 0x91, [CHR 0xE1, CHR 0xB9, CHR 0x90]), (CHR 0x93, [CHR 0xE1, CHR 0xB9, CHR 0x92]),
      (CHR 0x95, [CHR 0xE1, CHR 0xB9, CHR 0x94]), (CHR 0x97, [CHR 0xE1, CHR 0xB9, CHR 0x96]),
      (CHR 0x99, [CHR 0xE1, CHR 0xB9, CHR 0x98]), (CHR 0x9B, [CHR 0xE1, CHR 0xB9, CHR 0x9A]),
      (CHR 0x9D, [CHR 0xE1, CHR 0xB9, CHR 0x9C]), (CHR 0x9F, [CHR 0xE1, CHR 0xB9, CHR 0x9E]),
      (CHR 0xA1, [CHR 0xE1, CHR 0xB9, CHR 0xA0]), (CHR 0xA3, [CHR 0xE1, CHR 0xB9, CHR 0xA2]),
      (CHR 0xA5, [CHR 0xE1, CHR 0xB9, CHR 0xA4]), (CHR 0xA7, [CHR 0xE1, CHR 0xB9, CHR 0xA6]),
      (CHR 0xA9, [CHR 0xE1, CHR 0xB9, CHR 0xA8]), (CHR 0xAB, [CHR 0xE1, CHR 0xB9, CHR 0xAA]),
      (CHR 0xAD, [CHR 0xE1, CHR 0xB9, CHR 0xAC]), (CHR 0xAF, [CHR 0xE1, CHR 0xB9, CHR 0xAE]),
      (CHR 0xB1, [CHR 0xE1, CHR 0xB9, CHR 0xB0]), (CHR 0xB3, [CHR 0xE1, CHR 0xB9, CHR 0xB2]),
      (CHR 0xB5, [CHR 0xE1, CHR 0xB9, CHR 0xB4]), (CHR 0xB7, [CHR 0xE1, CHR 0xB9, CHR 0xB6]),
      (CHR 0xB9, [CHR 0xE1, CHR 0xB9, CHR 0xB8]), (CHR 0xBB, [CHR 0xE1, CHR 0xB9, CHR 0xBA]),
      (CHR 0xBD, [CHR 0xE1, CHR 0xB9, CHR 0xBC]), (CHR 0xBF, [CHR 0xE1, CHR 0xB9, CHR 0xBE])]"

definition upper_row_E1_BA :: "(char \<times> string) list" where
  "upper_row_E1_BA =
     [(CHR 0x81, [CHR 0xE1, CHR 0xBA, CHR 0x80]), (CHR 0x83, [CHR 0xE1, CHR 0xBA, CHR 0x82]),
      (CHR 0x85, [CHR 0xE1, CHR 0xBA, CHR 0x84]), (CHR 0x87, [CHR 0xE1, CHR 0xBA, CHR 0x86]),
      (CHR 0x89, [CHR 0xE1, CHR 0xBA, CHR 0x88]), (CHR 0x8B, [CHR 0xE1, CHR 0xBA, CHR 0x8A]),
      (CHR 0x8D, [CHR 0xE1, CHR 0xBA, CHR 0x8C]), (CHR 0x8F, [CHR 0xE1, CHR 0xBA, CHR 0x8E]),
      (CHR 0x91, [CHR 0xE1, CHR 0xBA, CHR 0x90]), (CHR 0x93, [CHR 0xE1, CHR 0xBA, CHR 0x92]),
      (CHR 0x95, [CHR 0xE1, CHR 0xBA, CHR 0x94]), (CHR 0x96, [CHR 0x48, CHR 0xCC, CHR 0xB1]),
      (CHR 0x97, [CHR 0x54, CHR 0xCC, CHR 0x88]), (CHR 0x98, [CHR 0x57, CHR 0xCC, CHR 0x8A]),
      (CHR 0x99, [CHR 0x59, CHR 0xCC, CHR 0x8A]), (CHR 0x9A, [CHR 0x41, CHR 0xCA, CHR 0xBE]),
      (CHR 0x9B, [CHR 0xE1, CHR 0xB9, CHR 0xA0]), (CHR 0xA1, [CHR 0xE1, CHR 0xBA, CHR 0xA0]),
      (CHR 0xA3, [CHR 0xE1, CHR 0xBA, CHR 0xA2]), (CHR 0xA5, [CHR 0xE1, CHR 0xBA, CHR 0xA4]),
      (CHR 0xA7, [CHR 0xE1, CHR 0xBA, CHR 0xA6]), (CHR 0xA9, [CHR 0xE1, CHR 0xBA, CHR 0xA8]),
      (CHR 0xAB, [CHR 0xE1, CHR 0xBA, CHR 0xAA]), (CHR 0xAD, [CHR 0xE1, CHR 0xBA, CHR 0xAC]),
      (CHR 0xAF, [CHR 0xE1, CHR 0xBA, CHR 0xAE]), (CHR 0xB1, [CHR 0xE1, CHR 0xBA, CHR 0xB0]),
      (CHR 0xB3, [CHR 0xE1, CHR 0xBA, CHR 0xB2]), (CHR 0xB5, [CHR 0xE1, CHR 0xBA, CHR 0xB4]),
      (CHR 0xB7, [CHR 0xE1, CHR 0xBA, CHR 0xB6]), (CHR 0xB9, [CHR 0xE1, CHR 0xBA, CHR 0xB8]),
      (CHR 0xBB, [CHR 0xE1, CHR 0xBA, CHR 0xBA]), (CHR 0xBD, [CHR 0xE1, CHR 0xBA, CHR 0xBC]),
      (CHR 0xBF, [CHR 0xE1, CHR 0xBA, CHR 0xBE])]"

definition upper_row_E1_BB :: "(char \<times> string) list" where
  "upper_row_E1_BB =
     [(CHR 0x81, [CHR 0xE1, CHR 0xBB, CHR 0x80]), (CHR 0x83, [CHR 0xE1, CHR 0xBB, CHR 0x82]),
      (CHR 0x85, [CHR 0xE1, CHR 0xBB, CHR 0x84]), (CHR 0x87, [CHR 0xE1, CHR 0xBB, CHR 0x86]),
      (CHR 0x89, [CHR 0xE1, CHR 0xBB, CHR 0x88]), (CHR 0x8B, [CHR 0xE1, CHR 0xBB, CHR 0x8A]),
      (CHR 0x8D, [CHR 0xE1, CHR 0xBB, CHR 0x8C]), (CHR 0x8F, [CHR 0xE1, CHR 0xBB, CHR 0x8E]),
      (CHR 0x91, [CHR 0xE1, CHR 0xBB, CHR 0x90]), (CHR 0x93, [CHR 0xE1, CHR 0xBB, CHR 0x92]),
      (CHR 0x95, [CHR 0xE1, CHR 0xBB, CHR 0x94]), (CHR 0x97, [CHR 0xE1, CHR 0xBB, CHR 0x96]),
      (CHR 0x99, [CHR 0xE1, CHR 0xBB, CHR 0x98]), (CHR 0x9B, [CHR 0xE1, CHR 0xBB, CHR 0x9A]),
      (CHR 0x9D, [CHR 0xE1, CHR 0xBB, CHR 0x9C]), (CHR 0x9F, [CHR 0xE1, CHR 0xBB, CHR 0x9E]),
      (CHR 0xA1, [CHR 0xE1, CHR 0xBB, CHR 0xA0]), (CHR 0xA3, [CHR 0xE1, CHR 0xBB, CHR 0xA2]),
      (CHR 0xA5, [CHR 0xE1, CHR 0xBB, CHR 0xA4]), (CHR 0xA7, [CHR 0xE1, CHR 0xBB, CHR 0xA6]),
      (CHR 0xA9, [CHR 0xE1, CHR 0xBB, CHR 0xA8]), (CHR 0xAB, [CHR 0xE1, CHR 0xBB, CHR 0xAA]),
      (CHR 0xAD, [CHR 0xE1, CHR 0xBB, CHR 0xAC]), (CHR 0xAF, [CHR 0xE1, CHR 0xBB, CHR 0xAE]),
      (CHR 0xB1, [CHR 0xE1, CHR 0xBB, CHR 0xB0]), (CHR 0xB3, [CHR 0xE1, CHR 0xBB, CHR 0xB2]),
      (CHR 0xB5, [CHR 0xE1, CHR 0xBB, CHR 0xB4]), (CHR 0xB7, [CHR 0xE1, CHR 0xBB, CHR 0xB6]),
      (CHR 0xB9, [CHR 0xE1, CHR 0xBB, CHR 0xB8]), (CHR 0xBB, [CHR 0xE1, CHR 0xBB, CHR 0xBA]),
      (CHR 0xBD, [CHR 0xE1, CHR 0xBB, CHR 0xBC]), (CHR 0xBF, [CHR 0xE1, CHR 0xBB, CHR 0xBE])]"

definition upper_row_E1_BC :: "(char \<times> string) list" where
  "upper_row_E1_BC =
     [(CHR 0x80, [CHR 0xE1, CHR 0xBC, CHR 0x88]), (CHR 0x81, [CHR 0xE1, CHR 0xBC, CHR 0x89]),
      (CHR 0x82, [CHR 0xE1, CHR 0xBC, CHR 0x8A]), (CHR 0x83, [CHR 0xE1, CHR 0xBC, CHR 0x8B]),
      (CHR 0x84, [CHR 0xE1, CHR 0xBC, CHR 0x8C]), (CHR 0x85, [CHR 0xE1, CHR 0xBC, CHR 0x8D]),
      (CHR 0x86, [CHR 0xE1, CHR 0xBC, CHR 0x8E]), (CHR 0x87, [CHR 0xE1, CHR 0xBC, CHR 0x8F]),
      (CHR 0x90, [CHR 0xE1, CHR 0xBC, CHR 0x98]), (CHR 0x91, [CHR 0xE1, CHR 0xBC, CHR 0x99]),
      (CHR 0x92, [CHR 0xE1, CHR 0xBC, CHR 0x9A]), (CHR 0x93, [CHR 0xE1, CHR 0xBC, CHR 0x9B]),
      (CHR 0x94, [CHR 0xE1, CHR 0xBC, CHR 0x9C]), (CHR 0x95, [CHR 0xE1, CHR 0xBC, CHR 0x9D]),
      (CHR 0xA0, [CHR 0xE1, CHR 0xBC, CHR 0xA8]), (CHR 0xA1, [CHR 0xE1, CHR 0xBC, CHR 0xA9]),
      (CHR 0xA2, [CHR 0xE1, CHR 0xBC, CHR 0xAA]), (CHR 0xA3, [CHR 0xE1, CHR 0xBC, CHR 0xAB]),
      (CHR 0xA4, [CHR 0xE1, CHR 0xBC, CHR 0xAC]), (CHR 0xA5, [CHR 0xE1, CHR 0xBC, CHR 0xAD]),
      (CHR 0xA6, [CHR 0xE1, CHR 0xBC, CHR 0xAE]), (CHR 0xA7, [CHR 0xE1, CHR 0xBC, CHR 0xAF]),
      (CHR 0xB0, [CHR 0xE1, CHR 0xBC, CHR 0xB8]), (CHR 0xB1, [CHR 0xE1, CHR 0xBC, CHR 0xB9]),
      (CHR 0xB2, [CHR 0xE1, CHR 0xBC, CHR 0xBA]), (CHR 0xB3, [CHR 0xE1, CHR 0xBC, CHR 0xBB]),
      (CHR 0xB4, [CHR 0xE1, CHR 0xBC, CHR 0xBC]), (CHR 0xB5, [CHR 0xE1, CHR 0xBC, CHR 0xBD]),
      (CHR 0xB6, [CHR 0xE1, CHR 0xBC, CHR 0xBE]), (CHR 0xB7, [CHR 0xE1, CHR 0xBC, CHR 0xBF])]"

definition upper_row_E1_BD :: "(char \<times> string) list" where
  "upper_row_E1_BD =
     [(CHR 0x80, [CHR 0xE1, CHR 0xBD, CHR 0x88]), (CHR 0x81, [CHR 0xE1, CHR 0xBD, CHR 0x89]),
      (CHR 0x82, [CHR 0xE1, CHR 0xBD, CHR 0x8A]), (CHR 0x83, [CHR 0xE1, CHR 0xBD, CHR 0x8B]),
      (CHR 0x84, [CHR 0xE1, CHR 0xBD, CHR 0x8C]), (CHR 0x85, [CHR 0xE1, CHR 0xBD, CHR 0x8D]),
      (CHR 0x90, [CHR 0xCE, CHR 0xA5, CHR 0xCC, CHR 0x93]),
      (CHR 0x91, [CHR 0xE1, CHR 0xBD, CHR 0x99]),
      (CHR 0x92, [CHR 0xCE, CHR 0xA5, CHR 0xCC, CHR 0x93, CHR 0xCC, CHR 0x80]),
      (CHR 0x93, [CHR 0xE1, CHR 0xBD, CHR 0x9B]),
      (CHR 0x94, [CHR 0xCE, CHR 0xA5, CHR 0xCC, CHR 0x93, CHR 0xCC, CHR 0x81]),
      (CHR 0x95, [CHR 0xE1, CHR 0xBD, CHR 0x9D]),
      (CHR 0x96, [CHR 0xCE, CHR 0xA5, CHR 0xCC, CHR 0x93, CHR 0xCD, CHR 0x82]),
      (CHR 0x97, [CHR 0xE1, CHR 0xBD, CHR 0x9F]), (CHR 0xA0, [CHR 0xE1, CHR 0xBD, CHR 0xA8]),
      (CHR 0xA1, [CHR 0xE1, CHR 0xBD, CHR 0xA9]), (CHR 0xA2, [CHR 0xE1, CHR 0xBD, CHR 0xAA]),
      (CHR 0xA3, [CHR 0xE1, CHR 0xBD, CHR 0xAB]), (CHR 0xA4, [CHR 0xE1, CHR 0xBD, CHR 0xAC]),
      (CHR 0xA5, [CHR 0xE1, CHR 0xBD, CHR 0xAD]), (CHR 0xA6, [CHR 0xE1, CHR 0xBD, CHR 0xAE]),
      (CHR 0xA7, [CHR 0xE1, CHR 0xBD, CHR 0xAF]), (CHR 0xB0, [CHR 0xE1, CHR 0xBE, CHR 0xBA]),
      (CHR 0xB1, [CHR 0xE1, CHR 0xBE, CHR 0xBB]), (CHR 0xB2, [CHR 0xE1, CHR 0xBF, CHR 0x88]),
      (CHR 0xB3, [CHR 0xE1, CHR 0xBF, CHR 0x89]), (CHR 0xB4, [CHR 0xE1, CHR 0xBF, CHR 0x8A]),
      (CHR 0xB5, [CHR 0xE1, CHR 0xBF, CHR 0x8B]), (CHR 0xB6, [CHR 0xE1, CHR 0xBF, CHR 0x9A]),
      (CHR 0xB7, [CHR 0xE1, CHR 0xBF, CHR 0x9B]), (CHR 0xB8, [CHR 0xE1, CHR 0xBF, CHR 0xB8]),
      (CHR 0xB9, [CHR 0xE1, CHR 0xBF, CHR 0xB9]), (CHR 0xBA, [CHR 0xE1, CHR 0xBF, CHR 0xAA]),
      (CHR 0xBB, [CHR 0xE1, CHR 0xBF, CHR 0xAB]), (CHR 0xBC, [CHR 0xE1, CHR 0xBF, CHR 0xBA]),
      (CHR 0xBD, [CHR 0xE1, CHR 0xBF, CHR 0xBB])]"

definition upper_row_E1_BE :: "(char \<times> string) list" where
  "upper_row_E1_BE =
     [(CHR 0x80, [CHR 0xE1, CHR 0xBC, CHR 0x88, CHR 0xCE, CHR 0x99]),
      (CHR 0x81, [CHR 0xE1, CHR 0xBC, CHR 0x89, CHR 0xCE, CHR 0x99]),
      (CHR 0x82, [CHR 0xE1, CHR 0xBC, CHR 0x8A, CHR 0xCE, CHR 0x99]),
      (CHR 0x83, [CHR 0xE1, CHR 0xBC, CHR 0x8B, CHR 0xCE, CHR 0x99]),
      (CHR 0x84, [CHR 0xE1, CHR 0xBC, CHR 0x8C, CHR 0xCE, CHR 0x99]),
      (CHR 0x85, [CHR 0xE1, CHR 0xBC, CHR 0x8D, CHR 0xCE, CHR 0x99]),
      (CHR 0x86, [CHR 0xE1, CHR 0xBC, CHR 0x8E, CHR 0xCE, CHR 0x99]),
      (CHR 0x87, [CHR 0xE1, CHR 0xBC, CHR 0x8F, CHR 0xCE, CHR 0x99]),
      (CHR 0x88, [CHR 0xE1, CHR 0xBC, CHR 0x88, CHR 0xCE, CHR 0x99]),
      (CHR 0x89, [CHR 0xE1, CHR 0xBC, CHR 0x89, CHR 0xCE, CHR 0x99]),
      (CHR 0x8A, [CHR 0xE1, CHR 0xBC, CHR 0x8A, CHR 0xCE, CHR 0x99]),
      (CHR 0x8B, [CHR 0xE1, CHR 0xBC, CHR 0x8B, CHR 0xCE, CHR 0x99]),
      (CHR 0x8C, [CHR 0xE1, CHR 0xBC, CHR 0x8C, CHR 0xCE, CHR 0x99]),
      (CHR 0x8D, [CHR 0xE1, CHR 0xBC, CHR 0x8D, CHR 0xCE, CHR 0x99]),
      (CHR 0x8E, [CHR 0xE1, CHR 0xBC, CHR 0x8E, CHR 0xCE, CHR 0x99]),
      (CHR 0x8F, [CHR 0xE1, CHR 0xBC, CHR 0x8F, CHR 0xCE, CHR 0x99]),
      (CHR 0x90, [CHR 0xE1, CHR 0xBC, CHR 0xA8, CHR 0xCE, CHR 0x99]),
      (CHR 0x91, [CHR 0xE1, CHR 0xBC, CHR 0xA9, CHR 0xCE, CHR 0x99]),
      (CHR 0x92, [CHR 0xE1, CHR 0xBC, CHR 0xAA, CHR 0xCE, CHR 0x99]),
      (CHR 0x93, [CHR 0xE1, CHR 0xBC, CHR 0xAB, CHR 0xCE, CHR 0x99]),
      (CHR 0x94, [CHR 0xE1, CHR 0xBC, CHR 0xAC, CHR 0xCE, CHR 0x99]),
      (CHR 0x95, [CHR 0xE1, CHR 0xBC, CHR 0xAD, CHR 0xCE, CHR 0x99]),
      (CHR 0x96, [CHR 0xE1, CHR 0xBC, CHR 0xAE, CHR 0xCE, CHR 0x99]),
      (CHR 0x97, [CHR 0xE1, CHR 0xBC, CHR 0xAF, CHR 0xCE, CHR 0x99]),
      (CHR 0x98, [CHR 0xE1, CHR 0xBC, CHR 0xA8, CHR 0xCE, CHR 0x99]),
      (CHR 0x99, [CHR 0xE1, CHR 0xBC, CHR 0xA9, CHR 0xCE, CHR 0x99]),
      (CHR 0x9A, [CHR 0xE1, CHR 0xBC, CHR 0xAA, CHR 0xCE, CHR 0x99]),
      (CHR 0x9B, [CHR 0xE1, CHR 0xBC, CHR 0xAB, CHR 0xCE, CHR 0x99]),
      (CHR 0x9C, [CHR 0xE1, CHR 0xBC, CHR 0xAC, CHR 0xCE, CHR 0x99]),
      (CHR 0x9D, [CHR 0xE1, CHR 0xBC, CHR 0xAD, CHR 0xCE, CHR 0x99]),
      (CHR 0x9E, [CHR 0xE1, CHR 0xBC, CHR 0xAE, CHR 0xCE, CHR 0x99]),
      (CHR 0x9F, [CHR 0xE1, CHR 0xBC, CHR 0xAF, CHR 0xCE, CHR 0x99]),
      (CHR 0xA0, [CHR 0xE1, CHR 0xBD, CHR 0xA8, CHR 0xCE, CHR 0x99]),
      (CHR 0xA1, [CHR 0xE1, CHR 0xBD, CHR 0xA9, CHR 0xCE, CHR 0x99]),
      (CHR 0xA2, [CHR 0xE1, CHR 0xBD, CHR 0xAA, CHR 0xCE, CHR 0x99]),
      (CHR 0xA3, [CHR 0xE1, CHR 0xBD, CHR 0xAB, CHR 0xCE, CHR 0x99]),
      (CHR 0xA4, [CHR 0xE1, CHR 0xBD, CHR 0xAC, CHR 0xCE, CHR 0x99]),
      (CHR 0xA5, [CHR 0xE1, CHR 0xBD, CHR 0xAD, CHR 0xCE, CHR 0x99]),
      (CHR 0xA6, [CHR 0xE1, CHR 0xBD, CHR 0xAE, CHR 0xCE, CHR 0x99]),
      (CHR 0xA7, [CHR 0xE1, CHR 0xBD, CHR 0xAF, CHR 0xCE, CHR 0x99]),
      (CHR 0xA8, [CHR 0xE1, CHR 0xBD, CHR 0xA8, CHR 0xCE, CHR 0x99]),
      (CHR 0xA9, [CHR 0xE1, CHR 0xBD, CHR 0xA9, CHR 0xCE, CHR 0x99]),
      (CHR 0xAA, [CHR 0xE1, CHR 0xBD, CHR 0xAA, CHR 0xCE, CHR 0x99]),
      (CHR 0xAB, [CHR 0xE1, CHR 0xBD, CHR 0xAB, CHR 0xCE, CHR 0x99]),
      (CHR 0xAC, [CHR 0xE1, CHR 0xBD, CHR 0xAC, CHR 0xCE, CHR 0x99]),
      (CHR 0xAD, [CHR 0xE1, CHR 0xBD, CHR 0xAD, CHR 0xCE, CHR 0x99]),
      (CHR 0xAE, [CHR 0xE1, CHR 0xBD, CHR 0xAE, CHR 0xCE, CHR 0x99]),
      (CHR 0xAF, [CHR 0xE1, CHR 0xBD, CHR 0xAF, CHR 0xCE, CHR 0x99]),
      (CHR 0xB0, [CHR 0xE1, CHR 0xBE, CHR 0xB8]), (CHR 0xB1, [CHR 0xE1, CHR 0xBE, CHR 0xB9]),
      (CHR 0xB2, [CHR 0xE1, CHR 0xBE, CHR 0xBA, CHR 0xCE, CHR 0x99]),
      (CHR 0xB3, [CHR 0xCE, CHR 0x91, CHR 0xCE, CHR 0x99]),
      (CHR 0xB4, [CHR 0xCE, CHR 0x86, CHR 0xCE, CHR 0x99]),
      (CHR 0xB6, [CHR 0xCE, CHR 0x91, CHR 0xCD, CHR 0x82]),
      (CHR 0xB7, [CHR 0xCE, CHR 0x91, CHR 0xCD, CHR 0x82, CHR 0xCE, CHR 0x99]),
      (CHR 0xBC, [CHR 0xCE, CHR 0x91, CHR 0xCE, CHR 0x99]), (CHR 0xBE, [CHR 0xCE, CHR 0x99])]"

definition upper_row_E1_BF :: "(char \<times> string) list" where
  "upper_row_E1_BF =
     [(CHR 0x82, [CHR 0xE1, CHR 0xBF, CHR 0x8A, CHR 0xCE, CHR 0x99]),
      (CHR 0x83, [CHR 0xCE, CHR 0x97, CHR 0xCE, CHR 0x99]),
      (CHR 0x84, [CHR 0xCE, CHR 0x89, CHR 0xCE, CHR 0x99]),
      (CHR 0x86, [CHR 0xCE, CHR 0x97, CHR 0xCD, CHR 0x82]),
      (CHR 0x87, [CHR 0xCE, CHR 0x97, CHR 0xCD, CHR 0x82, CHR 0xCE, CHR 0x99]),
      (CHR 0x8C, [CHR 0xCE, CHR 0x97, CHR 0xCE, CHR 0x99]),
      (CHR 0x90, [CHR 0xE1, CHR 0xBF, CHR 0x98]), (CHR 0x91, [CHR 0xE1, CHR 0xBF, CHR 0x99]),
      (CHR 0x92, [CHR 0xCE, CHR 0x99, CHR 0xCC, CHR 0x88, CHR 0xCC, CHR 0x80]),
      (CHR 0x93, [CHR 0xCE, CHR 0x99, CHR 0xCC, CHR 0x88, CHR 0xCC, CHR 0x81]),
      (CHR 0x96, [CHR 0xCE, CHR 0x99, CHR 0xCD, CHR 0x82]),
      (CHR 0x97, [CHR 0xCE, CHR 0x99, CHR 0xCC, CHR 0x88, CHR 0xCD, CHR 0x82]),
      (CHR 0xA0, [CHR 0xE1, CHR 0xBF, CHR 0xA8]), (CHR 0xA1, [CHR 0xE1, CHR 0xBF, CHR 0xA9]),
      (CHR 0xA2, [CHR 0xCE, CHR 0xA5, CHR 0xCC, CHR 0x88, CHR 0xCC, CHR 0x80]),
      (CHR 0xA3, [CHR 0xCE, CHR 0xA5, CHR 0xCC, CHR 0x88, CHR 0xCC, CHR 0x81]),
      (CHR 0xA4, [CHR 0xCE, CHR 0xA1, CHR 0xCC, CHR 0x93]),
      (CHR 0xA5, [CHR 0xE1, CHR 0xBF, CHR 0xAC]),
      (CHR 0xA6, [CHR 0xCE, CHR 0xA5, CHR 0xCD, CHR 0x82]),
      (CHR 0xA7, [CHR 0xCE, CHR 0xA5, CHR 0xCC, CHR 0x88, CHR 0xCD, CHR 0x82]),
      (CHR 0xB2, [CHR 0xE1, CHR 0xBF, CHR 0xBA, CHR 0xCE, CHR 0x99]),
      (CHR 0xB3, [CHR 0xCE, CHR 0xA9, CHR 0xCE, CHR 0x99]),
      (CHR 0xB4, [CHR 0xCE, CHR 0x8F, CHR 0xCE, CHR 0x99]),
      (CHR 0xB6, [CHR 0xCE, CHR 0xA9, CHR 0xCD, CHR 0x82]),
      (CHR 0xB7, [CHR 0xCE, CHR 0xA9, CHR 0xCD, CHR 0x82, CHR 0xCE, CHR 0x99]),
      (CHR 0xBC, [CHR 0xCE, CHR 0xA9, CHR 0xCE, CHR 0x99])]"

definition upper_row_E2_85 :: "(char \<times> string) list" where
  "upper_row_E2_85 =
     [(CHR 0x8E, [CHR 0xE2, CHR 0x84, CHR 0xB2]), (CHR 0xB0, [CHR 0xE2, CHR 0x85, CHR 0xA0]),
      (CHR 0xB1, [CHR 0xE2, CHR 0x85, CHR 0xA1]), (CHR 0xB2, [CHR 0xE2, CHR 0x85, CHR 0xA2]),
      (CHR 0xB3, [CHR 0xE2, CHR 0x85, CHR 0xA3]), (CHR 0xB4, [CHR 0xE2, CHR 0x85, CHR 0xA4]),
      (CHR 0xB5, [CHR 0xE2, CHR 0x85, CHR 0xA5]), (CHR 0xB6, [CHR 0xE2, CHR 0x85, CHR 0xA6]),
      (CHR 0xB7, [CHR 0xE2, CHR 0x85, CHR 0xA7]), (CHR 0xB8, [CHR 0xE2, CHR 0x85, CHR 0xA8]),
      (CHR 0xB9, [CHR 0xE2, CHR 0x85, CHR 0xA9]), (CHR 0xBA, [CHR 0xE2, CHR 0x85, CHR 0xAA]),
      (CHR 0xBB, [CHR 0xE2, CHR 0x85, CHR 0xAB]), (CHR 0xBC, [CHR 0xE2, CHR 0x85, CHR 0xAC]),
      (CHR 0xBD, [CHR 0xE2, CHR 0x85, CHR 0xAD]), (CHR 0xBE, [CHR 0xE2, CHR 0x85, CHR 0xAE]),
      (CHR 0xBF, [CHR 0xE2, CHR 0x85, CHR 0xAF])]"

definition upper_row_E2_86 :: "(char \<times> string) list" where
  "upper_row_E2_86 =
     [(CHR 0x84, [CHR 0xE2, CHR 0x86, CHR 0x83])]"

definition upper_row_E2_93 :: "(char \<times> string) list" where
  "upper_row_E2_93 =
     [(CHR 0x90, [CHR 0xE2, CHR 0x92, CHR 0xB6]), (CHR 0x91, [CHR 0xE2, CHR 0x92, CHR 0xB7]),
      (CHR 0x92, [CHR 0xE2, CHR 0x92, CHR 0xB8]), (CHR 0x93, [CHR 0xE2, CHR 0x92, CHR 0xB9]),
      (CHR 0x94, [CHR 0xE2, CHR 0x92, CHR 0xBA]), (CHR 0x95, [CHR 0xE2, CHR 0x92, CHR 0xBB]),
      (CHR 0x96, [CHR 0xE2, CHR 0x92, CHR 0xBC]), (CHR 0x97, [CHR 0xE2, CHR 0x92, CHR 0xBD]),
      (CHR 0x98, [CHR 0xE2, CHR 0x92, CHR 0xBE]), (CHR 0x99, [CHR 0xE2, CHR 0x92, CHR 0xBF]),
      (CHR 0x9A, [CHR 0xE2, CHR 0x93, CHR 0x80]), (CHR 0x9B, [CHR 0xE2, CHR 0x93, CHR 0x81]),
      (CHR 0x9C, [CHR 0xE2, CHR 0x93, CHR 0x82]), (CHR 0x9D, [CHR 0xE2, CHR 0x93, CHR 0x83]),
      (CHR 0x9E, [CHR 0xE2, CHR 0x93, CHR 0x84]), (CHR 0x9F, [CHR 0xE2, CHR 0x93, CHR 0x85]),
      (CHR 0xA0, [CHR 0xE2, CHR 0x93, CHR 0x86]), (CHR 0xA1, [CHR 0xE2, CHR 0x93, CHR 0x87]),
      (CHR 0xA2, [CHR 0xE2, CHR 0x93, CHR 0x88]), (CHR 0xA3, [CHR 0xE2, CHR 0x93, CHR 0x89]),
      (CHR 0xA4, [CHR 0xE2, CHR 0x93, CHR 0x8A]), (CHR 0xA5, [CHR 0xE2, CHR 0x93, CHR 0x8B]),
      (CHR 0xA6, [CHR 0xE2, CHR 0x93, CHR 0x8C]), (CHR 0xA7, [CHR 0xE2, CHR 0x93, CHR 0x8D]),
      (CHR 0xA8, [CHR 0xE2, CHR 0x93, CHR 0x8E]), (CHR 0xA9, [CHR 0xE2, CHR 0x93, CHR 0x8F])]"

definition upper_row_E2_B0 :: "(char \<times> string) list" where
  "upper_row_E2_B0 =
     [(CHR 0xB0, [CHR 0xE2, CHR 0xB0, CHR 0x80]), (CHR 0xB1, [CHR 0xE2, CHR 0xB0, CHR 0x81]),
      (CHR 0xB2, [CHR 0xE2, CHR 0xB0, CHR 0x82]), (CHR 0xB3, [CHR 0xE2, CHR 0xB0, CHR 0x83]),
      (CHR 0xB4, [CHR 0xE2, CHR 0xB0, CHR 0x84]), (CHR 0xB5, [CHR 0xE2, CHR 0xB0, CHR 0x85]),
      (CHR 0xB6, [CHR 0xE2, CHR 0xB0, CHR 0x86]), (CHR 0xB7, [CHR 0xE2, CHR 0xB0, CHR 0x87]),
      (CHR 0xB8, [CHR 0xE2, CHR 0xB0, CHR 0x88]), (CHR 0xB9, [CHR 0xE2, CHR 0xB0, CHR 0x89]),
      (CHR 0xBA, [CHR 0xE2, CHR 0xB0, CHR 0x8A]), (CHR 0xBB, [CHR 0xE2, CHR 0xB0, CHR 0x8B]),
      (CHR 0xBC, [CHR 0xE2, CHR 0xB0, CHR 0x8C]), (CHR 0xBD, [CHR 0xE2, CHR 0xB0, CHR 0x8D]),
      (CHR 0xBE, [CHR 0xE2, CHR 0xB0, CHR 0x8E]), (CHR 0xBF, [CHR 0xE2, CHR 0xB0, CHR 0x8F])]"

definition upper_row_E2_B1 :: "(char \<times> string) list" where
  "upper_row_E2_B1 =
     [(CHR 0x80, [CHR 0xE2, CHR 0xB0, CHR 0x90]), (CHR 0x81, [CHR 0xE2, CHR 0xB0, CHR 0x91]),
      (CHR 0x82, [CHR 0xE2, CHR 0xB0, CHR 0x92]), (CHR 0x83, [CHR 0xE2, CHR 0xB0, CHR 0x93]),
      (CHR 0x84, [CHR 0xE2, CHR 0xB0, CHR 0x94]), (CHR 0x85, [CHR 0xE2, CHR 0xB0, CHR 0x95]),
      (CHR 0x86, [CHR 0xE2, CHR 0xB0, CHR 0x96]), (CHR 0x87, [CHR 0xE2, CHR 0xB0, CHR 0x97]),
      (CHR 0x88, [CHR 0xE2, CHR 0xB0, CHR 0x98]), (CHR 0x89, [CHR 0xE2, CHR 0xB0, CHR 0x99]),
      (CHR 0x8A, [CHR 0xE2, CHR 0xB0, CHR 0x9A]), (CHR 0x8B, [CHR 0xE2, CHR 0xB0, CHR 0x9B]),
      (CHR 0x8C, [CHR 0xE2, CHR 0xB0, CHR 0x9C]), (CHR 0x8D, [CHR 0xE2, CHR 0xB0, CHR 0x9D]),
      (CHR 0x8E, [CHR 0xE2, CHR 0xB0, CHR 0x9E]), (CHR 0x8F, [CHR 0xE2, CHR 0xB0, CHR 0x9F]),
      (CHR 0x90, [CHR 0xE2, CHR 0xB0, CHR 0xA0]), (CHR 0x91, [CHR 0xE2, CHR 0xB0, CHR 0xA1]),
      (CHR 0x92, [CHR 0xE2, CHR 0xB0, CHR 0xA2]), (CHR 0x93, [CHR 0xE2, CHR 0xB0, CHR 0xA3]),
      (CHR 0x94, [CHR 0xE2, CHR 0xB0, CHR 0xA4]), (CHR 0x95, [CHR 0xE2, CHR 0xB0, CHR 0xA5]),
      (CHR 0x96, [CHR 0xE2, CHR 0xB0, CHR 0xA6]), (CHR 0x97, [CHR 0xE2, CHR 0xB0, CHR 0xA7]),
      (CHR 0x98, [CHR 0xE2, CHR 0xB0, CHR 0xA8]), (CHR 0x99, [CHR 0xE2, CHR 0xB0, CHR 0xA9]),
      (CHR 0x9A, [CHR 0xE2, CHR 0xB0, CHR 0xAA]), (CHR 0x9B, [CHR 0xE2, CHR 0xB0, CHR 0xAB]),
      (CHR 0x9C, [CHR 0xE2, CHR 0xB0, CHR 0xAC]), (CHR 0x9D, [CHR 0xE2, CHR 0xB0, CHR 0xAD]),
      (CHR 0x9E, [CHR 0xE2, CHR 0xB0, CHR 0xAE]), (CHR 0x9F, [CHR 0xE2, CHR 0xB0, CHR 0xAF]),
      (CHR 0xA1, [CHR 0xE2, CHR 0xB1, CHR 0xA0]), (CHR 0xA5, [CHR 0xC8, CHR 0xBA]),
      (CHR 0xA6, [CHR 0xC8, CHR 0xBE]), (CHR 0xA8, [CHR 0xE2, CHR 0xB1, CHR 0xA7]),
      (CHR 0xAA, [CHR 0xE2, CHR 0xB1, CHR 0xA9]), (CHR 0xAC, [CHR 0xE2, CHR 0xB1, CHR 0xAB]),
      (CHR 0xB3, [CHR 0xE2, CHR 0xB1, CHR 0xB2]), (CHR 0xB6, [CHR 0xE2, CHR 0xB1, CHR 0xB5])]"

definition upper_row_E2_B2 :: "(char \<times> string) list" where
  "upper_row_E2_B2 =
     [(CHR 0x81, [CHR 0xE2, CHR 0xB2, CHR 0x80]), (CHR 0x83, [CHR 0xE2, CHR 0xB2, CHR 0x82]),
      (CHR 0x85, [CHR 0xE2, CHR 0xB2, CHR 0x84]), (CHR 0x87, [CHR 0xE2, CHR 0xB2, CHR 0x86]),
      (CHR 0x89, [CHR 0xE2, CHR 0xB2, CHR 0x88]), (CHR 0x8B, [CHR 0xE2, CHR 0xB2, CHR 0x8A]),
      (CHR 0x8D, [CHR 0xE2, CHR 0xB2, CHR 0x8C]), (CHR 0x8F, [CHR 0xE2, CHR 0xB2, CHR 0x8E]),
      (CHR 0x91, [CHR 0xE2, CHR 0xB2, CHR 0x90]), (CHR 0x93, [CHR 0xE2, CHR 0xB2, CHR 0x92]),
      (CHR 0x95, [CHR 0xE2, CHR 0xB2, CHR 0x94]), (CHR 0x97, [CHR 0xE2, CHR 0xB2, CHR 0x96]),
      (CHR 0x99, [CHR 0xE2, CHR 0xB2, CHR 0x98]), (CHR 0x9B, [CHR 0xE2, CHR 0xB2, CHR 0x9A]),
      (CHR 0x9D, [CHR 0xE2, CHR 0xB2, CHR 0x9C]), (CHR 0x9F, [CHR 0xE2, CHR 0xB2, CHR 0x9E]),
      (CHR 0xA1, [CHR 0xE2, CHR 0xB2, CHR 0xA0]), (CHR 0xA3, [CHR 0xE2, CHR 0xB2, CHR 0xA2]),
      (CHR 0xA5, [CHR 0xE2, CHR 0xB2, CHR 0xA4]), (CHR 0xA7, [CHR 0xE2, CHR 0xB2, CHR 0xA6]),
      (CHR 0xA9, [CHR 0xE2, CHR 0xB2, CHR 0xA8]), (CHR 0xAB, [CHR 0xE2, CHR 0xB2, CHR 0xAA]),
      (CHR 0xAD, [CHR 0xE2, CHR 0xB2, CHR 0xAC]), (CHR 0xAF, [CHR 0xE2, CHR 0xB2, CHR 0xAE]),
      (CHR 0xB1, [CHR 0xE2, CHR 0xB2, CHR 0xB0]), (CHR 0xB3, [CHR 0xE2, CHR 0xB2, CHR 0xB2]),
      (CHR 0xB5, [CHR 0xE2, CHR 0xB2, CHR 0xB4]), (CHR 0xB7, [CHR 0xE2, CHR 0xB2, CHR 0xB6]),
      (CHR 0xB9, [CHR 0xE2, CHR 0xB2, CHR 0xB8]), (CHR 0xBB, [CHR 0xE2, CHR 0xB2, CHR 0xBA]),
      (CHR 0xBD, [CHR 0xE2, CHR 0xB2, CHR 0xBC]), (CHR 0xBF, [CHR 0xE2, CHR 0xB2, CHR 0xBE])]"

definition upper_row_E2_B3 :: "(char \<times> string) list" where
  "upper_row_E2_B3 =
     [(CHR 0x81, [CHR 0xE2, CHR 0xB3, CHR 0x80]), (CHR 0x83, [CHR 0xE2, CHR 0xB3, CHR 0x82]),
      (CHR 0x85, [CHR 0xE2, CHR 0xB3, CHR 0x84]), (CHR 0x87, [CHR 0xE2, CHR 0xB3, CHR 0x86]),
      (CHR 0x89, [CHR 0xE2, CHR 0xB3, CHR 0x88]), (CHR 0x8B, [CHR 0xE2, CHR 0xB3, CHR 0x8A]),
      (CHR 0x8D, [CHR 0xE2, CHR 0xB3, CHR 0x8C]), (CHR 0x8F, [CHR 0xE2, CHR 0xB3, CHR 0x8E]),
      (CHR 0x91, [CHR 0xE2, CHR 0xB3, CHR 0x90]), (CHR 0x93, [CHR 0xE2, CHR 0xB3, CHR 0x92]),
      (CHR 0x95, [CHR 0xE2, CHR 0xB3, CHR 0x94]), (CHR 0x97, [CHR 0xE2, CHR 0xB3, CHR 0x96]),
      (CHR 0x99, [CHR 0xE2, CHR 0xB3, CHR 0x98]), (CHR 0x9B, [CHR 0xE2, CHR 0xB3, CHR 0x9A]),
      (CHR 0x9D, [CHR 0xE2, CHR 0xB3, CHR 0x9C]), (CHR 0x9F, [CHR 0xE2, CHR 0xB3, CHR 0x9E]),
      (CHR 0xA1, [CHR 0xE2, CHR 0xB3, CHR 0xA0]), (CHR 0xA3, [CHR 0xE2, CHR 0xB3, CHR 0xA2]),
      (CHR 0xAC, [CHR 0xE2, CHR 0xB3, CHR 0xAB]), (CHR 0xAE, [CHR 0xE2, CHR 0xB3, CHR 0xAD]),
      (CHR 0xB3, [CHR 0xE2, CHR 0xB3, CHR 0xB2])]"

definition upper_row_E2_B4 :: "(char \<times> string) list" where
  "upper_row_E2_B4 =
     [(CHR 0x80, [CHR 0xE1, CHR 0x82, CHR 0xA0]), (CHR 0x81, [CHR 0xE1, CHR 0x82, CHR 0xA1]),
      (CHR 0x82, [CHR 0xE1, CHR 0x82, CHR 0xA2]), (CHR 0x83, [CHR 0xE1, CHR 0x82, CHR 0xA3]),
      (CHR 0x84, [CHR 0xE1, CHR 0x82, CHR 0xA4]), (CHR 0x85, [CHR 0xE1, CHR 0x82, CHR 0xA5]),
      (CHR 0x86, [CHR 0xE1, CHR 0x82, CHR 0xA6]), (CHR 0x87, [CHR 0xE1, CHR 0x82, CHR 0xA7]),
      (CHR 0x88, [CHR 0xE1, CHR 0x82, CHR 0xA8]), (CHR 0x89, [CHR 0xE1, CHR 0x82, CHR 0xA9]),
      (CHR 0x8A, [CHR 0xE1, CHR 0x82, CHR 0xAA]), (CHR 0x8B, [CHR 0xE1, CHR 0x82, CHR 0xAB]),
      (CHR 0x8C, [CHR 0xE1, CHR 0x82, CHR 0xAC]), (CHR 0x8D, [CHR 0xE1, CHR 0x82, CHR 0xAD]),
      (CHR 0x8E, [CHR 0xE1, CHR 0x82, CHR 0xAE]), (CHR 0x8F, [CHR 0xE1, CHR 0x82, CHR 0xAF]),
      (CHR 0x90, [CHR 0xE1, CHR 0x82, CHR 0xB0]), (CHR 0x91, [CHR 0xE1, CHR 0x82, CHR 0xB1]),
      (CHR 0x92, [CHR 0xE1, CHR 0x82, CHR 0xB2]), (CHR 0x93, [CHR 0xE1, CHR 0x82, CHR 0xB3]),
      (CHR 0x94, [CHR 0xE1, CHR 0x82, CHR 0xB4]), (CHR 0x95, [CHR 0xE1, CHR 0x82, CHR 0xB5]),
      (CHR 0x96, [CHR 0xE1, CHR 0x82, CHR 0xB6]), (CHR 0x97, [CHR 0xE1, CHR 0x82, CHR 0xB7]),
      (CHR 0x98, [CHR 0xE1, CHR 0x82, CHR 0xB8]), (CHR 0x99, [CHR 0xE1, CHR 0x82, CHR 0xB9]),
      (CHR 0x9A, [CHR 0xE1, CHR 0x82, CHR 0xBA]), (CHR 0x9B, [CHR 0xE1, CHR 0x82, CHR 0xBB]),
      (CHR 0x9C, [CHR 0xE1, CHR 0x82, CHR 0xBC]), (CHR 0x9D, [CHR 0xE1, CHR 0x82, CHR 0xBD]),
      (CHR 0x9E, [CHR 0xE1, CHR 0x82, CHR 0xBE]), (CHR 0x9F, [CHR 0xE1, CHR 0x82, CHR 0xBF]),
      (CHR 0xA0, [CHR 0xE1, CHR 0x83, CHR 0x80]), (CHR 0xA1, [CHR 0xE1, CHR 0x83, CHR 0x81]),
      (CHR 0xA2, [CHR 0xE1, CHR 0x83, CHR 0x82]), (CHR 0xA3, [CHR 0xE1, CHR 0x83, CHR 0x83]),
      (CHR 0xA4, [CHR 0xE1, CHR 0x83, CHR 0x84]), (CHR 0xA5, [CHR 0xE1, CHR 0x83, CHR 0x85]),
      (CHR 0xA7, [CHR 0xE1, CHR 0x83, CHR 0x87]), (CHR 0xAD, [CHR 0xE1, CHR 0x83, CHR 0x8D])]"

definition upper_row_EA_99 :: "(char \<times> string) list" where
  "upper_row_EA_99 =
     [(CHR 0x81, [CHR 0xEA, CHR 0x99, CHR 0x80]), (CHR 0x83, [CHR 0xEA, CHR 0x99, CHR 0x82]),
      (CHR 0x85, [CHR 0xEA, CHR 0x99, CHR 0x84]), (CHR 0x87, [CHR 0xEA, CHR 0x99, CHR 0x86]),
      (CHR 0x89, [CHR 0xEA, CHR 0x99, CHR 0x88]), (CHR 0x8B, [CHR 0xEA, CHR 0x99, CHR 0x8A]),
      (CHR 0x8D, [CHR 0xEA, CHR 0x99, CHR 0x8C]), (CHR 0x8F, [CHR 0xEA, CHR 0x99, CHR 0x8E]),
      (CHR 0x91, [CHR 0xEA, CHR 0x99, CHR 0x90]), (CHR 0x93, [CHR 0xEA, CHR 0x99, CHR 0x92]),
      (CHR 0x95, [CHR 0xEA, CHR 0x99, CHR 0x94]), (CHR 0x97, [CHR 0xEA, CHR 0x99, CHR 0x96]),
      (CHR 0x99, [CHR 0xEA, CHR 0x99, CHR 0x98]), (CHR 0x9B, [CHR 0xEA, CHR 0x99, CHR 0x9A]),
      (CHR 0x9D, [CHR 0xEA, CHR 0x99, CHR 0x9C]), (CHR 0x9F, [CHR 0xEA, CHR 0x99, CHR 0x9E]),
      (CHR 0xA1, [CHR 0xEA, CHR 0x99, CHR 0xA0]), (CHR 0xA3, [CHR 0xEA, CHR 0x99, CHR 0xA2]),
      (CHR 0xA5, [CHR 0xEA, CHR 0x99, CHR 0xA4]), (CHR 0xA7, [CHR 0xEA, CHR 0x99, CHR 0xA6]),
      (CHR 0xA9, [CHR 0xEA, CHR 0x99, CHR 0xA8]), (CHR 0xAB, [CHR 0xEA, CHR 0x99, CHR 0xAA]),
      (CHR 0xAD, [CHR 0xEA, CHR 0x99, CHR 0xAC])]"

definition upper_row_EA_9A :: "(char \<times> string) list" where
  "upper_row_EA_9A =
     [(CHR 0x81, [CHR 0xEA, CHR 0x9A, CHR 0x80]), (CHR 0x83, [CHR 0xEA, CHR 0x9A, CHR 0x82]),
      (CHR 0x85, [CHR 0xEA, CHR 0x9A, CHR 0x84]), (CHR 0x87, [CHR 0xEA, CHR 0x9A, CHR 0x86]),
      (CHR 0x89, [CHR 0xEA, CHR 0x9A, CHR 0x88]), (CHR 0x8B, [CHR 0xEA, CHR 0x9A, CHR 0x8A]),
      (CHR 0x8D, [CHR 0xEA, CHR 0x9A, CHR 0x8C]), (CHR 0x8F, [CHR 0xEA, CHR 0x9A, CHR 0x8E]),
      (CHR 0x91, [CHR 0xEA, CHR 0x9A, CHR 0x90]), (CHR 0x93, [CHR 0xEA, CHR 0x9A, CHR 0x92]),
      (CHR 0x95, [CHR 0xEA, CHR 0x9A, CHR 0x94]), (CHR 0x97, [CHR 0xEA, CHR 0x9A, CHR 0x96]),
      (CHR 0x99, [CHR 0xEA, CHR 0x9A, CHR 0x98]), (CHR 0x9B, [CHR 0xEA, CHR 0x9A, CHR 0x9A])]"

definition upper_row_EA_9C :: "(char \<times> string) list" where
  "upper_row_EA_9C =
     [(CHR 0xA3, [CHR 0xEA, CHR 0x9C, CHR 0xA2]), (CHR 0xA5, [CHR 0xEA, CHR 0x9C, CHR 0xA4]),
      (CHR 0xA7, [CHR 0xEA, CHR 0x9C, CHR 0xA6]), (CHR 0xA9, [CHR 0xEA, CHR 0x9C, CHR 0xA8]),
      (CHR 0xAB, [CHR 0xEA, CHR 0x9C, CHR 0xAA]), (CHR 0xAD, [CHR 0xEA, CHR 0x9C, CHR 0xAC]),
      (CHR 0xAF, [CHR 0xEA, CHR 0x9C, CHR 0xAE]), (CHR 0xB3, [CHR 0xEA, CHR 0x9C, CHR 0xB2]),
      (CHR 0xB5, [CHR 0xEA, CHR 0x9C, CHR 0xB4]), (CHR 0xB7, [CHR 0xEA, CHR 0x9C, CHR 0xB6]),
      (CHR 0xB9, [CHR 0xEA, CHR 0x9C, CHR 0xB8]), (CHR 0xBB, [CHR 0xEA, CHR 0x9C, CHR 0xBA]),
      (CHR 0xBD, [CHR 0xEA, CHR 0x9C, CHR 0xBC]), (CHR 0xBF, [CHR 0xEA, CHR 0x9C, CHR 0xBE])]"

definition upper_row_EA_9D :: "(char \<times> string) list" where
  "upper_row_EA_9D =
     [(CHR 0x81, [CHR 0xEA, CHR 0x9D, CHR 0x80]), (CHR 0x83, [CHR 0xEA, CHR 0x9D, CHR 0x82]),
      (CHR 0x85, [CHR 0xEA, CHR 0x9D, CHR 0x84]), (CHR 0x87, [CHR 0xEA, CHR 0x9D, CHR 0x86]),
      (CHR 0x89, [CHR 0xEA, CHR 0x9D, CHR 0x88]), (CHR 0x8B, [CHR 0xEA, CHR 0x9D, CHR 0x8A]),
      (CHR 0x8D, [CHR 0xEA, CHR 0x9D, CHR 0x8C]), (CHR 0x8F, [CHR 0xEA, CHR 0x9D, CHR 0x8E]),
      (CHR 0x91, [CHR 0xEA, CHR 0x9D, CHR 0x90]), (CHR 0x93, [CHR 0xEA, CHR 0x9D, CHR 0x92]),
      (CHR 0x95, [CHR 0xEA, CHR 0x9D, CHR 0x94]), (CHR 0x97, [CHR 0xEA, CHR 0x9D, CHR 0x96]),
      (CHR 0x99, [CHR 0xEA, CHR 0x9D, CHR 0x98]), (CHR 0x9B, [CHR 0xEA, CHR 0x9D, CHR 0x9A]),
      (CHR 0x9D, [CHR 0xEA, CHR 0x9D, CHR 0x9C]), (CHR 0x9F, [CHR 0xEA, CHR 0x9D, CHR 0x9E]),
      (CHR 0xA1, [CHR 0xEA, CHR 0x9D, CHR 0xA0]), (CHR 0xA3, [CHR 0xEA, CHR 0x9D, CHR 0xA2]),
      (CHR 0xA5, [CHR 0xEA, CHR 0x9D, CHR 0xA4]), (CHR 0xA7, [CHR 0xEA, CHR 0x9D, CHR 0xA6]),
      (CHR 0xA9, [CHR 0xEA, CHR 0x9D, CHR 0xA8]), (CHR 0xAB, [CHR 0xEA, CHR 0x9D, CHR 0xAA]),
      (CHR 0xAD, [CHR 0xEA, CHR 0x9D, CHR 0xAC]), (CHR 0xAF, [CHR 0xEA, CHR 0x9D, CHR 0xAE]),
      (CHR 0xBA, [CHR 0xEA, CHR 0x9D, CHR 0xB9]), (CHR 0xBC, [CHR 0xEA, CHR 0x9D, CHR 0xBB]),
      (CHR 0xBF, [CHR 0xEA, CHR 0x9D, CHR 0xBE])]"

definition upper_row_EA_9E :: "(char \<times> string) list" where
  "upper_row_EA_9E =
     [(CHR 0x81, [CHR 0xEA, CHR 0x9E, CHR 0x80]), (CHR 0x83, [CHR 0xEA, CHR 0x9E, CHR 0x82]),
      (CHR 0x85, [CHR 0xEA, CHR 0x9E, CHR 0x84]), (CHR 0x87, [CHR 0xEA, CHR 0x9E, CHR 0x86]),
      (CHR 0x8C, [CHR 0xEA, CHR 0x9E, CHR 0x8B]), (CHR 0x91, [CHR 0xEA, CHR 0x9E, CHR 0x90]),
      (CHR 0x93, [CHR 0xEA, CHR 0x9E, CHR 0x92]), (CHR 0x94, [CHR 0xEA, CHR 0x9F, CHR 0x84]),
      (CHR 0x97, [CHR 0xEA, CHR 0x9E, CHR 0x96]), (CHR 0x99, [CHR 0xEA, CHR 0x9E, CHR 0x98]),
      (CHR 0x9B, [CHR 0xEA, CHR 0x9E, CHR 0x9A]), (CHR 0x9D, [CHR 0xEA, CHR 0x9E, CHR 0x9C]),
      (CHR 0x9F, [CHR 0xEA, CHR 0x9E, CHR 0x9E]), (CHR 0xA1, [CHR 0xEA, CHR 0x9E, CHR 0xA0]),
      (CHR 0xA3, [CHR 0xEA, CHR 0x9E, CHR 0xA2]), (CHR 0xA5, [CHR 0xEA, CHR 0x9E, CHR 0xA4]),
      (CHR 0xA7, [CHR 0xEA, CHR 0x9E, CHR 0xA6]), (CHR 0xA9, [CHR 0xEA, CHR 0x9E, CHR 0xA8]),
      (CHR 0xB5, [CHR 0xEA, CHR 0x9E, CHR 0xB4]), (CHR 0xB7, [CHR 0xEA, CHR 0x9E, CHR 0xB6]),
      (CHR 0xB9, [CHR 0xEA, CHR 0x9E, CHR 0xB8]), (CHR 0xBB, [CHR 0xEA, CHR 0x9E, CHR 0xBA]),
      (CHR 0xBD, [CHR 0xEA, CHR 0x9E, CHR 0xBC]), (CHR 0xBF, [CHR 0xEA, CHR 0x9E, CHR 0xBE])]"

definition upper_row_EA_9F :: "(char \<times> string) list" where
  "upper_row_EA_9F =
     [(CHR 0x81, [CHR 0xEA, CHR 0x9F, CHR 0x80]), (CHR 0x83, [CHR 0xEA, CHR 0x9F, CHR 0x82]),
      (CHR 0x88, [CHR 0xEA, CHR 0x9F, CHR 0x87]), (CHR 0x8A, [CHR 0xEA, CHR 0x9F, CHR 0x89]),
      (CHR 0x91, [CHR 0xEA, CHR 0x9F, CHR 0x90]), (CHR 0x97, [CHR 0xEA, CHR 0x9F, CHR 0x96]),
      (CHR 0x99, [CHR 0xEA, CHR 0x9F, CHR 0x98]), (CHR 0xB6, [CHR 0xEA, CHR 0x9F, CHR 0xB5])]"

definition upper_row_EA_AD :: "(char \<times> string) list" where
  "upper_row_EA_AD =
     [(CHR 0x93, [CHR 0xEA, CHR 0x9E, CHR 0xB3]), (CHR 0xB0, [CHR 0xE1, CHR 0x8E, CHR 0xA0]),
      (CHR 0xB1, [CHR 0xE1, CHR 0x8E, CHR 0xA1]), (CHR 0xB2, [CHR 0xE1, CHR 0x8E, CHR 0xA2]),
      (CHR 0xB3, [CHR 0xE1, CHR 0x8E, CHR 0xA3]), (CHR 0xB4, [CHR 0xE1, CHR 0x8E, CHR 0xA4]),
      (CHR 0xB5, [CHR 0xE1, CHR 0x8E, CHR 0xA5]), (CHR 0xB6, [CHR 0xE1, CHR 0x8E, CHR 0xA6]),
      (CHR 0xB7, [CHR 0xE1, CHR 0x8E, CHR 0xA7]), (CHR 0xB8, [CHR 0xE1, CHR 0x8E, CHR 0xA8]),
      (CHR 0xB9, [CHR 0xE1, CHR 0x8E, CHR 0xA9]), (CHR 0xBA, [CHR 0xE1, CHR 0x8E, CHR 0xAA]),
      (CHR 0xBB, [CHR 0xE1, CHR 0x8E, CHR 0xAB]), (CHR 0xBC, [CHR 0xE1, CHR 0x8E, CHR 0xAC]),
      (CHR 0xBD, [CHR 0xE1, CHR 0x8E, CHR 0xAD]), (CHR 0xBE, [CHR 0xE1, CHR 0x8E, CHR 0xAE]),
      (CHR 0xBF, [CHR 0xE1, CHR 0x8E, CHR 0xAF])]"

definition upper_row_EA_AE :: "(char \<times> string) list" where
  "upper_row_EA_AE =
     [(CHR 0x80, [CHR 0xE1, CHR 0x8E, CHR 0xB0]), (CHR 0x81, [CHR 0xE1, CHR 0x8E, CHR 0xB1]),
      (CHR 0x82, [CHR 0xE1, CHR 0x8E, CHR 0xB2]), (CHR 0x83, [CHR 0xE1, CHR 0x8E, CHR 0xB3]),
      (CHR 0x84, [CHR 0xE1, CHR 0x8E, CHR 0xB4]), (CHR 0x85, [CHR 0xE1, CHR 0x8E, CHR 0xB5]),
      (CHR 0x86, [CHR 0xE1, CHR 0x8E, CHR 0xB6]), (CHR 0x87, [CHR 0xE1, CHR 0x8E, CHR 0xB7]),
      (CHR 0x88, [CHR 0xE1, CHR 0x8E, CHR 0xB8]), (CHR 0x89, [CHR 0xE1, CHR 0x8E, CHR 0xB9]),
      (CHR 0x8A, [CHR 0xE1, CHR 0x8E, CHR 0xBA]), (CHR 0x8B, [CHR 0xE1, CHR 0x8E, CHR 0xBB]),
      (CHR 0x8C, [CHR 0xE1, CHR 0x8E, CHR 0xBC]), (CHR 0x8D, [CHR 0xE1, CHR 0x8E, CHR 0xBD]),
      (CHR 0x8E, [CHR 0xE1, CHR 0x8E, CHR 0xBE]), (CHR 0x8F, [CHR 0xE1, CHR 0x8E, CHR 0xBF]),
      (CHR 0x90, [CHR 0xE1, CHR 0x8F, CHR 0x80]), (CHR 0x91, [CHR 0xE1, CHR 0x8F, CHR 0x81]),
      (CHR 0x92, [CHR 0xE1, CHR 0x8F, CHR 0x82]), (CHR 0x93, [CHR 0xE1, CHR 0x8F, CHR 0x83]),
      (CHR 0x94, [CHR 0xE1, CHR 0x8F, CHR 0x84]), (CHR 0x95, [CHR 0xE1, CHR 0x8F, CHR 0x85]),
      (CHR 0x96, [CHR 0xE1, CHR 0x8F, CHR 0x86]), (CHR 0x97, [CHR 0xE1, CHR 0x8F, CHR 0x87]),
      (CHR 0x98, [CHR 0xE1, CHR 0x8F, CHR 0x88]), (CHR 0x99, [CHR 0xE1, CHR 0x8F, CHR 0x89]),
      (CHR 0x9A, [CHR 0xE1, CHR 0x8F, CHR 0x8A]), (CHR 0x9B, [CHR 0xE1, CHR 0x8F, CHR 0x8B]),
      (CHR 0x9C, [CHR 0xE1, CHR 0x8F, CHR 0x8C]), (CHR 0x9D, [CHR 0xE1, CHR 0x8F, CHR 0x8D]),
      (CHR 0x9E, [CHR 0xE1, CHR 0x8F, CHR 0x8E]), (CHR 0x9F, [CHR 0xE1, CHR 0x8F, CHR 0x8F]),
      (CHR 0xA0, [CHR 0xE1, CHR 0x8F, CHR 0x90]), (CHR 0xA1, [CHR 0xE1, CHR 0x8F, CHR 0x91]),
      (CHR 0xA2, [CHR 0xE1, CHR 0x8F, CHR 0x92]), (CHR 0xA3, [CHR 0xE1, CHR 0x8F, CHR 0x93]),
      (CHR 0xA4, [CHR 0xE1, CHR 0x8F, CHR 0x94]), (CHR 0xA5, [CHR 0xE1, CHR 0x8F, CHR 0x95]),
      (CHR 0xA6, [CHR 0xE1, CHR 0x8F, CHR 0x96]), (CHR 0xA7, [CHR 0xE1, CHR 0x8F, CHR 0x97]),
      (CHR 0xA8, [CHR 0xE1, CHR 0x8F, CHR 0x98]), (CHR 0xA9, [CHR 0xE1, CHR 0x8F, CHR 0x99]),
      (CHR 0xAA, [CHR 0xE1, CHR 0x8F, CHR 0x9A]), (CHR 0xAB, [CHR 0xE1, CHR 0x8F, CHR 0x9B]),
      (CHR 0xAC, [CHR 0xE1, CHR 0x8F, CHR 0x9C]), (CHR 0xAD, [CHR 0xE1, CHR 0x8F, CHR 0x9D]),
      (CHR 0xAE, [CHR 0xE1, CHR 0x8F, CHR 0x9E]), (CHR 0xAF, [CHR 0xE1, CHR 0x8F, CHR 0x9F]),
      (CHR 0xB0, [CHR 0xE1, CHR 0x8F, CHR 0xA0]), (CHR 0xB1, [CHR 0xE1, CHR 0x8F, CHR 0xA1]),
      (CHR 0xB2, [CHR 0xE1, CHR 0x8F, CHR 0xA2]), (CHR 0xB3, [CHR 0xE1, CHR 0x8F, CHR 0xA3]),
      (CHR 0xB4, [CHR 0xE1, CHR 0x8F, CHR 0xA4]), (CHR 0xB5, [CHR 0xE1, CHR 0x8F, CHR 0xA5]),
      (CHR 0xB6, [CHR 0xE1, CHR 0x8F, CHR 0xA6]), (CHR 0xB7, [CHR 0xE1, CHR 0x8F, CHR 0xA7]),
      (CHR 0xB8, [CHR 0xE1, CHR 0x8F, CHR 0xA8]), (CHR 0xB9, [CHR 0xE1, CHR 0x8F, CHR 0xA9]),
      (CHR 0xBA, [CHR 0xE1, CHR 0x8F, CHR 0xAA]), (CHR 0xBB, [CHR 0xE1, CHR 0x8F, CHR 0xAB]),
      (CHR 0xBC, [CHR 0xE1, CHR 0x8F, CHR 0xAC]), (CHR 0xBD, [CHR 0xE1, CHR 0x8F, CHR 0xAD]),
      (CHR 0xBE, [CHR 0xE1, CHR 0x8F, CHR 0xAE]), (CHR 0xBF, [CHR 0xE1, CHR 0x8F, CHR 0xAF])]"

definition upper_row_EF_AC :: "(char \<times> string) list" where
  "upper_row_EF_AC =
     [(CHR 0x80, [CHR 0x46, CHR 0x46]), (CHR 0x81, [CHR 0x46, CHR 0x49]),
      (CHR 0x82, [CHR 0x46, CHR 0x4C]), (CHR 0x83, [CHR 0x46, CHR 0x46, CHR 0x49]),
      (CHR 0x84, [CHR 0x46, CHR 0x46, CHR 0x4C]), (CHR 0x85, [CHR 0x53, CHR 0x54]),
      (CHR 0x86, [CHR 0x53, CHR 0x54]), (CHR 0x93, [CHR 0xD5, CHR 0x84, CHR 0xD5, CHR 0x86]),
      (CHR 0x94, [CHR 0xD5, CHR 0x84, CHR 0xD4, CHR 0xB5]),
      (CHR 0x95, [CHR 0xD5, CHR 0x84, CHR 0xD4, CHR 0xBB]),
      (CHR 0x96, [CHR 0xD5, CHR 0x8E, CHR 0xD5, CHR 0x86]),
      (CHR 0x97, [CHR 0xD5, CHR 0x84, CHR 0xD4, CHR 0xBD])]"

definition upper_row_EF_BD :: "(char \<times> string) list" where
  "upper_row_EF_BD =
     [(CHR 0x81, [CHR 0xEF, CHR 0xBC, CHR 0xA1]), (CHR 0x82, [CHR 0xEF, CHR 0xBC, CHR 0xA2]),
      (CHR 0x83, [CHR 0xEF, CHR 0xBC, CHR 0xA3]), (CHR 0x84, [CHR 0xEF, CHR 0xBC, CHR 0xA4]),
      (CHR 0x85, [CHR 0xEF, CHR 0xBC, CHR 0xA5]), (CHR 0x86, [CHR 0xEF, CHR 0xBC, CHR 0xA6]),
      (CHR 0x87, [CHR 0xEF, CHR 0xBC, CHR 0xA7]), (CHR 0x88, [CHR 0xEF, CHR 0xBC, CHR 0xA8]),
      (CHR 0x89, [CHR 0xEF, CHR 0xBC, CHR 0xA9]), (CHR 0x8A, [CHR 0xEF, CHR 0xBC, CHR 0xAA]),
      (CHR 0x8B, [CHR 0xEF, CHR 0xBC, CHR 0xAB]), (CHR 0x8C, [CHR 0xEF, CHR 0xBC, CHR 0xAC]),
      (CHR 0x8D, [CHR 0xEF, CHR 0xBC, CHR 0xAD]), (CHR 0x8E, [CHR 0xEF, CHR 0xBC, CHR 0xAE]),
      (CHR 0x8F, [CHR 0xEF, CHR 0xBC, CHR 0xAF]), (CHR 0x90, [CHR 0xEF, CHR 0xBC, CHR 0xB0]),
      (CHR 0x91, [CHR 0xEF, CHR 0xBC, CHR 0xB1]), (CHR 0x92, [CHR 0xEF, CHR 0xBC, CHR 0xB2]),
      (CHR 0x93, [CHR 0xEF, CHR 0xBC, CHR 0xB3]), (CHR 0x94, [CHR 0xEF, CHR 0xBC, CHR 0xB4]),
      (CHR 0x95, [CHR 0xEF, CHR 0xBC, CHR 0xB5]), (CHR 0x96, [CHR 0xEF, CHR 0xBC, CHR 0xB6]),
      (CHR 0x97, [CHR 0xEF, CHR 0xBC, CHR 0xB7]), (CHR 0x98, [CHR 0xEF, CHR 0xBC, CHR 0xB8]),
      (CHR 0x99, [CHR 0xEF, CHR 0xBC, CHR 0xB9]), (CHR 0x9A, [CHR 0xEF, CHR 0xBC, CHR 0xBA])]"

definition upper_row_F0_90_90 :: "(char \<times> string) list" where
  "upper_row_F0_90_90 =
     [(CHR 0xA8, [CHR 0xF0, CHR 0x90, CHR 0x90, CHR 0x80]),
      (CHR 0xA9, [CHR 0xF0, CHR 0x90, CHR 0x90, CHR 0x81]),
      (CHR 0xAA, [CHR 0xF0, CHR 0x90, CHR 0x90, CHR 0x82]),
      (CHR 0xAB, [CHR 0xF0, CHR 0x90, CHR 0x90, CHR 0x83]),
      (CHR 0xAC, [CHR 0xF0, CHR 0x90, CHR 0x90, CHR 0x84]),
      (CHR 0xAD, [CHR 0xF0, CHR 0x90, CHR 0x90, CHR 0x85]),
      (CHR 0xAE, [CHR 0xF0, CHR 0x90, CHR 0x90, CHR 0x86]),
      (CHR 0xAF, [CHR 0xF0, CHR 0x90, CHR 0x90, CHR 0x87]),
      (CHR 0xB0, [CHR 0xF0, CHR 0x90, CHR 0x90, CHR 0x88]),
      (CHR 0xB1, [CHR 0xF0, CHR 0x90, CHR 0x90, CHR 0x89]),
      (CHR 0xB2, [CHR 0xF0, CHR 0x90, CHR 0x90, CHR 0x8A]),
      (CHR 0xB3, [CHR 0xF0, CHR 0x90, CHR 0x90, CHR 0x8B]),
      (CHR 0xB4, [CHR 0xF0, CHR 0x90, CHR 0x90, CHR 0x8C]),
      (CHR 0xB5, [CHR 0xF0, CHR 0x90, CHR 0x90, CHR 0x8D]),
      (CHR 0xB6, [CHR 0xF0, CHR 0x90, CHR 0x90, CHR 0x8E]),
      (CHR 0xB7, [CHR 0xF0, CHR 0x90, CHR 0x90, CHR 0x8F]),
      (CHR 0xB8, [CHR 0xF0, CHR 0x90, CHR 0x90, CHR 0x90]),
      (CHR 0xB9, [CHR 0xF0, CHR 0x90, CHR 0x90, CHR 0x91]),
      (CHR 0xBA, [CHR 0xF0, CHR 0x90, CHR 0x90, CHR 0x92]),
      (CHR 0xBB, [CHR 0xF0, CHR 0x90, CHR 0x90, CHR 0x93]),
      (CHR 0xBC, [CHR 0xF0, CHR 0x90, CHR 0x90, CHR 0x94]),
      (CHR 0xBD, [CHR 0xF0, CHR 0x90, CHR 0x90, CHR 0x95]),
      (CHR 0xBE, [CHR 0xF0, CHR 0x90, CHR 0x90, CHR 0x96]),
      (CHR 0xBF, [CHR 0xF0, CHR 0x90, CHR 0x90, CHR 0x97])]"

definition upper_row_F0_90_91 :: "(char \<times> string) list" where
  "upper_row_F0_90_91 =
     [(CHR 0x80, [CHR 0xF0, CHR 0x90, CHR 0x90, CHR 0x98]),
      (CHR 0x81, [CHR 0xF0, CHR 0x90, CHR 0x90, CHR 0x99]),
      (CHR 0x82, [CHR 0xF0, CHR 0x90, CHR 0x90, CHR 0x9A]),
      (CHR 0x83, [CHR 0xF0, CHR 0x90, CHR 0x90, CHR 0x9B]),
      (CHR 0x84, [CHR 0xF0, CHR 0x90, CHR 0x90, CHR 0x9C]),
      (CHR 0x85, [CHR 0xF0, CHR 0x90, CHR 0x90, CHR 0x9D]),
      (CHR 0x86, [CHR 0xF0, CHR 0x90, CHR 0x90, CHR 0x9E]),
      (CHR 0x87, [CHR 0xF0, CHR 0x90, CHR 0x90, CHR 0x9F]),
      (CHR 0x88, [CHR 0xF0, CHR 0x90, CHR 0x90, CHR 0xA0]),
      (CHR 0x89, [CHR 0xF0, CHR 0x90, CHR 0x90, CHR 0xA1]),
      (CHR 0x8A, [CHR 0xF0, CHR 0x90, CHR 0x90, CHR 0xA2]),
      (CHR 0x8B, [CHR 0xF0, CHR 0x90, CHR 0x90, CHR 0xA3]),
      (CHR 0x8C, [CHR 0xF0, CHR 0x90, CHR 0x90, CHR 0xA4]),
      (CHR 0x8D, [CHR 0xF0, CHR 0x90, CHR 0x90, CHR 0xA5]),
      (CHR 0x8E, [CHR 0xF0, CHR 0x90, CHR 0x90, CHR 0xA6]),
      (CHR 0x8F, [CHR 0xF0, CHR 0x90, CHR 0x90, CHR 0xA7])]"

definition upper_row_F0_90_93 :: "(char \<times> string) list" where
  "upper_row_F0_90_93 =
     [(CHR 0x98, [CHR 0xF0, CHR 0x90, CHR 0x92, CHR 0xB0]),
      (CHR 0x99, [CHR 0xF0, CHR 0x90, CHR 0x92, CHR 0xB1]),
      (CHR 0x9A, [CHR 0xF0, CHR 0x90, CHR 0x92, CHR 0xB2]),
      (CHR 0x9B, [CHR 0xF0, CHR 0x90, CHR 0x92, CHR 0xB3]),
      (CHR 0x9C, [CHR 0xF0, CHR 0x90, CHR 0x92, CHR 0xB4]),
      (CHR 0x9D, [CHR 0xF0, CHR 0x90, CHR 0x92, CHR 0xB5]),
      (CHR 0x9E, [CHR 0xF0, CHR 0x90, CHR 0x92, CHR 0xB6]),
      (CHR 0x9F, [CHR 0xF0, CHR 0x90, CHR 0x92, CHR 0xB7]),
      (CHR 0xA0, [CHR 0xF0, CHR 0x90, CHR 0x92, CHR 0xB8]),
      (CHR 0xA1, [CHR 0xF0, CHR 0x90, CHR 0x92, CHR 0xB9]),
      (CHR 0xA2, [CHR 0xF0, CHR 0x90, CHR 0x92, CHR 0xBA]),
      (CHR 0xA3, [CHR 0xF0, CHR 0x90, CHR 0x92, CHR 0xBB]),
      (CHR 0xA4, [CHR 0xF0, CHR 0x90, CHR 0x92, CHR 0xBC]),
      (CHR 0xA5, [CHR 0xF0, CHR 0x90, CHR 0x92, CHR 0xBD]),
      (CHR 0xA6, [CHR 0xF0, CHR 0x90, CHR 0x92, CHR 0xBE]),
      (CHR 0xA7, [CHR 0xF0, CHR 0x90, CHR 0x92, CHR 0xBF]),
      (CHR 0xA8, [CHR 0xF0, CHR 0x90, CHR 0x93, CHR 0x80]),
      (CHR 0xA9, [CHR 0xF0, CHR 0x90, CHR 0x93, CHR 0x81]),
      (CHR 0xAA, [CHR 0xF0, CHR 0x90, CHR 0x93, CHR 0x82]),
      (CHR 0xAB, [CHR 0xF0, CHR 0x90, CHR 0x93, CHR 0x83]),
      (CHR 0xAC, [CHR 0xF0, CHR 0x90, CHR 0x93, CHR 0x84]),
      (CHR 0xAD, [CHR 0xF0, CHR 0x90, CHR 0x93, CHR 0x85]),
      (CHR 0xAE, [CHR 0xF0, CHR 0x90, CHR 0x93, CHR 0x86]),
      (CHR 0xAF, [CHR 0xF0, CHR 0x90, CHR 0x93, CHR 0x87]),
      (CHR 0xB0, [CHR 0xF0, CHR 0x90, CHR 0x93, CHR 0x88]),
      (CHR 0xB1, [CHR 0xF0, CHR 0x90, CHR 0x93, CHR 0x89]),
      (CHR 0xB2, [CHR 0xF0, CHR 0x90, CHR 0x93, CHR 0x8A]),
      (CHR 0xB3, [CHR 0xF0, CHR 0x90, CHR 0x93, CHR 0x8B]),
      (CHR 0xB4, [CHR 0xF0, CHR 0x90, CHR 0x93, CHR 0x8C]),
      (CHR 0xB5, [CHR 0xF0, CHR 0x90, CHR 0x93, CHR 0x8D]),
      (CHR 0xB6, [CHR 0xF0, CHR 0x90, CHR 0x93, CHR 0x8E]),
      (CHR 0xB7, [CHR 0xF0, CHR 0x90, CHR 0x93, CHR 0x8F]),
      (CHR 0xB8, [CHR 0xF0, CHR 0x90, CHR 0x93, CHR 0x90]),
      (CHR 0xB9, [CHR 0xF0, CHR 0x90, CHR 0x93, CHR 0x91]),
      (CHR 0xBA, [CHR 0xF0, CHR 0x90, CHR 0x93, CHR 0x92]),
      (CHR 0xBB, [CHR 0xF0, CHR 0x90, CHR 0x93, CHR 0x93])]"

definition upper_row_F0_90_96 :: "(char \<times> string) list" where
  "upper_row_F0_90_96 =
     [(CHR 0x97, [CHR 0xF0, CHR 0x90, CHR 0x95, CHR 0xB0]),
      (CHR 0x98, [CHR 0xF0, CHR 0x90, CHR 0x95, CHR 0xB1]),
      (CHR 0x99, [CHR 0xF0, CHR 0x90, CHR 0x95, CHR 0xB2]),
      (CHR 0x9A, [CHR 0xF0, CHR 0x90, CHR 0x95, CHR 0xB3]),
      (CHR 0x9B, [CHR 0xF0, CHR 0x90, CHR 0x95, CHR 0xB4]),
      (CHR 0x9C, [CHR 0xF0, CHR 0x90, CHR 0x95, CHR 0xB5]),
      (CHR 0x9D, [CHR 0xF0, CHR 0x90, CHR 0x95, CHR 0xB6]),
      (CHR 0x9E, [CHR 0xF0, CHR 0x90, CHR 0x95, CHR 0xB7]),
      (CHR 0x9F, [CHR 0xF0, CHR 0x90, CHR 0x95, CHR 0xB8]),
      (CHR 0xA0, [CHR 0xF0, CHR 0x90, CHR 0x95, CHR 0xB9]),
      (CHR 0xA1, [CHR 0xF0, CHR 0x90, CHR 0x95, CHR 0xBA]),
      (CHR 0xA3, [CHR 0xF0, CHR 0x90, CHR 0x95, CHR 0xBC]),
      (CHR 0xA4, [CHR 0xF0, CHR 0x90, CHR 0x95, CHR 0xBD]),
      (CHR 0xA5, [CHR 0xF0, CHR 0x90, CHR 0x95, CHR 0xBE]),
      (CHR 0xA6, [CHR 0xF0, CHR 0x90, CHR 0x95, CHR 0xBF]),
      (CHR 0xA7, [CHR 0xF0, CHR 0x90, CHR 0x96, CHR 0x80]),
      (CHR 0xA8, [CHR 0xF0, CHR 0x90, CHR 0x96, CHR 0x81]),
      (CHR 0xA9, [CHR 0xF0, CHR 0x90, CHR 0x96, CHR 0x82]),
      (CHR 0xAA, [CHR 0xF0, CHR 0x90, CHR 0x96, CHR 0x83]),
      (CHR 0xAB, [CHR 0xF0, CHR 0x90, CHR 0x96, CHR 0x84]),
      (CHR 0xAC, [CHR 0xF0, CHR 0x90, CHR 0x96, CHR 0x85]),
      (CHR 0xAD, [CHR 0xF0, CHR 0x90, CHR 0x96, CHR 0x86]),
      (CHR 0xAE, [CHR 0xF0, CHR 0x90, CHR 0x96, CHR 0x87]),
      (CHR 0xAF, [CHR 0xF0, CHR 0x90, CHR 0x96, CHR 0x88]),
      (CHR 0xB0, [CHR 0xF0, CHR 0x90, CHR 0x96, CHR 0x89]),
      (CHR 0xB1, [CHR 0xF0, CHR 0x90, CHR 0x96, CHR 0x8A]),
      (CHR 0xB3, [CHR 0xF0, CHR 0x90, CHR 0x96, CHR 0x8C]),
      (CHR 0xB4, [CHR 0xF0, CHR 0x90, CHR 0x96, CHR 0x8D]),
      (CHR 0xB5, [CHR 0xF0, CHR 0x90, CHR 0x96, CHR 0x8E]),
      (CHR 0xB6, [CHR 0xF0, CHR 0x90, CHR 0x96, CHR 0x8F]),
      (CHR 0xB7, [CHR 0xF0, CHR 0x90, CHR 0x96, CHR 0x90]),
      (CHR 0xB8, [CHR 0xF0, CHR 0x90, CHR 0x96, CHR 0x91]),
      (CHR 0xB9, [CHR 0xF0, CHR 0x90, CHR 0x96, CHR 0x92]),
      (CHR 0xBB, [CHR 0xF0, CHR 0x90, CHR 0x96, CHR 0x94]),
      (CHR 0xBC, [CHR 0xF0, CHR 0x90, CHR 0x96, CHR 0x95])]"

definition upper_row_F0_90_B3 :: "(char \<times> string) list" where
  "upper_row_F0_90_B3 =
     [(CHR 0x80, [CHR 0xF0, CHR 0x90, CHR 0xB2, CHR 0x80]),
      (CHR 0x81, [CHR 0xF0, CHR 0x90, CHR 0xB2, CHR 0x81]),
      (CHR 0x82, [CHR 0xF0, CHR 0x90, CHR 0xB2, CHR 0x82]),
      (CHR 0x83, [CHR 0xF0, CHR 0x90, CHR 0xB2, CHR 0x83]),
      (CHR 0x84, [CHR 0xF0, CHR 0x90, CHR 0xB2, CHR 0x84]),
      (CHR 0x85, [CHR 0xF0, CHR 0x90, CHR 0xB2, CHR 0x85]),
      (CHR 0x86, [CHR 0xF0, CHR 0x90, CHR 0xB2, CHR 0x86]),
      (CHR 0x87, [CHR 0xF0, CHR 0x90, CHR 0xB2, CHR 0x87]),
      (CHR 0x88, [CHR 0xF0, CHR 0x90, CHR 0xB2, CHR 0x88]),
      (CHR 0x89, [CHR 0xF0, CHR 0x90, CHR 0xB2, CHR 0x89]),
      (CHR 0x8A, [CHR 0xF0, CHR 0x90, CHR 0xB2, CHR 0x8A]),
      (CHR 0x8B, [CHR 0xF0, CHR 0x90, CHR 0xB2, CHR 0x8B]),
      (CHR 0x8C, [CHR 0xF0, CHR 0x90, CHR 0xB2, CHR 0x8C]),
      (CHR 0x8D, [CHR 0xF0, CHR 0x90, CHR 0xB2, CHR 0x8D]),
      (CHR 0x8E, [CHR 0xF0, CHR 0x90, CHR 0xB2, CHR 0x8E]),
      (CHR 0x8F, [CHR 0xF0, CHR 0x90, CHR 0xB2, CHR 0x8F]),
      (CHR 0x90, [CHR 0xF0, CHR 0x90, CHR 0xB2, CHR 0x90]),
      (CHR 0x91, [CHR 0xF0, CHR 0x90, CHR 0xB2, CHR 0x91]),
      (CHR 0x92, [CHR 0xF0, CHR 0x90, CHR 0xB2, CHR 0x92]),
      (CHR 0x93, [CHR 0xF0, CHR 0x90, CHR 0xB2, CHR 0x93]),
      (CHR 0x94, [CHR 0xF0, CHR 0x90, CHR 0xB2, CHR 0x94]),
      (CHR 0x95, [CHR 0xF0, CHR 0x90, CHR 0xB2, CHR 0x95]),
      (CHR 0x96, [CHR 0xF0, CHR 0x90, CHR 0xB2, CHR 0x96]),
      (CHR 0x97, [CHR 0xF0, CHR 0x90, CHR 0xB2, CHR 0x97]),
      (CHR 0x98, [CHR 0xF0, CHR 0x90, CHR 0xB2, CHR 0x98]),
      (CHR 0x99, [CHR 0xF0, CHR 0x90, CHR 0xB2, CHR 0x99]),
      (CHR 0x9A, [CHR 0xF0, CHR 0x90, CHR 0xB2, CHR 0x9A]),
      (CHR 0x9B, [CHR 0xF0, CHR 0x90, CHR 0xB2, CHR 0x9B]),
      (CHR 0x9C, [CHR 0xF0, CHR 0x90, CHR 0xB2, CHR 0x9C]),
      (CHR 0x9D, [CHR 0xF0, CHR 0x90, CHR 0xB2, CHR 0x9D]),
      (CHR 0x9E, [CHR 0xF0, CHR 0x90, CHR 0xB2, CHR 0x9E]),
      (CHR 0x9F, [CHR 0xF0, CHR 0x90, CHR 0xB2, CHR 0x9F]),
      (CHR 0xA0, [CHR 0xF0, CHR 0x90, CHR 0xB2, CHR 0xA0]),
      (CHR 0xA1, [CHR 0xF0, CHR 0x90, CHR 0xB2, CHR 0xA1]),
      (CHR 0xA2, [CHR 0xF0, CHR 0x90, CHR 0xB2, CHR 0xA2]),
      (CHR 0xA3, [CHR 0xF0, CHR 0x90, CHR 0xB2, CHR 0xA3]),
      (CHR 0xA4, [CHR 0xF0, CHR 0x90, CHR 0xB2, CHR 0xA4]),
      (CHR 0xA5, [CHR 0xF0, CHR 0x90, CHR 0xB2, CHR 0xA5]),
      (CHR 0xA6, [CHR 0xF0, CHR 0x90, CHR 0xB2, CHR 0xA6]),
      (CHR 0xA7, [CHR 0xF0, CHR 0x90, CHR 0xB2, CHR 0xA7]),
      (CHR 0xA8, [CHR 0xF0, CHR 0x90, CHR 0xB2, CHR 0xA8]),
      (CHR 0xA9, [CHR 0xF0, CHR 0x90, CHR 0xB2, CHR 0xA9]),
      (CHR 0xAA, [CHR 0xF0, CHR 0x90, CHR 0xB2, CHR 0xAA]),
      (CHR 0xAB, [CHR 0xF0, CHR 0x90, CHR 0xB2, CHR 0xAB]),
      (CHR 0xAC, [CHR 0xF0, CHR 0x90, CHR 0xB2, CHR 0xAC]),
      (CHR 0xAD, [CHR 0xF0, CHR 0x90, CHR 0xB2, CHR 0xAD]),
      (CHR 0xAE, [CHR 0xF0, CHR 0x90, CHR 0xB2, CHR 0xAE]),
      (CHR 0xAF, [CHR 0xF0, CHR 0x90, CHR 0xB2, CHR 0xAF]),
      (CHR 0xB0, [CHR 0xF0, CHR 0x90, CHR 0xB2, CHR 0xB0]),
      (CHR 0xB1, [CHR 0xF0, CHR 0x90, CHR 0xB2, CHR 0xB1]),
      (CHR 0xB2, [CHR 0xF0, CHR 0x90, CHR 0xB2, CHR 0xB2])]"

definition upper_row_F0_91_A3 :: "(char \<times> string) list" where
  "upper_row_F0_91_A3 =
     [(CHR 0x80, [CHR 0xF0, CHR 0x91, CHR 0xA2, CHR 0xA0]),
      (CHR 0x81, [CHR 0xF0, CHR 0x91, CHR 0xA2, CHR 0xA1]),
      (CHR 0x82, [CHR 0xF0, CHR 0x91, CHR 0xA2, CHR 0xA2]),
      (CHR 0x83, [CHR 0xF0, CHR 0x91, CHR 0xA2, CHR 0xA3]),
      (CHR 0x84, [CHR 0xF0, CHR 0x91, CHR 0xA2, CHR 0xA4]),
      (CHR 0x85, [CHR 0xF0, CHR 0x91, CHR 0xA2, CHR 0xA5]),
      (CHR 0x86, [CHR 0xF0, CHR 0x91, CHR 0xA2, CHR 0xA6]),
      (CHR 0x87, [CHR 0xF0, CHR 0x91, CHR 0xA2, CHR 0xA7]),
      (CHR 0x88, [CHR 0xF0, CHR 0x91, CHR 0xA2, CHR 0xA8]),
      (CHR 0x89, [CHR 0xF0, CHR 0x91, CHR 0xA2, CHR 0xA9]),
      (CHR 0x8A, [CHR 0xF0, CHR 0x91, CHR 0xA2, CHR 0xAA]),
      (CHR 0x8B, [CHR 0xF0, CHR 0x91, CHR 0xA2, CHR 0xAB]),
      (CHR 0x8C, [CHR 0xF0, CHR 0x91, CHR 0xA2, CHR 0xAC]),
      (CHR 0x8D, [CHR 0xF0, CHR 0x91, CHR 0xA2, CHR 0xAD]),
      (CHR 0x8E, [CHR 0xF0, CHR 0x91, CHR 0xA2, CHR 0xAE]),
      (CHR 0x8F, [CHR 0xF0, CHR 0x91, CHR 0xA2, CHR 0xAF]),
      (CHR 0x90, [CHR 0xF0, CHR 0x91, CHR 0xA2, CHR 0xB0]),
      (CHR 0x91, [CHR 0xF0, CHR 0x91, CHR 0xA2, CHR 0xB1]),
      (CHR 0x92, [CHR 0xF0, CHR 0x91, CHR 0xA2, CHR 0xB2]),
      (CHR 0x93, [CHR 0xF0, CHR 0x91, CHR 0xA2, CHR 0xB3]),
      (CHR 0x94, [CHR 0xF0, CHR 0x91, CHR 0xA2, CHR 0xB4]),
      (CHR 0x95, [CHR 0xF0, CHR 0x91, CHR 0xA2, CHR 0xB5]),
      (CHR 0x96, [CHR 0xF0, CHR 0x91, CHR 0xA2, CHR 0xB6]),
      (CHR 0x97, [CHR 0xF0, CHR 0x91, CHR 0xA2, CHR 0xB7]),
      (CHR 0x98, [CHR 0xF0, CHR 0x91, CHR 0xA2, CHR 0xB8]),
      (CHR 0x99, [CHR 0xF0, CHR 0x91, CHR 0xA2, CHR 0xB9]),
      (CHR 0x9A, [CHR 0xF0, CHR 0x91, CHR 0xA2, CHR 0xBA]),
      (CHR 0x9B, [CHR 0xF0, CHR 0x91, CHR 0xA2, CHR 0xBB]),
      (CHR 0x9C, [CHR 0xF0, CHR 0x91, CHR 0xA2, CHR 0xBC]),
      (CHR 0x9D, [CHR 0xF0, CHR 0x91, CHR 0xA2, CHR 0xBD]),
      (CHR 0x9E, [CHR 0xF0, CHR 0x91, CHR 0xA2, CHR 0xBE]),
      (CHR 0x9F, [CHR 0xF0, CHR 0x91, CHR 0xA2, CHR 0xBF])]"

definition upper_row_F0_96_B9 :: "(char \<times> string) list" where
  "upper_row_F0_96_B9 =
     [(CHR 0xA0, [CHR 0xF0, CHR 0x96, CHR 0xB9, CHR 0x80]),
      (CHR 0xA1, [CHR 0xF0, CHR 0x96, CHR 0xB9, CHR 0x81]),
      (CHR 0xA2, [CHR 0xF0, CHR 0x96, CHR 0xB9, CHR 0x82]),
      (CHR 0xA3, [CHR 0xF0, CHR 0x96, CHR 0xB9, CHR 0x83]),
      (CHR 0xA4, [CHR 0xF0, CHR 0x96, CHR 0xB9, CHR 0x84]),
      (CHR 0xA5, [CHR 0xF0, CHR 0x96, CHR 0xB9, CHR 0x85]),
      (CHR 0xA6, [CHR 0xF0, CHR 0x96, CHR 0xB9, CHR 0x86]),
      (CHR 0xA7, [CHR 0xF0, CHR 0x96, CHR 0xB9, CHR 0x87]),
      (CHR 0xA8, [CHR 0xF0, CHR 0x96, CHR 0xB9, CHR 0x88]),
      (CHR 0xA9, [CHR 0xF0, CHR 0x96, CHR 0xB9, CHR 0x89]),
      (CHR 0xAA, [CHR 0xF0, CHR 0x96, CHR 0xB9, CHR 0x8A]),
      (CHR 0xAB, [CHR 0xF0, CHR 0x96, CHR 0xB9, CHR 0x8B]),
      (CHR 0xAC, [CHR 0xF0, CHR 0x96, CHR 0xB9, CHR 0x8C]),
      (CHR 0xAD, [CHR 0xF0, CHR 0x96, CHR 0xB9, CHR 0x8D]),
      (CHR 0xAE, [CHR 0xF0, CHR 0x96, CHR 0xB9, CHR 0x8E]),
      (CHR 0xAF, [CHR 0xF0, CHR 0x96, CHR 0xB9, CHR 0x8F]),
      (CHR 0xB0, [CHR 0xF0, CHR 0x96, CHR 0xB9, CHR 0x90]),
      (CHR 0xB1, [CHR 0xF0, CHR 0x96, CHR 0xB9, CHR 0x91]),
      (CHR 0xB2, [CHR 0xF0, CHR 0x96, CHR 0xB9, CHR 0x92]),
      (CHR 0xB3, [CHR 0xF0, CHR 0x96, CHR 0xB9, CHR 0x93]),
      (CHR 0xB4, [CHR 0xF0, CHR 0x96, CHR 0xB9, CHR 0x94]),
      (CHR 0xB5, [CHR 0xF0, CHR 0x96, CHR 0xB9, CHR 0x95]),
      (CHR 0xB6, [CHR 0xF0, CHR 0x96, CHR 0xB9, CHR 0x96]),
      (CHR 0xB7, [CHR 0xF0, CHR 0x96, CHR 0xB9, CHR 0x97]),
      (CHR 0xB8, [CHR 0xF0, CHR 0x96, CHR 0xB9, CHR 0x98]),
      (CHR 0xB9, [CHR 0xF0, CHR 0x96, CHR 0xB9, CHR 0x99]),
      (CHR 0xBA, [CHR 0xF0, CHR 0x96, CHR 0xB9, CHR 0x9A]),
      (CHR 0xBB, [CHR 0xF0, CHR 0x96, CHR 0xB9, CHR 0x9B]),
      (CHR 0xBC, [CHR 0xF0, CHR 0x96, CHR 0xB9, CHR 0x9C]),
      (CHR 0xBD, [CHR 0xF0, CHR 0x96, CHR 0xB9, CHR 0x9D]),
      (CHR 0xBE, [CHR 0xF0, CHR 0x96, CHR 0xB9, CHR 0x9E]),
      (CHR 0xBF, [CHR 0xF0, CHR 0x96, CHR 0xB9, CHR 0x9F])]"

definition upper_row_F0_9E_A4 :: "(char \<times> string) list" where
  "upper_row_F0_9E_A4 =
     [(CHR 0xA2, [CHR 0xF0, CHR 0x9E, CHR 0xA4, CHR 0x80]),
      (CHR 0xA3, [CHR 0xF0, CHR 0x9E, CHR 0xA4, CHR 0x81]),
      (CHR 0xA4, [CHR 0xF0, CHR 0x9E, CHR 0xA4, CHR 0x82]),
      (CHR 0xA5, [CHR 0xF0, CHR 0x9E, CHR 0xA4, CHR 0x83]),
      (CHR 0xA6, [CHR 0xF0, CHR 0x9E, CHR 0xA4, CHR 0x84]),
      (CHR 0xA7, [CHR 0xF0, CHR 0x9E, CHR 0xA4, CHR 0x85]),
      (CHR 0xA8, [CHR 0xF0, CHR 0x9E, CHR 0xA4, CHR 0x86]),
      (CHR 0xA9, [CHR 0xF0, CHR 0x9E, CHR 0xA4, CHR 0x87]),
      (CHR 0xAA, [CHR 0xF0, CHR 0x9E, CHR 0xA4, CHR 0x88]),
      (CHR 0xAB, [CHR 0xF0, CHR 0x9E, CHR 0xA4, CHR 0x89]),
      (CHR 0xAC, [CHR 0xF0, CHR 0x9E, CHR 0xA4, CHR 0x8A]),
      (CHR 0xAD, [CHR 0xF0, CHR 0x9E, CHR 0xA4, CHR 0x8B]),
      (CHR 0xAE, [CHR 0xF0, CHR 0x9E, CHR 0xA4, CHR 0x8C]),
      (CHR 0xAF, [CHR 0xF0, CHR 0x9E, CHR 0xA4, CHR 0x8D]),
      (CHR 0xB0, [CHR 0xF0, CHR 0x9E, CHR 0xA4, CHR 0x8E]),
      (CHR 0xB1, [CHR 0xF0, CHR 0x9E, CHR 0xA4, CHR 0x8F]),
      (CHR 0xB2, [CHR 0xF0, CHR 0x9E, CHR 0xA4, CHR 0x90]),
      (CHR 0xB3, [CHR 0xF0, CHR 0x9E, CHR 0xA4, CHR 0x91]),
      (CHR 0xB4, [CHR 0xF0, CHR 0x9E, CHR 0xA4, CHR 0x92]),
      (CHR 0xB5, [CHR 0xF0, CHR 0x9E, CHR 0xA4, CHR 0x93]),
      (CHR 0xB6, [CHR 0xF0, CHR 0x9E, CHR 0xA4, CHR 0x94]),
      (CHR 0xB7, [CHR 0xF0, CHR 0x9E, CHR 0xA4, CHR 0x95]),
      (CHR 0xB8, [CHR 0xF0, CHR 0x9E, CHR 0xA4, CHR 0x96]),
      (CHR 0xB9, [CHR 0xF0, CHR 0x9E, CHR 0xA4, CHR 0x97]),
      (CHR 0xBA, [CHR 0xF0, CHR 0x9E, CHR 0xA4, CHR 0x98]),
      (CHR 0xBB, [CHR 0xF0, CHR 0x9E, CHR 0xA4, CHR 0x99]),
      (CHR 0xBC, [CHR 0xF0, CHR 0x9E, CHR 0xA4, CHR 0x9A]),
      (CHR 0xBD, [CHR 0xF0, CHR 0x9E, CHR 0xA4, CHR 0x9B]),
      (CHR 0xBE, [CHR 0xF0, CHR 0x9E, CHR 0xA4, CHR 0x9C]),
      (CHR 0xBF, [CHR 0xF0, CHR 0x9E, CHR 0xA4, CHR 0x9D])]"

definition upper_row_F0_9E_A5 :: "(char \<times> string) list" where
  "upper_row_F0_9E_A5 =
     [(CHR 0x80, [CHR 0xF0, CHR 0x9E, CHR 0xA4, CHR 0x9E]),
      (CHR 0x81, [CHR 0xF0, CHR 0x9E, CHR 0xA4, CHR 0x9F]),
      (CHR 0x82, [CHR 0xF0, CHR 0x9E, CHR 0xA4, CHR 0xA0]),
      (CHR 0x83, [CHR 0xF0, CHR 0x9E, CHR 0xA4, CHR 0xA1])]"

definition upper_rows :: "(string \<times> (char \<times> string) list) list" where
  "upper_rows =
     [([], upper_row_ascii), ([CHR 0xC2], upper_row_C2), ([CHR 0xC3], upper_row_C3),
      ([CHR 0xC4], upper_row_C4), ([CHR 0xC5], upper_row_C5), ([CHR 0xC6], upper_row_C6),
      ([CHR 0xC7], upper_row_C7), ([CHR 0xC8], upper_row_C8), ([CHR 0xC9], upper_row_C9),
      ([CHR 0xCA], upper_row_CA), ([CHR 0xCD], upper_row_CD), ([CHR 0xCE], upper_row_CE),
      ([CHR 0xCF], upper_row_CF), ([CHR 0xD0], upper_row_D0), ([CHR 0xD1], upper_row_D1),
      ([CHR 0xD2], upper_row_D2), ([CHR 0xD3], upper_row_D3), ([CHR 0xD4], upper_row_D4),
      ([CHR 0xD5], upper_row_D5), ([CHR 0xD6], upper_row_D6),
      ([CHR 0xE1, CHR 0x83], upper_row_E1_83), ([CHR 0xE1, CHR 0x8F], upper_row_E1_8F),
      ([CHR 0xE1, CHR 0xB2], upper_row_E1_B2), ([CHR 0xE1, CHR 0xB5], upper_row_E1_B5),
      ([CHR 0xE1, CHR 0xB6], upper_row_E1_B6), ([CHR 0xE1, CHR 0xB8], upper_row_E1_B8),
      ([CHR 0xE1, CHR 0xB9], upper_row_E1_B9), ([CHR 0xE1, CHR 0xBA], upper_row_E1_BA),
      ([CHR 0xE1, CHR 0xBB], upper_row_E1_BB), ([CHR 0xE1, CHR 0xBC], upper_row_E1_BC),
      ([CHR 0xE1, CHR 0xBD], upper_row_E1_BD), ([CHR 0xE1, CHR 0xBE], upper_row_E1_BE),
      ([CHR 0xE1, CHR 0xBF], upper_row_E1_BF), ([CHR 0xE2, CHR 0x85], upper_row_E2_85),
      ([CHR 0xE2, CHR 0x86], upper_row_E2_86), ([CHR 0xE2, CHR 0x93], upper_row_E2_93),
      ([CHR 0xE2, CHR 0xB0], upper_row_E2_B0), ([CHR 0xE2, CHR 0xB1], upper_row_E2_B1),
      ([CHR 0xE2, CHR 0xB2], upper_row_E2_B2), ([CHR 0xE2, CHR 0xB3], upper_row_E2_B3),
      ([CHR 0xE2, CHR 0xB4], upper_row_E2_B4), ([CHR 0xEA, CHR 0x99], upper_row_EA_99),
      ([CHR 0xEA, CHR 0x9A], upper_row_EA_9A), ([CHR 0xEA, CHR 0x9C], upper_row_EA_9C),
      ([CHR 0xEA, CHR 0x9D], upper_row_EA_9D), ([CHR 0xEA, CHR 0x9E], upper_row_EA_9E),
      ([CHR 0xEA, CHR 0x9F], upper_row_EA_9F), ([CHR 0xEA, CHR 0xAD], upper_row_EA_AD),
      ([CHR 0xEA, CHR 0xAE], upper_row_EA_AE), ([CHR 0xEF, CHR 0xAC], upper_row_EF_AC),
      ([CHR 0xEF, CHR 0xBD], upper_row_EF_BD),
      ([CHR 0xF0, CHR 0x90, CHR 0x90], upper_row_F0_90_90),
      ([CHR 0xF0, CHR 0x90, CHR 0x91], upper_row_F0_90_91),
      ([CHR 0xF0, CHR 0x90, CHR 0x93], upper_row_F0_90_93),
      ([CHR 0xF0, CHR 0x90, CHR 0x96], upper_row_F0_90_96),
      ([CHR 0xF0, CHR 0x90, CHR 0xB3], upper_row_F0_90_B3),
      ([CHR 0xF0, CHR 0x91, CHR 0xA3], upper_row_F0_91_A3),
      ([CHR 0xF0, CHR 0x96, CHR 0xB9], upper_row_F0_96_B9),
      ([CHR 0xF0, CHR 0x9E, CHR 0xA4], upper_row_F0_9E_A4),
      ([CHR 0xF0, CHR 0x9E, CHR 0xA5], upper_row_F0_9E_A5)]"

text \<open>The uppercase form of one character: its row's entry, or the character itself.\<close>

definition upper_char :: "string \<Rightarrow> string" where
  "upper_char c =
     (case map_of upper_rows (butlast c) of
        None \<Rightarrow> c
      | Some row \<Rightarrow> (case map_of row (last c) of None \<Rightarrow> c | Some u \<Rightarrow> u))"

definition upper :: "string \<Rightarrow> string" where
  "upper s = concat (map upper_char (chars s))"

subsection \<open>Searching and filtering\<close>

text \<open>\<^verbatim>\<open>s.replace(' ', '')\<close>: every space character is dropped.\<close>

definition remove_spaces :: "string \<Rightarrow> string" where
  "remove_spaces s = filter (\<lambda>c. c \<noteq> CHR '' '') s"

text \<open>\<^verbatim>\<open>needle in hay\<close> on strings: \<open>needle\<close> occurs as a contiguous piece of \<open>hay\<close>.\<close>

fun starts_with :: "string \<Rightarrow> string \<Rightarrow> bool" where
  "starts_with [] hay = True"
| "starts_with (n # ns) [] = False"
| "starts_with (n # ns) (h # hs) = (n = h \<and> starts_with ns hs)"

fun str_in :: "string \<Rightarrow> string \<Rightarrow> bool" where
  "str_in needle [] = (needle = [])"
| "str_in needle (h # hs) = (starts_with needle (h # hs) \<or> str_in needle hs)"

section \<open>The tools (tools/k8s\_tools.py)\<close>

record settings =
  jump_server_host :: string
  jump_server_ssh_arguments :: string
  loki_api_url :: string
  prometheus_api_url :: string

text \<open>
  What \<^verbatim>\<open>subprocess.run(..., capture_output=True, text=True)\<close> hands back when it returns.
\<close>

record completed_process =
  returncode :: int
  stdout :: string
  stderr :: string

text \<open>
  The message prefix of the kubectl tool's \<^verbatim>\<open>except\<close> branch, as the UTF-8 bytes of the
  source's (Chinese) string literal followed by a colon and a space.
\<close>

definition kubectl_error_prefix :: string where
  "kubectl_error_prefix =
     [CHR 0xE5, CHR 0x9F, CHR 0xB7, CHR 0xE8, CHR 0xA1, CHR 0x8C, CHR 0xE5, CHR 0x91, CHR 0xBD,
      CHR 0xE4, CHR 0xBB, CHR 0xA4, CHR 0xE6, CHR 0x99, CHR 0x82, CHR 0xE7, CHR 0x99, CHR 0xBC,
      CHR 0xE7, CHR 0x94, CHR 0x9F, CHR 0xE9, CHR 0x8C, CHR 0xAF, CHR 0xE8, CHR 0xAA, CHR 0xA4,
      CHR 0x3A, CHR 0x20]"

text \<open>
  \<^verbatim>\<open>KubectlTool._run\<close>. The remote shell is the parameter \<open>run\<close>: given the command line
  it either raises (timeout, no ssh binary, undecodable output) or returns the completed
  process.
\<close>

definition kubectl_run ::
  "settings \<Rightarrow> (string \<Rightarrow> exc + completed_process) \<Rightarrow> string \<Rightarrow> pyval" where
  "kubectl_run cfg run command =
     (let base_cmd = jump_server_ssh_arguments cfg @ '' '' @ jump_server_host cfg
                       @ '' '' @ [CHR 0x27] @ command @ [CHR 0x27]
      in case run base_cmd of
           Inr result \<Rightarrow>
             if returncode result = 0
             then PDict [(''status'', PStr ''success''),
                         (''output'', PStr (remove_spaces (stdout result))),
                         (''command'', PStr command)]
             else PDict [(''status'', PStr ''error''),
                         (''output'', PStr (stderr result)),
                         (''command'', PStr command)]
         | Inl e \<Rightarrow>
             PDict [(''status'', PStr ''error''),
                    (''output'', PStr (kubectl_error_prefix @ str_exc e)),
                    (''command'', PStr command)])"

text \<open>\<^verbatim>\<open>CurrentTimeTool._run\<close>; \<open>now\<close> is the clock reading, already formatted.\<close>

definition current_time_run :: "string \<Rightarrow> pyval" where
  "current_time_run now = PDict [(''current_time'', PStr now)]"

text \<open>
  An HTTP response as the tools use it: \<^verbatim>\<open>raise_for_status()\<close> raises or not, and
  \<^verbatim>\<open>json()\<close> raises or gives the decoded body.
\<close>

record response =
  raise_for_status :: "exc option"
  json :: "exc + pyval"

text \<open>
  The three statements every HTTP tool starts with: \<^verbatim>\<open>requests.get\<close>,
  \<^verbatim>\<open>response.raise_for_status()\<close>, \<^verbatim>\<open>response.json()\<close>. The first one to raise ends
  the \<^verbatim>\<open>try\<close> body.
\<close>

definition fetch_json :: "exc + response \<Rightarrow> exc + pyval" where
  "fetch_json got =
     (case got of
        Inl e \<Rightarrow> Inl e
      | Inr resp \<Rightarrow> (case raise_for_status resp of Some e \<Rightarrow> Inl e | None \<Rightarrow> json resp))"

text \<open>\<^verbatim>\<open>LokiLabelsQueryTool._run\<close>.\<close>

definition loki_labels_run ::
  "settings \<Rightarrow> (string \<Rightarrow> (string \<times> pyval) list \<Rightarrow> exc + response) \<Rightarrow> pyval" where
  "loki_labels_run cfg get =
     (case (case fetch_json (get (loki_api_url cfg @ ''/labels'') []) of
              Inl e \<Rightarrow> Inl e
            | Inr labels_data \<Rightarrow>
                (case py_get labels_data ''labels'' (PDict []) of
                   Inl e \<Rightarrow> Inl e
                 | Inr labels \<Rightarrow> Inr (PDict [(''status'', PStr ''success''), (''labels'', labels)])))
      of
        Inr result \<Rightarrow> result
      | Inl e \<Rightarrow>
          if exc_cls e = RequestException
          then PDict [(''status'', PStr ''error''),
                      (''error'', PStr (''Loki API Request Error: '' @ str_exc e))]
          else PDict [(''status'', PStr ''error''),
                      (''error'', PStr (''Error occurred when getting the labels: '' @ str_exc e))])"

text \<open>
  \<^verbatim>\<open>for log in logs\<close>: what iterating a value yields. A list gives its elements, a string
  its characters, a dictionary its keys; anything else is not iterable.
\<close>

fun py_iter :: "pyval \<Rightarrow> exc + pyval list" where
  "py_iter (PList xs) = Inr xs"
| "py_iter (PStr s) = Inr (map PStr (chars s))"
| "py_iter (PDict kvs) = Inr (map (\<lambda>kv. PStr (fst kv)) kvs)"
| "py_iter v =
     Inl (Exc TypeError ([CHR 0x27] @ type_name v @ [CHR 0x27] @ '' object is not iterable''))"

text \<open>\<^verbatim>\<open>v.lower()\<close>: only a string has the method.\<close>

fun py_lower :: "pyval \<Rightarrow> exc + string" where
  "py_lower (PStr s) = Inr (lower s)"
| "py_lower v = Inl (no_attribute v ''lower'')"

text \<open>The loop's test \<^verbatim>\<open>'info' not in log.get("log",'').lower()\<close>.\<close>

definition not_info :: "pyval \<Rightarrow> exc + bool" where
  "not_info entry =
     (case py_get entry ''log'' (PStr []) of
        Inl e \<Rightarrow> Inl e
      | Inr line \<Rightarrow> (case py_lower line of Inl e \<Rightarrow> Inl e | Inr t \<Rightarrow> Inr (\<not> str_in ''info'' t)))"

text \<open>
  The log text the test reads from an entry, when it reads one: \<^verbatim>\<open>log.get("log",'')\<close>
  of a dictionary, provided that is a string. Used to state what the loop keeps.
\<close>

fun log_text :: "pyval \<Rightarrow> string option" where
  "log_text (PDict e) = (case dict_get e ''log'' (PStr []) of PStr s \<Rightarrow> Some s | _ \<Rightarrow> None)"
| "log_text v = None"

text \<open>
  The loop over \<^verbatim>\<open>logs\<close> with its accumulator \<^verbatim>\<open>lstTmp\<close> (the loop variable
  \<^verbatim>\<open>log\<close> is \<open>entry\<close> here); an exception in the body leaves the loop.
\<close>

fun filter_logs :: "pyval list \<Rightarrow> pyval list \<Rightarrow> exc + pyval list" where
  "filter_logs [] lstTmp = Inr lstTmp"
| "filter_logs (entry # rest) lstTmp =
     (case not_info entry of
        Inl e \<Rightarrow> Inl e
      | Inr keep \<Rightarrow> filter_logs rest (if keep then lstTmp @ [entry] else lstTmp))"

definition no_critical_logs :: "string \<Rightarrow> pyval" where
  "no_critical_logs end_time =
     PDict [(''timestamp'', PStr end_time), (''log'', PStr ''No critical logs found'')]"

text \<open>
  The \<^verbatim>\<open>try\<close> body of \<^verbatim>\<open>LokiLogsQueryTool._run\<close>. With \<^verbatim>\<open>debug\<close> off and a falsy
  \<^verbatim>\<open>logs\<close> no \<^verbatim>\<open>return\<close> is reached, and the function returns \<^verbatim>\<open>None\<close>.
\<close>

definition loki_logs_try ::
  "settings \<Rightarrow> (string \<Rightarrow> (string \<times> pyval) list \<Rightarrow> exc + response) \<Rightarrow>
     string \<Rightarrow> string \<Rightarrow> string \<Rightarrow> int \<Rightarrow> bool \<Rightarrow> exc + pyval" where
  "loki_logs_try cfg get query start_time end_time limit debug =
     (let params = [(''query'', PStr query), (''start_time'', PStr start_time),
                    (''end_time'', PStr end_time), (''limit'', PInt limit)]
      in case fetch_json (get (loki_api_url cfg @ ''/logs'') params) of
           Inl e \<Rightarrow> Inl e
         | Inr logs_data \<Rightarrow>
             if debug then
               (case py_get logs_data ''stream'' (PStr ''unknown'') of
                  Inl e \<Rightarrow> Inl e
                | Inr target \<Rightarrow>
                    (case py_get logs_data ''values'' (PList []) of
                       Inl e \<Rightarrow> Inl e
                     | Inr logs \<Rightarrow>
                         Inr (PDict [(''status'', PStr ''success''), (''target'', target),
                                     (''logs'', logs)])))
             else
               (case py_get logs_data ''values'' (PList []) of
                  Inl e \<Rightarrow> Inl e
                | Inr logs \<Rightarrow>
                    if truthy logs then
                      (case py_iter logs of
                         Inl e \<Rightarrow> Inl e
                       | Inr entries \<Rightarrow>
                           (case filter_logs entries [] of
                              Inl e \<Rightarrow> Inl e
                            | Inr lstTmp \<Rightarrow>
                                (case py_get logs_data ''stream'' (PStr ''unknown'') of
                                   Inl e \<Rightarrow> Inl e
                                 | Inr target \<Rightarrow>
                                     Inr (PDict
                                       [(''status'', PStr ''success''),
                                        (''target'', target),
                                        (''logs'', PList (if lstTmp \<noteq> [] then lstTmp
                                                          else [no_critical_logs end_time]))]))))
                    else Inr PNone))"

text \<open>\<^verbatim>\<open>LokiLogsQueryTool._run\<close>: the body above under its two \<^verbatim>\<open>except\<close> clauses.\<close>

definition loki_logs_run ::
  "settings \<Rightarrow> (string \<Rightarrow> (string \<times> pyval) list \<Rightarrow> exc + response) \<Rightarrow>
     string \<Rightarrow> string \<Rightarrow> string \<Rightarrow> int \<Rightarrow> bool \<Rightarrow> pyval" where
  "loki_logs_run cfg get query start_time end_time limit debug =
     (case loki_logs_try cfg get query start_time end_time limit debug of
        Inr result \<Rightarrow> result
      | Inl e \<Rightarrow>
          if exc_cls e = RequestException
          then PDict [(''status'', PStr ''error''),
                      (''error'', PStr (''Loki API Request Error: '' @ str_exc e)),
                      (''query'', PStr query)]
          else PDict [(''status'', PStr ''error''),
                      (''error'', PStr (''Error occurred when querying logs: '' @ str_exc e)),
                      (''query'', PStr query)])"

text \<open>\<^verbatim>\<open>PrometheusCurrentPodsMetricsTool._run\<close>.\<close>

definition prometheus_pods_run ::
  "settings \<Rightarrow> (string \<Rightarrow> (string \<times> pyval) list \<Rightarrow> exc + response) \<Rightarrow> pyval" where
  "prometheus_pods_run cfg get =
     (case fetch_json (get (prometheus_api_url cfg @ ''/pods'') []) of
        Inr pods_metrics \<Rightarrow>
          PDict [(''status'', PStr ''success''), (''pods_metrics'', pods_metrics)]
      | Inl e \<Rightarrow>
          if exc_cls e = RequestException
          then PDict [(''status'', PStr ''error''),
                      (''error'', PStr (''Prometheus API Request Failed: '' @ str_exc e))]
          else PDict [(''status'', PStr ''error''),
                      (''error'',
                       PStr (''Error occurred when getting the metrics of the Pods: ''
                             @ str_exc e))])"

subsection \<open>The tool sets\<close>

datatype tool =
    CurrentTimeTool
  | KubectlTool
  | LokiLabelsQueryTool
  | LokiLogsQueryTool
  | PrometheusCurrentPodsMetricsTool

fun name :: "tool \<Rightarrow> string" where
  "name CurrentTimeTool = ''current_time''"
| "name KubectlTool = ''kubectl_command''"
| "name LokiLabelsQueryTool = ''loki_labels_query''"
| "name LokiLogsQueryTool = ''loki_logs_query''"
| "name PrometheusCurrentPodsMetricsTool = ''prometheus_pods_metrics''"

definition analysis_tools :: "tool list" where
  "analysis_tools =
     [CurrentTimeTool, KubectlTool, LokiLabelsQueryTool, LokiLogsQueryTool,
      PrometheusCurrentPodsMetricsTool]"

definition debug_tools :: "tool list" where
  "debug_tools = [KubectlTool]"

text \<open>
  An argument object after validation against the tool's \<^verbatim>\<open>args_schema\<close>: no arguments,
  a \<^verbatim>\<open>KubectlInput\<close> (command), or a \<^verbatim>\<open>LokiLogsQueryInput\<close> (query, start time, end
  time, limit, debug).
\<close>

datatype tool_input =
    NoInput
  | KubectlInput string
  | LokiLogsQueryInput string string string int bool

text \<open>What a tool reaches outside the process: the clock, the remote shell, HTTP.\<close>

record env =
  tool_settings :: settings
  clock :: string
  subprocess_run :: "string \<Rightarrow> exc + completed_process"
  requests_get :: "string \<Rightarrow> (string \<times> pyval) list \<Rightarrow> exc + response"

text \<open>
  Invoking a tool with an argument object: the tool's \<^verbatim>\<open>_run\<close> on the fields when the
  object fits the tool's schema, and \<open>None\<close> (no run at all) when it does not.
\<close>

fun run_tool :: "env \<Rightarrow> tool \<Rightarrow> tool_input \<Rightarrow> pyval option" where
  "run_tool ev CurrentTimeTool NoInput = Some (current_time_run (clock ev))"
| "run_tool ev KubectlTool (KubectlInput command) =
     Some (kubectl_run (tool_settings ev) (subprocess_run ev) command)"
| "run_tool ev LokiLabelsQueryTool NoInput = Some (loki_labels_run (tool_settings ev) (requests_get ev))"
| "run_tool ev LokiLogsQueryTool (LokiLogsQueryInput query start_time end_time limit debug) =
     Some (loki_logs_run (tool_settings ev) (requests_get ev) query start_time end_time limit debug)"
| "run_tool ev PrometheusCurrentPodsMetricsTool NoInput =
     Some (prometheus_pods_run (tool_settings ev) (requests_get ev))"
| "run_tool ev t inp = None"

text \<open>
  The shape the tool boundary asks for: a dictionary whose \<^verbatim>\<open>status\<close> is the string
  \<^verbatim>\<open>success\<close> or the string \<^verbatim>\<open>error\<close>.
\<close>

fun has_status :: "pyval \<Rightarrow> bool" where
  "has_status (PDict d) =
     (map_of d ''status'' = Some (PStr ''success'') \<or> map_of d ''status'' = Some (PStr ''error''))"
| "has_status v = False"

section \<open>The LLM client (llm\_client.py)\<close>

subsection \<open>Output normalisation\<close>

text \<open>
  \<^verbatim>\<open>json.loads\<close> is the library's, and what it does with a string is the parameter
  \<open>decode\<close>: it returns the decoded value or raises. What it raises on text that is not
  JSON is \<^verbatim>\<open>JSONDecodeError\<close>; on text nested deeper than the interpreter's recursion
  limit it raises \<^verbatim>\<open>RecursionError\<close>, and on an integer literal of more digits than
  the interpreter converts (4300, since CPython 3.11) a \<^verbatim>\<open>ValueError\<close> that is no
  \<^verbatim>\<open>JSONDecodeError\<close>. What the library does with a value that is no string is written
  out: it raises \<^verbatim>\<open>TypeError\<close>. The values here are the JSON-shaped ones; the bytes
  and bytearray objects, which the library decodes too, are not among them.
\<close>

definition json_loads :: "(string \<Rightarrow> exc + pyval) \<Rightarrow> pyval \<Rightarrow> exc + pyval" where
  "json_loads decode s =
     (case s of
        PStr t \<Rightarrow> decode t
      | _ \<Rightarrow> Inl (Exc TypeError
                 (''the JSON object must be str, bytes or bytearray, not '' @ type_name s)))"

text \<open>\<^verbatim>\<open>isinstance(result, dict)\<close>.\<close>

fun is_dict :: "pyval \<Rightarrow> bool" where
  "is_dict (PDict d) = True"
| "is_dict v = False"

text \<open>
  \<^verbatim>\<open>_is_json_dict\<close>: the \<^verbatim>\<open>except\<close> clause names \<^verbatim>\<open>json.JSONDecodeError\<close> only, any
  other exception leaves the function.
\<close>

definition is_json_dict :: "(string \<Rightarrow> exc + pyval) \<Rightarrow> pyval \<Rightarrow> exc + bool" where
  "is_json_dict decode s =
     (case json_loads decode s of
        Inr result \<Rightarrow> Inr (is_dict result)
      | Inl e \<Rightarrow> if exc_cls e = JSONDecodeError then Inr False else Inl e)"

text \<open>
  The line every endpoint runs on the agent's output:
  \<^verbatim>\<open>json.loads(output).get("action_input", "no action_input") if _is_json_dict(output) else output\<close>.
\<close>

definition normalize_output :: "(string \<Rightarrow> exc + pyval) \<Rightarrow> pyval \<Rightarrow> exc + pyval" where
  "normalize_output decode output =
     (case is_json_dict decode output of
        Inl e \<Rightarrow> Inl e
      | Inr True \<Rightarrow>
          (case json_loads decode output of
             Inl e \<Rightarrow> Inl e
           | Inr d \<Rightarrow> py_get d ''action_input'' (PStr ''no action_input''))
      | Inr False \<Rightarrow> Inr output)"

subsection \<open>Requests, responses and the services behind the endpoints\<close>

record LLMResponse =
  reply :: pyval
  is_safe :: bool

text \<open>What a handler ends with: a raised \<^verbatim>\<open>HTTPException\<close> or a returned body.\<close>

datatype 'a http = HTTPException nat string | Returns 'a

text \<open>The collaborators a handler calls, in the order it calls them.\<close>

datatype call = JudgeCall string | ExecutorCall string | AnalyzerCall string

text \<open>
  The objects \<^verbatim>\<open>lifespan\<close> builds: the judge chain (its completion's \<^verbatim>\<open>content\<close>, or the
  exception of the call), the debug agent executor and the analysis agent (the reply
  dictionary, or the exception), and the JSON decoder. \<open>'i\<close> is what an agent is invoked
  with: the message, or the message with the stored conversation where the agent is
  wrapped with memory.
\<close>

record 'i services =
  llm_judge :: "string \<Rightarrow> exc + pyval"
  agent_executor :: "'i \<Rightarrow> exc + pyval"
  agent_analyzer :: "'i \<Rightarrow> exc + pyval"
  json_decode :: "string \<Rightarrow> exc + pyval"

text \<open>\<^verbatim>\<open>decision = judge_result.content.strip().upper()\<close>, inside the \<^verbatim>\<open>try\<close>.\<close>

definition judge_decision :: "exc + pyval \<Rightarrow> exc + string" where
  "judge_decision judged =
     (case judged of
        Inl e \<Rightarrow> Inl e
      | Inr content \<Rightarrow>
          (case content of
             PStr s \<Rightarrow> Inr (upper (strip s))
           | _ \<Rightarrow> Inl (no_attribute content ''strip'')))"

definition policy_violation :: pyval where
  "policy_violation =
     PDict [(''output'', PStr (''This query violates safety policy (e.g., attempts to change ''
               @ ''state or access sensitive data) and cannot be executed.''))]"

text \<open>
  Stage 2 of every endpoint: the \<^verbatim>\<open>try\<close> body on the agent's reply, then the
  \<^verbatim>\<open>except Exception\<close> that turns any exception into a 500.
\<close>

definition agent_output :: "(string \<Rightarrow> exc + pyval) \<Rightarrow> exc + pyval \<Rightarrow> exc + pyval" where
  "agent_output decode invoked =
     (case invoked of
        Inl e \<Rightarrow> Inl e
      | Inr agent_reply \<Rightarrow>
          (case py_get agent_reply ''output'' (PStr ''no output'') of
             Inl e \<Rightarrow> Inl e
           | Inr output \<Rightarrow> normalize_output decode output))"

definition agent_stage :: "(string \<Rightarrow> exc + pyval) \<Rightarrow> exc + pyval \<Rightarrow> LLMResponse http" where
  "agent_stage decode invoked =
     (case agent_output decode invoked of
        Inr output \<Rightarrow> Returns \<lparr>reply = PDict [(''output'', output)], is_safe = True\<rparr>
      | Inl e \<Rightarrow> HTTPException 500 ''Internal error occurred while processing the request'')"

subsection \<open>deployment/llm\_client: the gated endpoint\<close>

text \<open>\<^verbatim>\<open>ask_llm\<close> (\<^verbatim>\<open>POST /llm/ask\<close>), with the calls it makes.\<close>

definition ask_llm :: "string services \<Rightarrow> string \<Rightarrow> LLMResponse http \<times> call list" where
  "ask_llm sv message =
     (case judge_decision (llm_judge sv message) of
        Inl e \<Rightarrow>
          (HTTPException 503 (''Safety check service error: '' @ str_exc e),
           [JudgeCall message])
      | Inr decision \<Rightarrow>
          if str_in ''DENIED'' decision
          then (Returns \<lparr>reply = policy_violation, is_safe = False\<rparr>, [JudgeCall message])
          else (agent_stage (json_decode sv) (agent_executor sv message),
                [JudgeCall message, ExecutorCall message]))"

text \<open>\<^verbatim>\<open>ask_llm_current\<close> (\<^verbatim>\<open>POST /llm/ask_current\<close>): no judge, the analysis agent.\<close>

definition ask_llm_current :: "string services \<Rightarrow> string \<Rightarrow> LLMResponse http \<times> call list" where
  "ask_llm_current sv message =
     (agent_stage (json_decode sv) (agent_analyzer sv message), [AnalyzerCall message])"

subsection \<open>deployment/llm\_client\_history: the endpoints with memory\<close>

datatype message = Message (msg_type: string) (msg_content: pyval)

type_synonym store = "string \<Rightarrow> message list"

record app_state =
  session_id :: string

text \<open>
  \<^verbatim>\<open>ask_llm\<close> (\<^verbatim>\<open>POST /ask\<close>) of the history variant. Stage 1 is commented out in the
  source: the function starts at stage 2, the memory-wrapped debug agent on the message
  and the session's stored conversation.
\<close>

definition history_ask_llm ::
  "(message list \<times> string) services \<Rightarrow> app_state \<Rightarrow> store \<Rightarrow> string \<Rightarrow>
     LLMResponse http \<times> call list" where
  "history_ask_llm sv app st message =
     (agent_stage (json_decode sv) (agent_executor sv (st (session_id app), message)),
      [ExecutorCall message])"

text \<open>
  Modelled from the spec: the persistence collaborator behind \<^verbatim>\<open>_get_session_history\<close>
  (the library class \<^verbatim>\<open>PostgresChatMessageHistory\<close>, whose code is not in the sources),
  by its interface \<open>list(session_id)\<close> and \<open>deleteAll(session_id)\<close>. \<open>fault\<close> is the
  error the database reports for this call, if any; a failed call changes nothing.
\<close>

definition get_messages :: "exc option \<Rightarrow> store \<Rightarrow> string \<Rightarrow> exc + message list" where
  "get_messages fault st sid = (case fault of Some e \<Rightarrow> Inl e | None \<Rightarrow> Inr (st sid))"

definition clear :: "exc option \<Rightarrow> store \<Rightarrow> string \<Rightarrow> exc + store" where
  "clear fault st sid = (case fault of Some e \<Rightarrow> Inl e | None \<Rightarrow> Inr (st(sid := [])))"

text \<open>\<^verbatim>\<open>get_conversation_history\<close> (\<^verbatim>\<open>GET /history\<close>).\<close>

definition get_conversation_history :: "exc option \<Rightarrow> app_state \<Rightarrow> store \<Rightarrow> pyval http" where
  "get_conversation_history fault app st =
     (case get_messages fault st (session_id app) of
        Inr messages \<Rightarrow>
          Returns (PDict
            [(''session_id'', PStr (session_id app)),
             (''message_count'', PInt (int (length messages))),
             (''messages'',
              PList (map (\<lambda>msg. PDict [(''type'', PStr (msg_type msg)),
                                        (''content'', msg_content msg)]) messages))])
      | Inl e \<Rightarrow>
          HTTPException 500 (''Error retrieving conversation history: '' @ str_exc e))"

text \<open>\<^verbatim>\<open>clear_conversation_history\<close> (\<^verbatim>\<open>DELETE /history\<close>), with the store it leaves.\<close>

definition cleared_message :: pyval where
  "cleared_message = PDict [(''message'', PStr ''Conversation history cleared successfully'')]"

definition clear_conversation_history ::
  "exc option \<Rightarrow> app_state \<Rightarrow> store \<Rightarrow> pyval http \<times> store" where
  "clear_conversation_history fault app st =
     (case clear fault st (session_id app) of
        Inr st' \<Rightarrow> (Returns cleared_message, st')
      | Inl e \<Rightarrow>
          (HTTPException 500 (''Error clearing conversation history: '' @ str_exc e), st))"

subsection \<open>test/llm\_client/llm\_client\_org.py: the gated endpoint with a translator\<close>

text \<open>
  The messages of this variant are Chinese string literals; they are given as their UTF-8
  bytes: the denial reply, the two 503 prefixes (each ending in a colon and a space) and
  the 500 detail.
\<close>

definition org_policy_violation :: string where
  "org_policy_violation =
     [CHR 0xE6, CHR 0xAD, CHR 0xA4, CHR 0xE6, CHR 0x9F, CHR 0xA5, CHR 0xE8, CHR 0xA9, CHR 0xA2,
      CHR 0xE9, CHR 0x81, CHR 0x95, CHR 0xE5, CHR 0x8F, CHR 0x8D, CHR 0xE5, CHR 0xAE, CHR 0x89,
      CHR 0xE5, CHR 0x85, CHR 0xA8, CHR 0xE7, CHR 0xAD, CHR 0x96, CHR 0xE7, CHR 0x95, CHR 0xA5,
      CHR 0x20, CHR 0x28, CHR 0xE4, CHR 0xBE, CHR 0x8B, CHR 0xE5, CHR 0xA6, CHR 0x82, CHR 0xEF,
      CHR 0xBC, CHR 0x8C, CHR 0xE5, CHR 0x98, CHR 0x97, CHR 0xE8, CHR 0xA9, CHR 0xA6, CHR 0xE6,
      CHR 0x9B, CHR 0xB4, CHR 0xE6, CHR 0x94, CHR 0xB9, CHR 0xE7, CHR 0x8B, CHR 0x80, CHR 0xE6,
      CHR 0x85, CHR 0x8B, CHR 0xE6, CHR 0x88, CHR 0x96, CHR 0xE5, CHR 0xAD, CHR 0x98, CHR 0xE5,
      CHR 0x8F, CHR 0x96, CHR 0xE6, CHR 0x95, CHR 0x8F, CHR 0xE6, CHR 0x84, CHR 0x9F, CHR 0xE8,
      CHR 0xB3, CHR 0x87, CHR 0xE6, CHR 0x96, CHR 0x99, CHR 0x29, CHR 0xEF, CHR 0xBC, CHR 0x8C,
      CHR 0xE7, CHR 0x84, CHR 0xA1, CHR 0xE6, CHR 0xB3, CHR 0x95, CHR 0xE5, CHR 0x9F, CHR 0xB7,
      CHR 0xE8, CHR 0xA1, CHR 0x8C, CHR 0xE3, CHR 0x80, CHR 0x82]"

definition org_judge_error_prefix :: string where
  "org_judge_error_prefix =
     [CHR 0xE5, CHR 0xAE, CHR 0x89, CHR 0xE5, CHR 0x85, CHR 0xA8, CHR 0xE9, CHR 0xA9, CHR 0x97,
      CHR 0xE8, CHR 0xAD, CHR 0x89, CHR 0xE6, CHR 0x9C, CHR 0x8D, CHR 0xE5, CHR 0x8B, CHR 0x99,
      CHR 0xE9, CHR 0x8C, CHR 0xAF, CHR 0xE8, CHR 0xAA, CHR 0xA4, CHR 0x3A, CHR 0x20]"

definition org_translator_error_prefix :: string where
  "org_translator_error_prefix =
     [CHR 0xE7, CHR 0xBF, CHR 0xBB, CHR 0xE8, CHR 0xAD, CHR 0xAF, CHR 0xE6, CHR 0x9C, CHR 0x8D,
      CHR 0xE5, CHR 0x8B, CHR 0x99, CHR 0xE9, CHR 0x8C, CHR 0xAF, CHR 0xE8, CHR 0xAA, CHR 0xA4,
      CHR 0x3A, CHR 0x20]"

definition org_internal_error :: string where
  "org_internal_error =
     [CHR 0xE8, CHR 0x99, CHR 0x95, CHR 0xE7, CHR 0x90, CHR 0x86, CHR 0xE8, CHR 0xAB, CHR 0x8B,
      CHR 0xE6, CHR 0xB1, CHR 0x82, CHR 0xE6, CHR 0x99, CHR 0x82, CHR 0xE7, CHR 0x99, CHR 0xBC,
      CHR 0xE7, CHR 0x94, CHR 0x9F, CHR 0xE5, CHR 0x85, CHR 0xA7, CHR 0xE9, CHR 0x83, CHR 0xA8,
      CHR 0xE9, CHR 0x8C, CHR 0xAF, CHR 0xE8, CHR 0xAA, CHR 0xA4]"

datatype org_call = OrgJudgeCall string | OrgTranslatorCall string | OrgExecutorCall pyval

text \<open>
  \<^verbatim>\<open>ask_llm\<close> (\<^verbatim>\<open>POST /ask\<close>) of this variant: the same judge stage, a denial whose
  reply is a plain string, then a translation of the message (its own 503 on failure) and
  the agent on the translated message. \<open>translator\<close> is the translator chain: the
  completion's \<^verbatim>\<open>content\<close> or the exception of the call.
\<close>

definition org_ask_llm ::
  "pyval services \<Rightarrow> (string \<Rightarrow> exc + pyval) \<Rightarrow> string \<Rightarrow> LLMResponse http \<times> org_call list" where
  "org_ask_llm sv translator message =
     (case judge_decision (llm_judge sv message) of
        Inl e \<Rightarrow>
          (HTTPException 503 (org_judge_error_prefix @ str_exc e), [OrgJudgeCall message])
      | Inr decision \<Rightarrow>
          if str_in ''DENIED'' decision
          then (Returns \<lparr>reply = PStr org_policy_violation, is_safe = False\<rparr>,
                [OrgJudgeCall message])
          else
            (case translator message of
               Inl e \<Rightarrow>
                 (HTTPException 503 (org_translator_error_prefix @ str_exc e),
                  [OrgJudgeCall message, OrgTranslatorCall message])
             | Inr translated_msg \<Rightarrow>
                 ((case agent_output (json_decode sv) (agent_executor sv translated_msg) of
                     Inr output \<Rightarrow>
                       Returns \<lparr>reply = PDict [(''output'', output)], is_safe = True\<rparr>
                   | Inl e \<Rightarrow> HTTPException 500 org_internal_error),
                  [OrgJudgeCall message, OrgTranslatorCall message,
                   OrgExecutorCall translated_msg])))"

section \<open>The reasoning loop\<close>

text \<open>
  Modelled from the spec: the ReasoningLoop of section 4.2. In the repository it is the
  agent executor of the LangChain library, built by \<^verbatim>\<open>lifespan\<close> from a tool list; its
  code is not in the sources. The model's completion is the parameter \<open>think\<close>, a function
  of the steps so far: a tool selection, a final answer, or malformed output. A selected
  tool is looked up by name in the loop's own tool list and invoked through it; a
  selection that names no tool of the list, or whose arguments do not fit the tool's
  schema, becomes an observation without any invocation. Malformed output is retried with
  a parsing-error notice while retries are left. The cycle bound and the retry bound force
  \<open>FAILED\<close>.
\<close>

datatype completion = ToolSelection string tool_input | FinalAnswer string | Malformed

datatype step = Invocation tool tool_input pyval | Rejected string | ParseErrorNotice

datatype loop_end = DONE string | FAILED

function reasoning_loop ::
  "env \<Rightarrow> tool list \<Rightarrow> (step list \<Rightarrow> completion) \<Rightarrow> nat \<Rightarrow> nat \<Rightarrow> step list \<Rightarrow>
     loop_end \<times> step list" where
  "reasoning_loop ev tools think cycles retries steps =
     (if cycles = 0 then (FAILED, steps)
      else case think steps of
             FinalAnswer answer \<Rightarrow> (DONE answer, steps)
           | Malformed \<Rightarrow>
               if retries = 0 then (FAILED, steps)
               else reasoning_loop ev tools think cycles (retries - 1)
                      (steps @ [ParseErrorNotice])
           | ToolSelection n args \<Rightarrow>
               (case find (\<lambda>t. name t = n) tools of
                  None \<Rightarrow>
                    reasoning_loop ev tools think (cycles - 1) retries (steps @ [Rejected n])
                | Some t \<Rightarrow>
                    (case run_tool ev t args of
                       None \<Rightarrow>
                         reasoning_loop ev tools think (cycles - 1) retries
                           (steps @ [Rejected n])
                     | Some observation \<Rightarrow>
                         reasoning_loop ev tools think (cycles - 1) retries
                           (steps @ [Invocation t args observation]))))"
  by pat_completeness auto
termination
  by (relation "measure (\<lambda>(ev, tools, think, cycles, retries, steps). cycles + retries)") auto

text \<open>The tools a run has invoked, in order.\<close>

fun invoked_tools :: "step list \<Rightarrow> tool list" where
  "invoked_tools [] = []"
| "invoked_tools (Invocation t args observation # rest) = t # invoked_tools rest"
| "invoked_tools (s # rest) = invoked_tools rest"

text \<open>
  The two instantiations \<^verbatim>\<open>lifespan\<close> sets up: the debug agent (\<^verbatim>\<open>agent_executor\<close>) on
  \<^verbatim>\<open>debug_tools\<close>, the analysis agent (\<^verbatim>\<open>agent_analyzer\<close>) on \<^verbatim>\<open>analysis_tools\<close>.
\<close>

definition debug_loop ::
  "env \<Rightarrow> (step list \<Rightarrow> completion) \<Rightarrow> nat \<Rightarrow> nat \<Rightarrow> loop_end \<times> step list" where
  "debug_loop ev think cycles retries = reasoning_loop ev debug_tools think cycles retries []"

definition analysis_loop ::
  "env \<Rightarrow> (step list \<Rightarrow> completion) \<Rightarrow> nat \<Rightarrow> nat \<Rightarrow> loop_end \<times> step list" where
  "analysis_loop ev think cycles retries =
     reasoning_loop ev analysis_tools think cycles retries []"

section \<open>String facts\<close>

lemma starts_with_iff: "starts_with needle hay \<longleftrightarrow> prefix needle hay"
  by (induction needle hay rule: starts_with.induct) simp_all

lemma str_in_iff_sublist: "str_in needle hay \<longleftrightarrow> sublist needle hay"
  by (induction hay) (simp_all add: starts_with_iff sublist_Cons_right)

lemma str_in_iff: "str_in needle hay \<longleftrightarrow> (\<exists>before after. hay = before @ needle @ after)"
  by (simp add: str_in_iff_sublist sublist_def)

text \<open>
  Searching in a case-mapped string finds the pieces of the original string that the
  mapping sends to the needle: with \<open>lower\<close>, the case variants of the needle.
\<close>

lemma str_in_map_iff:
  "str_in needle (map f s) \<longleftrightarrow> (\<exists>before piece after. s = before @ piece @ after \<and> map f piece = needle)"
proof
  assume "str_in needle (map f s)"
  then obtain b' a' where "map f s = b' @ needle @ a'"
    by (auto simp: str_in_iff)
  then obtain b r where s: "s = b @ r" and "map f b = b'" and r: "map f r = needle @ a'"
    by (metis map_eq_append_conv)
  from r obtain m a where "r = m @ a" "map f m = needle"
    by (metis map_eq_append_conv)
  with s show "\<exists>before piece after. s = before @ piece @ after \<and> map f piece = needle"
    by blast
next
  assume "\<exists>before piece after. s = before @ piece @ after \<and> map f piece = needle"
  then obtain b m a where "s = b @ m @ a" "map f m = needle"
    by blast
  then have "map f s = map f b @ needle @ map f a"
    by simp
  then show "str_in needle (map f s)"
    unfolding str_in_iff by blast
qed

lemma remove_spaces_no_space: "CHR '' '' \<notin> set (remove_spaces s)"
  by (simp add: remove_spaces_def)

text \<open>Splitting a string into its characters loses nothing.\<close>

lemma concat_chars: "concat (chars s) = s"
  by (induction s rule: chars.induct) simp_all

lemma chars_eq_Nil_iff: "chars s = [] \<longleftrightarrow> s = []"
  by (cases s) simp_all

text \<open>
  What trimming does: the characters dropped at either end are whitespace, and what is
  left neither starts nor ends with whitespace.
\<close>

lemma trim_decomp:
  "\<exists>pre post. cs = pre @ trim cs @ post
     \<and> list_all is_space pre \<and> list_all is_space post"
proof -
  let ?l = "takeWhile is_space cs" and ?r = "dropWhile is_space cs"
  have "rev ?r = takeWhile is_space (rev ?r) @ dropWhile is_space (rev ?r)"
    by simp
  then have "?r = trim cs @ rev (takeWhile is_space (rev ?r))"
    unfolding trim_def by (metis rev_append rev_rev_ident)
  then have "cs = ?l @ trim cs @ rev (takeWhile is_space (rev ?r))"
    by (metis takeWhile_dropWhile_id)
  moreover have "list_all is_space ?l"
    by (simp add: list_all_iff) (meson set_takeWhileD)
  moreover have "list_all is_space (rev (takeWhile is_space (rev ?r)))"
    by (simp add: list_all_iff) (meson set_takeWhileD)
  ultimately show ?thesis
    by blast
qed

lemma last_dropWhile_nonempty: "dropWhile P xs \<noteq> [] \<Longrightarrow> last (dropWhile P xs) = last xs"
  by (metis last_appendR takeWhile_dropWhile_id)

lemma trim_ends:
  assumes "trim cs \<noteq> []"
  shows "\<not> is_space (hd (trim cs)) \<and> \<not> is_space (last (trim cs))"
proof -
  let ?r = "dropWhile is_space cs"
  from assms have ne: "dropWhile is_space (rev ?r) \<noteq> []"
    by (simp add: trim_def)
  then have "\<not> is_space (hd (dropWhile is_space (rev ?r)))"
    by (rule hd_dropWhile)
  then have l: "\<not> is_space (last (trim cs))"
    using ne by (simp add: trim_def last_rev)
  have r: "?r \<noteq> []"
  proof
    assume "?r = []"
    with ne show False
      by simp
  qed
  then have "\<not> is_space (hd ?r)"
    by (rule hd_dropWhile)
  moreover have "hd (trim cs) = hd ?r"
    using ne r by (simp add: trim_def hd_rev last_dropWhile_nonempty last_rev)
  ultimately show ?thesis
    using l by simp
qed


text \<open>
  The characters of a string are separate, any stretch of separate characters is, and
  spelling separate characters and splitting again gives them back. So stripping and then
  uppercasing, each from string to string, is uppercasing the characters that the
  trimming leaves.
\<close>

lemma separate_chars: "separate (chars s)"
proof (induction s rule: chars.induct)
  case 1
  show ?case by simp
next
  case (2 b bs)
  have "list_all is_continuation (takeWhile is_continuation bs)"
    by (simp add: list_all_iff) (meson set_takeWhileD)
  moreover have "case chars (dropWhile is_continuation bs) of [] \<Rightarrow> True
                 | d # ds \<Rightarrow> d \<noteq> [] \<and> \<not> is_continuation (hd d)"
  proof (cases "dropWhile is_continuation bs")
    case Nil
    show ?thesis unfolding Nil by simp
  next
    case (Cons e es)
    then have "\<not> is_continuation e"
      by (metis hd_dropWhile list.sel(1) list.distinct(1))
    with Cons show ?thesis by simp
  qed
  ultimately show ?case
    using 2 by simp
qed

lemma separate_append: "separate (xs @ ys) \<Longrightarrow> separate xs \<and> separate ys"
proof (induction xs)
  case Nil
  then show ?case by simp
next
  case (Cons c cs)
  then show ?case
    by (cases cs) (auto split: list.splits)
qed

lemma chars_concat: "separate cs \<Longrightarrow> chars (concat cs) = cs"
proof (induction cs)
  case Nil
  show ?case by simp
next
  case (Cons c cs)
  then obtain b t where c: "c = b # t" and t: "list_all is_continuation t"
    by (cases c) auto
  from Cons.prems have sep: "separate cs"
    by simp
  have tw: "takeWhile is_continuation (t @ concat cs) = t"
   and dw: "dropWhile is_continuation (t @ concat cs) = concat cs"
  proof -
    have "takeWhile is_continuation (concat cs) = [] \<and>
          dropWhile is_continuation (concat cs) = concat cs"
    proof (cases cs)
      case Nil
      then show ?thesis by simp
    next
      case (Cons d ds)
      with Cons.prems obtain e u where "d = e # u" "\<not> is_continuation e"
        by (cases d) auto
      with Cons show ?thesis by simp
    qed
    with t show "takeWhile is_continuation (t @ concat cs) = t"
      and "dropWhile is_continuation (t @ concat cs) = concat cs"
      by (simp_all add: list_all_iff takeWhile_append2 dropWhile_append2)
  qed
  show ?case
    using Cons.IH [OF sep] by (simp add: c tw dw)
qed

lemma upper_strip: "upper (strip s) = concat (map upper_char (trim (chars s)))"
proof -
  obtain pre post where "chars s = pre @ trim (chars s) @ post"
    using trim_decomp by blast
  then have "separate (trim (chars s))"
    by (metis separate_append separate_chars)
  then show ?thesis
    by (simp add: upper_def strip_def chars_concat)
qed

lemmas case_simps =
  upper_def lower_def strip_def trim_def is_space_def whitespace_def is_continuation_def
  upper_char_def upper_rows_def upper_row_ascii_def lower_char_def
  ascii_lowercase_def ascii_uppercase_def

section \<open>The policy gate\<close>

lemma agent_stage_safe: "agent_stage decode got = Returns r \<Longrightarrow> is_safe r"
  by (auto simp: agent_stage_def split: sum.splits)

text \<open>
  C1. Whatever text the judge completes with, the endpoint normalises it to the uppercase
  of its characters between the leading and the trailing whitespace, and the request is
  denied (a returned response with \<open>is_safe = False\<close>) if and only if the normalised text
  contains \<^verbatim>\<open>DENIED\<close> as a contiguous piece. On any other judge text, the empty one
  included, the request goes on to the agent executor. The original variant of the
  endpoint (test/llm\_client/llm\_client\_org.py) decides by the same rule, and on
  approval goes on to its translator and, with what that returns, to the agent executor.
\<close>

theorem ask_llm_denied_iff:
  "(llm_judge sv message = Inr (PStr answer) \<longrightarrow>
      judge_decision (llm_judge sv message) = Inr (upper (strip answer))
    \<and> (\<exists>pre core post.
          chars answer = pre @ core @ post
          \<and> list_all is_space pre \<and> list_all is_space post
          \<and> (core = [] \<or> \<not> is_space (hd core) \<and> \<not> is_space (last core))
          \<and> upper (strip answer) = concat (map upper_char core))
    \<and> ((\<exists>r. fst (ask_llm sv message) = Returns r \<and> \<not> is_safe r)
           \<longleftrightarrow> (\<exists>before after. upper (strip answer) = before @ ''DENIED'' @ after))
    \<and> ask_llm sv message =
          (if str_in ''DENIED'' (upper (strip answer))
           then (Returns \<lparr>reply = policy_violation, is_safe = False\<rparr>, [JudgeCall message])
           else (agent_stage (json_decode sv) (agent_executor sv message),
                 [JudgeCall message, ExecutorCall message])))
   \<and> (llm_judge org_sv message = Inr (PStr answer) \<longrightarrow>
        ((\<exists>r. fst (org_ask_llm org_sv translator message) = Returns r \<and> \<not> is_safe r)
           \<longleftrightarrow> (\<exists>before after. upper (strip answer) = before @ ''DENIED'' @ after))
      \<and> (str_in ''DENIED'' (upper (strip answer)) \<longrightarrow>
            org_ask_llm org_sv translator message =
              (Returns \<lparr>reply = PStr org_policy_violation, is_safe = False\<rparr>,
               [OrgJudgeCall message]))
      \<and> (\<not> str_in ''DENIED'' (upper (strip answer)) \<longrightarrow>
            org_ask_llm org_sv translator message =
              (case translator message of
                 Inl e \<Rightarrow>
                   (HTTPException 503 (org_translator_error_prefix @ str_exc e),
                    [OrgJudgeCall message, OrgTranslatorCall message])
               | Inr translated_msg \<Rightarrow>
                   ((case agent_output (json_decode org_sv)
                            (agent_executor org_sv translated_msg) of
                       Inr output \<Rightarrow>
                         Returns \<lparr>reply = PDict [(''output'', output)], is_safe = True\<rparr>
                     | Inl e \<Rightarrow> HTTPException 500 org_internal_error),
                    [OrgJudgeCall message, OrgTranslatorCall message,
                     OrgExecutorCall translated_msg]))))"
proof (intro conjI impI)
  assume judged: "llm_judge sv message = Inr (PStr answer)"
  then show "judge_decision (llm_judge sv message) = Inr (upper (strip answer))"
    by (simp add: judge_decision_def)
  obtain pre post where "chars answer = pre @ trim (chars answer) @ post"
    and "list_all is_space pre" and "list_all is_space post"
    using trim_decomp by blast
  moreover have "trim (chars answer) = [] \<or>
      \<not> is_space (hd (trim (chars answer))) \<and> \<not> is_space (last (trim (chars answer)))"
    using trim_ends by blast
  ultimately show "\<exists>pre core post.
          chars answer = pre @ core @ post
          \<and> list_all is_space pre \<and> list_all is_space post
          \<and> (core = [] \<or> \<not> is_space (hd core) \<and> \<not> is_space (last core))
          \<and> upper (strip answer) = concat (map upper_char core)"
    using upper_strip by blast
  show run: "ask_llm sv message =
          (if str_in ''DENIED'' (upper (strip answer))
           then (Returns \<lparr>reply = policy_violation, is_safe = False\<rparr>, [JudgeCall message])
           else (agent_stage (json_decode sv) (agent_executor sv message),
                 [JudgeCall message, ExecutorCall message]))"
    using judged by (simp add: ask_llm_def judge_decision_def)
  have "(\<exists>r. fst (ask_llm sv message) = Returns r \<and> \<not> is_safe r)
          \<longleftrightarrow> str_in ''DENIED'' (upper (strip answer))"
    using agent_stage_safe by (auto simp: run)
  then show "(\<exists>r. fst (ask_llm sv message) = Returns r \<and> \<not> is_safe r)
           \<longleftrightarrow> (\<exists>before after. upper (strip answer) = before @ ''DENIED'' @ after)"
    by (simp only: str_in_iff)
next
  assume judged: "llm_judge org_sv message = Inr (PStr answer)"
  have "(\<exists>r. fst (org_ask_llm org_sv translator message) = Returns r \<and> \<not> is_safe r)
          \<longleftrightarrow> str_in ''DENIED'' (upper (strip answer))"
    using judged by (auto simp: org_ask_llm_def judge_decision_def split: sum.splits)
  then show "(\<exists>r. fst (org_ask_llm org_sv translator message) = Returns r \<and> \<not> is_safe r)
           \<longleftrightarrow> (\<exists>before after. upper (strip answer) = before @ ''DENIED'' @ after)"
    by (simp only: str_in_iff)
  show "org_ask_llm org_sv translator message =
              (Returns \<lparr>reply = PStr org_policy_violation, is_safe = False\<rparr>,
               [OrgJudgeCall message])"
    if "str_in ''DENIED'' (upper (strip answer))"
    using judged that by (simp add: org_ask_llm_def judge_decision_def)
  show "org_ask_llm org_sv translator message =
              (case translator message of
                 Inl e \<Rightarrow>
                   (HTTPException 503 (org_translator_error_prefix @ str_exc e),
                    [OrgJudgeCall message, OrgTranslatorCall message])
               | Inr translated_msg \<Rightarrow>
                   ((case agent_output (json_decode org_sv)
                            (agent_executor org_sv translated_msg) of
                       Inr output \<Rightarrow>
                         Returns \<lparr>reply = PDict [(''output'', output)], is_safe = True\<rparr>
                     | Inl e \<Rightarrow> HTTPException 500 org_internal_error),
                    [OrgJudgeCall message, OrgTranslatorCall message,
                     OrgExecutorCall translated_msg]))"
    if "\<not> str_in ''DENIED'' (upper (strip answer))"
    using judged that by (simp add: org_ask_llm_def judge_decision_def)
qed



theorem ask_llm_denied_iff_witness:
  "judge_decision (Inr (PStr ([CHR 0xC2, CHR 0xA0] @ ''  den'' @ [CHR 0xC4, CHR 0xB1] @ ''ed: changes state '' @ [CHR 0xE3, CHR 0x80, CHR 0x80, CHR 0x0A])))
     = Inr ''DENIED: CHANGES STATE''
   \<and> ask_llm \<lparr>llm_judge = (\<lambda>m. Inr (PStr ([CHR 0xC2, CHR 0xA0] @ ''  den'' @ [CHR 0xC4, CHR 0xB1] @ ''ed: changes state '' @ [CHR 0xE3, CHR 0x80, CHR 0x80, CHR 0x0A]))),
            agent_executor = (\<lambda>m. Inr (PDict [(''output'', PStr ''ok'')])),
            agent_analyzer = (\<lambda>m. Inr (PDict [(''output'', PStr ''fine'')])),
            json_decode = (\<lambda>s. Inl (Exc JSONDecodeError ''Expecting value''))\<rparr> ''delete all pods''
     = (Returns \<lparr>reply = policy_violation, is_safe = False\<rparr>, [JudgeCall ''delete all pods''])
   \<and> org_ask_llm \<lparr>llm_judge = (\<lambda>m. Inr (PStr ([CHR 0xC2, CHR 0xA0] @ ''  den'' @ [CHR 0xC4, CHR 0xB1] @ ''ed: changes state '' @ [CHR 0xE3, CHR 0x80, CHR 0x80, CHR 0x0A]))),
                agent_executor = (\<lambda>m. Inr (PDict [(''output'', PStr ''ok'')])),
                agent_analyzer = (\<lambda>m. Inr (PDict [(''output'', PStr ''fine'')])),
                json_decode = (\<lambda>s. Inl (Exc JSONDecodeError ''Expecting value''))\<rparr> (\<lambda>m. Inr (PStr ''list the namespaces'')) ''delete all pods''
     = (Returns \<lparr>reply = PStr org_policy_violation, is_safe = False\<rparr>,
        [OrgJudgeCall ''delete all pods''])
   \<and> ask_llm \<lparr>llm_judge = (\<lambda>m. Inr (PStr [])),
            agent_executor = (\<lambda>m. Inr (PDict [(''output'', PStr ''ok'')])),
            agent_analyzer = (\<lambda>m. Inr (PDict [(''output'', PStr ''fine'')])),
            json_decode = (\<lambda>s. Inl (Exc JSONDecodeError ''Expecting value''))\<rparr> ''list namespaces''
     = (Returns \<lparr>reply = PDict [(''output'', PStr ''ok'')], is_safe = True\<rparr>,
        [JudgeCall ''list namespaces'', ExecutorCall ''list namespaces''])
   \<and> org_ask_llm \<lparr>llm_judge = (\<lambda>m. Inr (PStr [])),
                agent_executor = (\<lambda>m. Inr (PDict [(''output'', PStr ''ok'')])),
                agent_analyzer = (\<lambda>m. Inr (PDict [(''output'', PStr ''fine'')])),
                json_decode = (\<lambda>s. Inl (Exc JSONDecodeError ''Expecting value''))\<rparr> (\<lambda>m. Inr (PStr ''list the namespaces'')) ''list namespaces''
     = (Returns \<lparr>reply = PDict [(''output'', PStr ''ok'')], is_safe = True\<rparr>,
        [OrgJudgeCall ''list namespaces'', OrgTranslatorCall ''list namespaces'',
         OrgExecutorCall (PStr ''list the namespaces'')])"
proof -
  let ?answer = "[CHR 0xC2, CHR 0xA0] @ ''  den'' @ [CHR 0xC4, CHR 0xB1] @ ''ed: changes state '' @ [CHR 0xE3, CHR 0x80, CHR 0x80, CHR 0x0A]"
  let ?sv = "\<lparr>llm_judge = (\<lambda>m. Inr (PStr ([CHR 0xC2, CHR 0xA0] @ ''  den'' @ [CHR 0xC4, CHR 0xB1] @ ''ed: changes state '' @ [CHR 0xE3, CHR 0x80, CHR 0x80, CHR 0x0A]))),
            agent_executor = (\<lambda>m. Inr (PDict [(''output'', PStr ''ok'')])),
            agent_analyzer = (\<lambda>m. Inr (PDict [(''output'', PStr ''fine'')])),
            json_decode = (\<lambda>s. Inl (Exc JSONDecodeError ''Expecting value''))\<rparr>"
  let ?org_sv = "\<lparr>llm_judge = (\<lambda>m. Inr (PStr ([CHR 0xC2, CHR 0xA0] @ ''  den'' @ [CHR 0xC4, CHR 0xB1] @ ''ed: changes state '' @ [CHR 0xE3, CHR 0x80, CHR 0x80, CHR 0x0A]))),
            agent_executor = (\<lambda>m. Inr (PDict [(''output'', PStr ''ok'')])),
            agent_analyzer = (\<lambda>m. Inr (PDict [(''output'', PStr ''fine'')])),
            json_decode = (\<lambda>s. Inl (Exc JSONDecodeError ''Expecting value''))\<rparr>"
  let ?sv' = "\<lparr>llm_judge = (\<lambda>m. Inr (PStr [])),
            agent_executor = (\<lambda>m. Inr (PDict [(''output'', PStr ''ok'')])),
            agent_analyzer = (\<lambda>m. Inr (PDict [(''output'', PStr ''fine'')])),
            json_decode = (\<lambda>s. Inl (Exc JSONDecodeError ''Expecting value''))\<rparr>"
  let ?org_sv' = "\<lparr>llm_judge = (\<lambda>m. Inr (PStr [])),
            agent_executor = (\<lambda>m. Inr (PDict [(''output'', PStr ''ok'')])),
            agent_analyzer = (\<lambda>m. Inr (PDict [(''output'', PStr ''fine'')])),
            json_decode = (\<lambda>s. Inl (Exc JSONDecodeError ''Expecting value''))\<rparr>"
  let ?translator = "(\<lambda>m. Inr (PStr ''list the namespaces'')) :: string \<Rightarrow> exc + pyval"
  note denied = ask_llm_denied_iff
    [where sv = ?sv and org_sv = ?org_sv and translator = ?translator
       and message = "''delete all pods''" and answer = ?answer]
  note approved = ask_llm_denied_iff
    [where sv = ?sv' and org_sv = ?org_sv' and translator = ?translator
       and message = "''list namespaces''" and answer = "[]"]
  have judged: "llm_judge ?sv ''delete all pods'' = Inr (PStr ?answer)"
    and org_judged: "llm_judge ?org_sv ''delete all pods'' = Inr (PStr ?answer)"
    and judged': "llm_judge ?sv' ''list namespaces'' = Inr (PStr [])"
    and org_judged': "llm_judge ?org_sv' ''list namespaces'' = Inr (PStr [])"
    by simp_all
  note main = denied [THEN conjunct1, THEN mp, OF judged]
    and org = denied [THEN conjunct2, THEN mp, OF org_judged]
    and main' = approved [THEN conjunct1, THEN mp, OF judged']
    and org' = approved [THEN conjunct2, THEN mp, OF org_judged']
  show ?thesis
    using main [THEN conjunct1]
      main [THEN conjunct2, THEN conjunct2, THEN conjunct2]
      org [THEN conjunct2, THEN conjunct1]
      main' [THEN conjunct2, THEN conjunct2, THEN conjunct2]
      org' [THEN conjunct2, THEN conjunct2]
    by (simp add: case_simps upper_row_C4_def org_ask_llm_def judge_decision_def
          agent_stage_def agent_output_def normalize_output_def
          is_json_dict_def json_loads_def dict_get_def)
qed

text \<open>
  C5. When the judge call itself raises, the endpoint answers 503 and nothing else
  happens; and a response with \<open>is_safe = False\<close> is only ever returned after the judge
  call has succeeded with a text whose normal form contains \<^verbatim>\<open>DENIED\<close>, and is then
  the fixed policy message.
\<close>

theorem ask_llm_judge_failure:
  "(llm_judge sv message = Inl e \<longrightarrow>
      ask_llm sv message =
        (HTTPException 503 (''Safety check service error: '' @ str_exc e),
         [JudgeCall message]))
   \<and> (fst (ask_llm sv message) = Returns r \<and> \<not> is_safe r \<longrightarrow>
        (\<exists>text. llm_judge sv message = Inr (PStr text)
                \<and> str_in ''DENIED'' (upper (strip text))
                \<and> r = \<lparr>reply = policy_violation, is_safe = False\<rparr>))"
proof (intro conjI impI)
  assume "llm_judge sv message = Inl e"
  then show "ask_llm sv message =
        (HTTPException 503 (''Safety check service error: '' @ str_exc e),
         [JudgeCall message])"
    by (simp add: ask_llm_def judge_decision_def)
next
  assume denial: "fst (ask_llm sv message) = Returns r \<and> \<not> is_safe r"
  show "\<exists>text. llm_judge sv message = Inr (PStr text)
                \<and> str_in ''DENIED'' (upper (strip text))
                \<and> r = \<lparr>reply = policy_violation, is_safe = False\<rparr>"
  proof (cases "judge_decision (llm_judge sv message)")
    case (Inl e')
    with denial show ?thesis
      by (simp add: ask_llm_def)
  next
    case (Inr decision)
    with denial have d: "str_in ''DENIED'' decision"
      and r: "r = \<lparr>reply = policy_violation, is_safe = False\<rparr>"
      using agent_stage_safe by (auto simp: ask_llm_def split: if_splits)
    from Inr obtain answer where "llm_judge sv message = Inr (PStr answer)"
      and "decision = upper (strip answer)"
      by (auto simp: judge_decision_def split: sum.splits pyval.splits)
    with d r show ?thesis
      by blast
  qed
qed

theorem ask_llm_judge_failure_witness:
  "ask_llm \<lparr>llm_judge = (\<lambda>m. Inl (Exc OtherException ''Request timed out.'')),
            agent_executor = (\<lambda>m. Inr (PDict [(''output'', PStr ''ok'')])),
            agent_analyzer = (\<lambda>m. Inr (PDict [(''output'', PStr ''fine'')])),
            json_decode = (\<lambda>s. Inl (Exc JSONDecodeError ''Expecting value''))\<rparr> ''delete all pods''
     = (HTTPException 503 ''Safety check service error: Request timed out.'',
        [JudgeCall ''delete all pods''])
   \<and> fst (ask_llm \<lparr>llm_judge = (\<lambda>m. Inr (PStr ''DENIED'')),
                 agent_executor = (\<lambda>m. Inr (PDict [(''output'', PStr ''ok'')])),
                 agent_analyzer = (\<lambda>m. Inr (PDict [(''output'', PStr ''fine'')])),
                 json_decode = (\<lambda>s. Inl (Exc JSONDecodeError ''Expecting value''))\<rparr> ''delete all pods'')
       = Returns \<lparr>reply = policy_violation, is_safe = False\<rparr>
   \<and> str_in ''DENIED'' (upper (strip ''DENIED''))"
  using ask_llm_judge_failure
          [of "\<lparr>llm_judge = (\<lambda>m. Inl (Exc OtherException ''Request timed out.'')),
                agent_executor = (\<lambda>m. Inr (PDict [(''output'', PStr ''ok'')])),
                agent_analyzer = (\<lambda>m. Inr (PDict [(''output'', PStr ''fine'')])),
                json_decode = (\<lambda>s. Inl (Exc JSONDecodeError ''Expecting value''))\<rparr>"
              "''delete all pods''" "Exc OtherException ''Request timed out.''"
              "\<lparr>reply = policy_violation, is_safe = False\<rparr>"]
        ask_llm_judge_failure
          [of "\<lparr>llm_judge = (\<lambda>m. Inr (PStr ''DENIED'')),
                agent_executor = (\<lambda>m. Inr (PDict [(''output'', PStr ''ok'')])),
                agent_analyzer = (\<lambda>m. Inr (PDict [(''output'', PStr ''fine'')])),
                json_decode = (\<lambda>s. Inl (Exc JSONDecodeError ''Expecting value''))\<rparr>"
              "''delete all pods''" "Exc OtherException ''Request timed out.''"
              "\<lparr>reply = policy_violation, is_safe = False\<rparr>"]
  by (simp add: ask_llm_def judge_decision_def case_simps)

section \<open>Output normalisation\<close>

lemma is_json_dict_str:
  "is_json_dict decode (PStr s) =
     (case decode s of
        Inr v \<Rightarrow> Inr (is_dict v)
      | Inl e \<Rightarrow> if exc_cls e = JSONDecodeError then Inr False else Inl e)"
  by (simp add: is_json_dict_def json_loads_def)


text \<open>
  An exception of \<^verbatim>\<open>json.loads\<close> that is no \<^verbatim>\<open>JSONDecodeError\<close> passes through the
  guard and through the normalisation, and the endpoint's \<^verbatim>\<open>except Exception\<close> answers
  500.
\<close>

lemma is_json_dict_propagates:
  assumes "decode s = Inl e" and "exc_cls e \<noteq> JSONDecodeError"
  shows "is_json_dict decode (PStr s) = Inl e"
    and "normalize_output decode (PStr s) = Inl e"
    and "agent_stage decode (Inr (PDict [(''output'', PStr s)]))
           = HTTPException 500 ''Internal error occurred while processing the request''"
  using assms
  by (simp_all add: is_json_dict_str normalize_output_def agent_stage_def agent_output_def
        dict_get_def)







section \<open>The kubectl tool\<close>

text \<open>
  C8. When the remote command exits with code 0 the kubectl tool answers with status
  "success" and an output that is the command's stdout with every space character removed
  (so not the verbatim stdout as soon as it holds a space); on any other exit code it
  answers with status "error" and the stderr text as it is.
\<close>

theorem kubectl_run_exit_code:
  "run (jump_server_ssh_arguments cfg @ '' '' @ jump_server_host cfg
         @ '' '' @ [CHR 0x27] @ command @ [CHR 0x27]) = Inr result \<Longrightarrow>
   kubectl_run cfg run command =
     (if returncode result = 0
      then PDict [(''status'', PStr ''success''),
                  (''output'', PStr (filter (\<lambda>c. c \<noteq> CHR '' '') (stdout result))),
                  (''command'', PStr command)]
      else PDict [(''status'', PStr ''error''),
                  (''output'', PStr (stderr result)),
                  (''command'', PStr command)])"
  by (simp add: kubectl_run_def remove_spaces_def)

theorem kubectl_run_exit_code_witness:
  "kubectl_run \<lparr>jump_server_host = ''jump'', jump_server_ssh_arguments = ''ssh -q'',
                 loki_api_url = ''http://loki'', prometheus_api_url = ''http://prom''\<rparr>
     (\<lambda>c. Inr \<lparr>returncode = 0, stdout = ''NAME   STATUS'', stderr = []\<rparr>)
     ''kubectl get ns''
   = PDict [(''status'', PStr ''success''), (''output'', PStr ''NAMESTATUS''),
            (''command'', PStr ''kubectl get ns'')]
   \<and>
   kubectl_run \<lparr>jump_server_host = ''jump'', jump_server_ssh_arguments = ''ssh -q'',
                 loki_api_url = ''http://loki'', prometheus_api_url = ''http://prom''\<rparr>
     (\<lambda>c. Inr \<lparr>returncode = 1, stdout = ''x y'', stderr = ''not found: a b''\<rparr>)
     ''kubectl get nx''
   = PDict [(''status'', PStr ''error''), (''output'', PStr ''not found: a b''),
            (''command'', PStr ''kubectl get nx'')]"
  using kubectl_run_exit_code
          [of "\<lambda>c. Inr \<lparr>returncode = 0, stdout = ''NAME   STATUS'', stderr = []\<rparr>"
              "\<lparr>jump_server_host = ''jump'', jump_server_ssh_arguments = ''ssh -q'',
                loki_api_url = ''http://loki'', prometheus_api_url = ''http://prom''\<rparr>"
              "''kubectl get ns''"
              "\<lparr>returncode = 0, stdout = ''NAME   STATUS'', stderr = []\<rparr>"]
        kubectl_run_exit_code
          [of "\<lambda>c. Inr \<lparr>returncode = 1, stdout = ''x y'', stderr = ''not found: a b''\<rparr>"
              "\<lparr>jump_server_host = ''jump'', jump_server_ssh_arguments = ''ssh -q'',
                loki_api_url = ''http://loki'', prometheus_api_url = ''http://prom''\<rparr>"
              "''kubectl get nx''"
              "\<lparr>returncode = 1, stdout = ''x y'', stderr = ''not found: a b''\<rparr>"]
  by simp

section \<open>The tool boundary\<close>

lemma kubectl_run_has_status: "has_status (kubectl_run cfg run command)"
  by (simp add: kubectl_run_def Let_def split: sum.splits)

lemma loki_labels_run_has_status: "has_status (loki_labels_run cfg get)"
  by (simp add: loki_labels_run_def split: sum.splits)

lemma prometheus_pods_run_has_status: "has_status (prometheus_pods_run cfg get)"
  by (simp add: prometheus_pods_run_def split: sum.splits)

lemma loki_logs_try_cases:
  assumes "loki_logs_try cfg get query start_time end_time limit debug = Inr r"
  shows "has_status r \<or>
         (r = PNone \<and> \<not> debug \<and>
          (\<exists>d. fetch_json (get (loki_api_url cfg @ ''/logs'')
                  [(''query'', PStr query), (''start_time'', PStr start_time),
                   (''end_time'', PStr end_time), (''limit'', PInt limit)]) = Inr (PDict d)
               \<and> \<not> truthy (dict_get d ''values'' (PList []))))"
proof -
  let ?got = "fetch_json (get (loki_api_url cfg @ ''/logs'')
                  [(''query'', PStr query), (''start_time'', PStr start_time),
                   (''end_time'', PStr end_time), (''limit'', PInt limit)])"
  from assms obtain logs_data where got: "?got = Inr logs_data"
    by (auto simp: loki_logs_try_def Let_def split: sum.splits)
  from assms got obtain d where d: "logs_data = PDict d"
    by (cases logs_data) (auto simp: loki_logs_try_def Let_def split: if_splits)
  show ?thesis
    using assms got d
    by (auto simp: loki_logs_try_def Let_def split: if_splits sum.splits)
qed


lemma loki_logs_run_cases:
  "has_status (loki_logs_run cfg get query start_time end_time limit debug) \<or>
   (loki_logs_run cfg get query start_time end_time limit debug = PNone \<and> \<not> debug \<and>
    (\<exists>d. fetch_json (get (loki_api_url cfg @ ''/logs'')
            [(''query'', PStr query), (''start_time'', PStr start_time),
             (''end_time'', PStr end_time), (''limit'', PInt limit)]) = Inr (PDict d)
         \<and> \<not> truthy (dict_get d ''values'' (PList []))))"
proof (cases "loki_logs_try cfg get query start_time end_time limit debug")
  case (Inl e)
  then show ?thesis by (simp add: loki_logs_run_def)
next
  case (Inr r)
  from loki_logs_try_cases[OF Inr] Inr show ?thesis
    by (simp add: loki_logs_run_def)
qed

text \<open>
  The log-range query with \<^verbatim>\<open>debug\<close> off and a falsy \<^verbatim>\<open>values\<close> (an empty list, or a
  body without the key) reaches no \<^verbatim>\<open>return\<close>: the result is \<^verbatim>\<open>None\<close>, not a dictionary.
\<close>

lemma loki_logs_run_empty_values:
  assumes "fetch_json (get (loki_api_url cfg @ ''/logs'')
            [(''query'', PStr query), (''start_time'', PStr start_time),
             (''end_time'', PStr end_time), (''limit'', PInt limit)]) = Inr (PDict d)"
    and "\<not> truthy (dict_get d ''values'' (PList []))"
  shows "loki_logs_run cfg get query start_time end_time limit False = PNone"
  using assms by (simp add: loki_logs_run_def loki_logs_try_def)

text \<open>
  C3, as amended. A tool invocation is a total function of its arguments and of what the
  outside world answers: no exception passes the boundary. The kubectl, Loki-labels and
  Prometheus tools always return a dictionary whose status is "success" or "error". The
  Loki log-range query does so whenever \<^verbatim>\<open>debug\<close> is on or the decoded body's
  \<^verbatim>\<open>values\<close> is truthy. The current-time tool returns the dictionary with the single key
  \<^verbatim>\<open>current_time\<close>.
\<close>

theorem run_tool_status:
  assumes "t \<in> set analysis_tools \<union> set debug_tools"
    and "run_tool ev t inp = Some r"
  shows "(t = CurrentTimeTool \<longrightarrow> r = PDict [(''current_time'', PStr (clock ev))])
     \<and> (t \<in> {KubectlTool, LokiLabelsQueryTool, PrometheusCurrentPodsMetricsTool} \<longrightarrow>
          has_status r)
     \<and> (t = LokiLogsQueryTool \<longrightarrow>
          (\<forall>query start_time end_time limit debug.
             inp = LokiLogsQueryInput query start_time end_time limit debug \<longrightarrow>
             (debug \<or>
              (\<forall>d. fetch_json (requests_get ev (loki_api_url (tool_settings ev) @ ''/logs'')
                      [(''query'', PStr query), (''start_time'', PStr start_time),
                       (''end_time'', PStr end_time), (''limit'', PInt limit)]) = Inr (PDict d)
                   \<longrightarrow> truthy (dict_get d ''values'' (PList [])))) \<longrightarrow>
             has_status r))"
proof (cases t)
  case CurrentTimeTool
  with assms(2) show ?thesis
    by (cases inp) (simp_all add: current_time_run_def)
next
  case KubectlTool
  with assms(2) show ?thesis
    by (cases inp) (auto simp: kubectl_run_has_status)
next
  case LokiLabelsQueryTool
  with assms(2) show ?thesis
    by (cases inp) (auto simp: loki_labels_run_has_status)
next
  case LokiLogsQueryTool
  show ?thesis
  proof (cases inp)
    case (LokiLogsQueryInput query start_time end_time limit debug)
    with assms(2) \<open>t = LokiLogsQueryTool\<close>
    have r: "r = loki_logs_run (tool_settings ev) (requests_get ev)
                   query start_time end_time limit debug"
      by simp
    show ?thesis
      using loki_logs_run_cases
              [of "tool_settings ev" "requests_get ev" query start_time end_time limit debug]
      unfolding r \<open>t = LokiLogsQueryTool\<close> LokiLogsQueryInput
      by auto
  qed (use assms(2) \<open>t = LokiLogsQueryTool\<close> in simp_all)
next
  case PrometheusCurrentPodsMetricsTool
  with assms(2) show ?thesis
    by (cases inp) (auto simp: prometheus_pods_run_has_status)
qed

text \<open>
  C3 as stated fails on the first tool of the analysis set: the current-time tool's
  result has no \<^verbatim>\<open>status\<close> key.
\<close>

theorem run_tool_status_counterexample:
  "CurrentTimeTool \<in> set analysis_tools
   \<and> run_tool \<lparr>tool_settings = \<lparr>jump_server_host = ''jump'', jump_server_ssh_arguments = ''ssh'',
                                  loki_api_url = ''http://loki'',
                                  prometheus_api_url = ''http://prom''\<rparr>,
                clock = ''2025-07-15 13:20:00'',
                subprocess_run = (\<lambda>c. Inr \<lparr>returncode = 0, stdout = ''ok'', stderr = []\<rparr>),
                requests_get = (\<lambda>u p. Inl (Exc RequestException ''connection refused''))\<rparr>
        CurrentTimeTool NoInput
       = Some (PDict [(''current_time'', PStr ''2025-07-15 13:20:00'')])
   \<and> \<not> has_status (PDict [(''current_time'', PStr ''2025-07-15 13:20:00'')])"
  by (simp add: analysis_tools_def current_time_run_def)

theorem run_tool_status_witness:
  "run_tool \<lparr>tool_settings = \<lparr>jump_server_host = ''jump'', jump_server_ssh_arguments = ''ssh'',
                                loki_api_url = ''http://loki'',
                                prometheus_api_url = ''http://prom''\<rparr>,
              clock = ''2025-07-15 13:20:00'',
              subprocess_run = (\<lambda>c. Inr \<lparr>returncode = 0, stdout = ''ok'', stderr = []\<rparr>),
              requests_get = (\<lambda>u p. Inr \<lparr>raise_for_status = None,
                 json = Inr (PDict [(''stream'', PStr ''grafana''),
                                    (''values'', PList [PDict [(''timestamp'', PStr ''t1''),
                                                               (''log'', PStr ''disk full'')]])])\<rparr>)\<rparr>
      LokiLogsQueryTool (LokiLogsQueryInput ''app=grafana'' ''t0'' ''t2'' 1000 False)
     = Some (PDict [(''status'', PStr ''success''), (''target'', PStr ''grafana''),
                    (''logs'', PList [PDict [(''timestamp'', PStr ''t1''),
                                             (''log'', PStr ''disk full'')]])])
   \<and> has_status (PDict [(''status'', PStr ''success''), (''target'', PStr ''grafana''),
                    (''logs'', PList [PDict [(''timestamp'', PStr ''t1''),
                                             (''log'', PStr ''disk full'')]])])
   \<and> LokiLogsQueryTool \<in> set analysis_tools \<union> set debug_tools"
  using run_tool_status
          [of LokiLogsQueryTool
              "\<lparr>tool_settings = \<lparr>jump_server_host = ''jump'', jump_server_ssh_arguments = ''ssh'',
                                loki_api_url = ''http://loki'',
                                prometheus_api_url = ''http://prom''\<rparr>,
              clock = ''2025-07-15 13:20:00'',
              subprocess_run = (\<lambda>c. Inr \<lparr>returncode = 0, stdout = ''ok'', stderr = []\<rparr>),
              requests_get = (\<lambda>u p. Inr \<lparr>raise_for_status = None,
                 json = Inr (PDict [(''stream'', PStr ''grafana''),
                                    (''values'', PList [PDict [(''timestamp'', PStr ''t1''),
                                                               (''log'', PStr ''disk full'')]])])\<rparr>)\<rparr>"
              "LokiLogsQueryInput ''app=grafana'' ''t0'' ''t2'' 1000 False"
              "PDict [(''status'', PStr ''success''), (''target'', PStr ''grafana''),
                    (''logs'', PList [PDict [(''timestamp'', PStr ''t1''),
                                             (''log'', PStr ''disk full'')]])]"]
  by (simp add: analysis_tools_def loki_logs_run_def loki_logs_try_def fetch_json_def
        dict_get_def not_info_def case_simps)


section \<open>The Loki log filter\<close>

lemma not_info_Some:
  "log_text entry = Some line \<Longrightarrow> not_info entry = Inr (\<not> str_in ''info'' (lower line))"
  by (cases entry) (auto simp: not_info_def split: pyval.splits)

lemma not_info_None: "log_text entry = None \<Longrightarrow> \<exists>e. not_info entry = Inl e"
  by (cases entry) (auto simp: not_info_def split: pyval.splits)

lemma filter_logs_Inr:
  "\<forall>entry\<in>set logs. log_text entry \<noteq> None \<Longrightarrow>
   filter_logs logs lstTmp =
     Inr (lstTmp @ filter (\<lambda>entry. \<exists>line. log_text entry = Some line
                                        \<and> \<not> str_in ''info'' (lower line)) logs)"
proof (induction logs arbitrary: lstTmp)
  case Nil
  then show ?case by simp
next
  case (Cons entry rest)
  then obtain line where line: "log_text entry = Some line"
    by auto
  from Cons.prems have "\<forall>entry\<in>set rest. log_text entry \<noteq> None"
    by simp
  from Cons.IH[OF this] line show ?case
    by (simp add: not_info_Some)
qed

lemma filter_logs_Inl:
  "\<exists>entry\<in>set logs. log_text entry = None \<Longrightarrow> \<exists>e. filter_logs logs lstTmp = Inl e"
proof (induction logs arbitrary: lstTmp)
  case Nil
  then show ?case by simp
next
  case (Cons entry rest)
  show ?case
  proof (cases "log_text entry")
    case None
    from not_info_None[OF this] show ?thesis
      by auto
  next
    case (Some line)
    with Cons.prems have "\<exists>entry\<in>set rest. log_text entry = None"
      by auto
    from Cons.IH[OF this] Some show ?thesis
      by (simp add: not_info_Some)
  qed
qed

text \<open>
  C9. With \<^verbatim>\<open>debug\<close> off and a non-empty list of logs, a result with status "success"
  has as its \<^verbatim>\<open>logs\<close> exactly the entries whose log text, lowercased, does not contain
  \<^verbatim>\<open>info\<close> (in their order; an entry without a \<^verbatim>\<open>log\<close> key has the empty text and is
  kept); when no entry is left, \<^verbatim>\<open>logs\<close> is the single placeholder entry with the text
  \<^verbatim>\<open>No critical logs found\<close> and the query's end time as timestamp. Success also means
  that every entry had a log text to read.
\<close>

theorem loki_logs_run_filters_info:
  assumes "fetch_json (get (loki_api_url cfg @ ''/logs'')
             [(''query'', PStr query), (''start_time'', PStr start_time),
              (''end_time'', PStr end_time), (''limit'', PInt limit)]) = Inr (PDict d)"
    and "dict_get d ''values'' (PList []) = PList logs"
    and "logs \<noteq> []"
    and "loki_logs_run cfg get query start_time end_time limit False = PDict r"
    and "map_of r ''status'' = Some (PStr ''success'')"
  shows "(\<forall>entry\<in>set logs. log_text entry \<noteq> None)
     \<and> map_of r ''logs'' =
         Some (PList
           (if filter (\<lambda>entry. \<exists>line. log_text entry = Some line
                                 \<and> \<not> str_in ''info'' (lower line)) logs = []
            then [no_critical_logs end_time]
            else filter (\<lambda>entry. \<exists>line. log_text entry = Some line
                                   \<and> \<not> str_in ''info'' (lower line)) logs))"
proof (cases "\<forall>entry\<in>set logs. log_text entry \<noteq> None")
  case True
  from filter_logs_Inr[OF True, of "[]"] assms show ?thesis
    using True by (auto simp: loki_logs_run_def loki_logs_try_def)
next
  case False
  then have "\<exists>entry\<in>set logs. log_text entry = None"
    by simp
  from filter_logs_Inl[OF this, of "[]"] obtain e where "filter_logs logs [] = Inl e"
    by blast
  with assms show ?thesis
    by (auto simp: loki_logs_run_def loki_logs_try_def split: if_splits)
qed


theorem loki_logs_run_filters_info_witness:
  "loki_logs_run
     \<lparr>jump_server_host = ''jump'', jump_server_ssh_arguments = ''ssh'',
      loki_api_url = ''http://loki'', prometheus_api_url = ''http://prom''\<rparr>
     (\<lambda>u p. Inr \<lparr>raise_for_status = None,
        json = Inr (PDict [(''stream'', PStr ''grafana''),
                 (''values'', PList [PDict [(''timestamp'', PStr ''t1''), (''log'', PStr ''disk full'')],
                                     PDict [(''timestamp'', PStr ''t2''), (''log'', PStr ''level=INFO ok'')],
                                     PDict [(''timestamp'', PStr ''t3'')]])])\<rparr>)
     ''app=grafana'' ''t0'' ''t9'' 1000 False
   = PDict [(''status'', PStr ''success''), (''target'', PStr ''grafana''),
            (''logs'', PList [PDict [(''timestamp'', PStr ''t1''), (''log'', PStr ''disk full'')],
                              PDict [(''timestamp'', PStr ''t3'')]])]
   \<and>
   loki_logs_run
     \<lparr>jump_server_host = ''jump'', jump_server_ssh_arguments = ''ssh'',
      loki_api_url = ''http://loki'', prometheus_api_url = ''http://prom''\<rparr>
     (\<lambda>u p. Inr \<lparr>raise_for_status = None,
        json = Inr (PDict [(''stream'', PStr ''grafana''),
                 (''values'', PList [PDict [(''timestamp'', PStr ''t2''), (''log'', PStr ''Info: up'')]])])\<rparr>)
     ''app=grafana'' ''t0'' ''t9'' 1000 False
   = PDict [(''status'', PStr ''success''), (''target'', PStr ''grafana''),
            (''logs'', PList [PDict [(''timestamp'', PStr ''t9''),
                                     (''log'', PStr ''No critical logs found'')]])]
   \<and>
   map_of [(''status'', PStr ''success''), (''target'', PStr ''grafana''),
           (''logs'', PList [PDict [(''timestamp'', PStr ''t1''), (''log'', PStr ''disk full'')],
                             PDict [(''timestamp'', PStr ''t3'')]])] ''logs''
   = Some (PList [PDict [(''timestamp'', PStr ''t1''), (''log'', PStr ''disk full'')],
                  PDict [(''timestamp'', PStr ''t3'')]])"
  using loki_logs_run_filters_info
    [of "\<lambda>u p. Inr \<lparr>raise_for_status = None,
        json = Inr (PDict [(''stream'', PStr ''grafana''),
                 (''values'', PList [PDict [(''timestamp'', PStr ''t1''), (''log'', PStr ''disk full'')],
                                     PDict [(''timestamp'', PStr ''t2''), (''log'', PStr ''level=INFO ok'')],
                                     PDict [(''timestamp'', PStr ''t3'')]])])\<rparr>"
        "\<lparr>jump_server_host = ''jump'', jump_server_ssh_arguments = ''ssh'',
          loki_api_url = ''http://loki'', prometheus_api_url = ''http://prom''\<rparr>"
        "''app=grafana''" "''t0''" "''t9''" 1000
        "[(''stream'', PStr ''grafana''),
          (''values'', PList [PDict [(''timestamp'', PStr ''t1''), (''log'', PStr ''disk full'')],
                              PDict [(''timestamp'', PStr ''t2''), (''log'', PStr ''level=INFO ok'')],
                              PDict [(''timestamp'', PStr ''t3'')]])]"
        "[PDict [(''timestamp'', PStr ''t1''), (''log'', PStr ''disk full'')],
          PDict [(''timestamp'', PStr ''t2''), (''log'', PStr ''level=INFO ok'')],
          PDict [(''timestamp'', PStr ''t3'')]]"
        "[(''status'', PStr ''success''), (''target'', PStr ''grafana''),
          (''logs'', PList [PDict [(''timestamp'', PStr ''t1''), (''log'', PStr ''disk full'')],
                            PDict [(''timestamp'', PStr ''t3'')]])]"]
  by (simp add: loki_logs_run_def loki_logs_try_def fetch_json_def dict_get_def not_info_def
        no_critical_logs_def case_simps)

section \<open>Clearing the conversation\<close>

text \<open>
  C6. While the database reports no error, \<^verbatim>\<open>DELETE /history\<close> returns the success
  message, a second call right after it returns it again, the session's stored list is
  empty after each call, and clearing a store that is already empty succeeds as well.
\<close>

theorem clear_conversation_history_idempotent:
  "clear_conversation_history None app st
     = (Returns cleared_message, st(session_id app := []))
   \<and> clear_conversation_history None app (snd (clear_conversation_history None app st))
     = (Returns cleared_message, st(session_id app := []))
   \<and> snd (clear_conversation_history None app st) (session_id app) = []
   \<and> clear_conversation_history None app (\<lambda>sid. []) = (Returns cleared_message, (\<lambda>sid. []))"
  by (auto simp: clear_conversation_history_def clear_def)

section \<open>The reasoning loop's tool set\<close>

lemma invoked_tools_append:
  "invoked_tools (xs @ ys) = invoked_tools xs @ invoked_tools ys"
  by (induction xs rule: invoked_tools.induct) simp_all

lemma reasoning_loop_invoked:
  "reasoning_loop ev tools think cycles retries steps = (out, steps') \<Longrightarrow>
   set (invoked_tools steps') \<subseteq> set (invoked_tools steps) \<union> set tools"
proof (induction ev tools think cycles retries steps rule: reasoning_loop.induct)
  case (1 ev tools think cycles retries steps)
  show ?case
  proof (cases "cycles = 0")
    case True
    with "1.prems" show ?thesis by simp
  next
    case False
    show ?thesis
    proof (cases "think steps")
      case (FinalAnswer answer)
      with False "1.prems" show ?thesis by simp
    next
      case Malformed
      show ?thesis
      proof (cases "retries = 0")
        case True
        with False Malformed "1.prems" show ?thesis by simp
      next
        case r: False
        with False Malformed "1.prems"
        have "reasoning_loop ev tools think cycles (retries - 1) (steps @ [ParseErrorNotice])
                = (out, steps')"
          by simp
        from "1.IH"(4)[OF False Malformed r this] show ?thesis
          by (simp add: invoked_tools_append)
      qed
    next
      case (ToolSelection n args)
      show ?thesis
      proof (cases "find (\<lambda>t. name t = n) tools")
        case None
        with False ToolSelection "1.prems"
        have "reasoning_loop ev tools think (cycles - 1) retries (steps @ [Rejected n])
                = (out, steps')"
          by simp
        from "1.IH"(1)[OF False ToolSelection None this] show ?thesis
          by (simp add: invoked_tools_append)
      next
        case (Some t)
        then have t: "t \<in> set tools"
          by (auto simp: find_Some_iff)
        show ?thesis
        proof (cases "run_tool ev t args")
          case None
          with False ToolSelection Some "1.prems"
          have "reasoning_loop ev tools think (cycles - 1) retries (steps @ [Rejected n])
                  = (out, steps')"
            by simp
          from "1.IH"(2)[OF False ToolSelection Some None this] show ?thesis
            by (simp add: invoked_tools_append)
        next
          case obs: (Some observation)
          with False ToolSelection Some "1.prems"
          have "reasoning_loop ev tools think (cycles - 1) retries
                  (steps @ [Invocation t args observation]) = (out, steps')"
            by simp
          from "1.IH"(3)[OF False ToolSelection Some obs this] t show ?thesis
            by (auto simp: invoked_tools_append)
        qed
      qed
    qed
  qed
qed

text \<open>
  C7. A run of the loop invokes only tools of the tool list it was built with, whatever
  names the model selects: the debug instantiation invokes nothing but the kubectl tool
  (\<^verbatim>\<open>kubectl_command\<close>), the analysis instantiation only tools of the five-element
  catalogue.
\<close>

theorem reasoning_loop_registered_tools_only:
  "(debug_loop ev think cycles retries = (out, steps) \<longrightarrow>
      (\<forall>t\<in>set (invoked_tools steps). t = KubectlTool \<and> name t = ''kubectl_command''))
   \<and> (analysis_loop ev think cycles retries = (out, steps) \<longrightarrow>
        (\<forall>t\<in>set (invoked_tools steps).
           t \<in> set analysis_tools
           \<and> name t \<in> {''current_time'', ''kubectl_command'', ''loki_labels_query'',
                         ''loki_logs_query'', ''prometheus_pods_metrics''}))
   \<and> (reasoning_loop ev tools think cycles retries [] = (out, steps) \<longrightarrow>
        set (invoked_tools steps) \<subseteq> set tools)"
proof (intro conjI impI ballI)
  fix t
  assume "debug_loop ev think cycles retries = (out, steps)" and "t \<in> set (invoked_tools steps)"
  with reasoning_loop_invoked[of ev debug_tools think cycles retries "[]" out steps]
  have "t \<in> set debug_tools"
    by (auto simp: debug_loop_def)
  then show "t = KubectlTool" and "name t = ''kubectl_command''"
    by (simp_all add: debug_tools_def)
next
  fix t
  assume "analysis_loop ev think cycles retries = (out, steps)"
    and "t \<in> set (invoked_tools steps)"
  with reasoning_loop_invoked[of ev analysis_tools think cycles retries "[]" out steps]
  show "t \<in> set analysis_tools"
    by (auto simp: analysis_loop_def)
  then show "name t \<in> {''current_time'', ''kubectl_command'', ''loki_labels_query'',
                         ''loki_logs_query'', ''prometheus_pods_metrics''}"
    by (auto simp: analysis_tools_def)
next
  assume "reasoning_loop ev tools think cycles retries [] = (out, steps)"
  from reasoning_loop_invoked[OF this] show "set (invoked_tools steps) \<subseteq> set tools"
    by simp
qed

theorem reasoning_loop_registered_tools_only_witness:
  "debug_loop
     \<lparr>tool_settings = \<lparr>jump_server_host = ''jump'', jump_server_ssh_arguments = ''ssh'',
                        loki_api_url = ''http://loki'', prometheus_api_url = ''http://prom''\<rparr>,
      clock = ''2025-07-15 13:20:00'',
      subprocess_run =
        (\<lambda>c. Inr \<lparr>returncode = 0, stdout = ''default kube-system'', stderr = []\<rparr>),
      requests_get = (\<lambda>u p. Inl (Exc RequestException ''connection refused''))\<rparr>
     (\<lambda>steps. if steps = [] then ToolSelection ''loki_labels_query'' NoInput
              else if length steps = 1
              then ToolSelection ''kubectl_command'' (KubectlInput ''kubectl get ns'')
              else FinalAnswer ''two namespaces'')
     5 2
   = (DONE ''two namespaces'',
      [Rejected ''loki_labels_query'',
       Invocation KubectlTool (KubectlInput ''kubectl get ns'')
         (PDict [(''status'', PStr ''success''), (''output'', PStr ''defaultkube-system''),
                 (''command'', PStr ''kubectl get ns'')])])
   \<and> invoked_tools
       [Rejected ''loki_labels_query'',
        Invocation KubectlTool (KubectlInput ''kubectl get ns'')
          (PDict [(''status'', PStr ''success''), (''output'', PStr ''defaultkube-system''),
                  (''command'', PStr ''kubectl get ns'')])]
     = [KubectlTool]"
  using reasoning_loop_registered_tools_only
    [of "\<lparr>tool_settings = \<lparr>jump_server_host = ''jump'', jump_server_ssh_arguments = ''ssh'',
                        loki_api_url = ''http://loki'', prometheus_api_url = ''http://prom''\<rparr>,
      clock = ''2025-07-15 13:20:00'',
      subprocess_run =
        (\<lambda>c. Inr \<lparr>returncode = 0, stdout = ''default kube-system'', stderr = []\<rparr>),
      requests_get = (\<lambda>u p. Inl (Exc RequestException ''connection refused''))\<rparr>"
        "\<lambda>steps. if steps = [] then ToolSelection ''loki_labels_query'' NoInput
              else if length steps = 1
              then ToolSelection ''kubectl_command'' (KubectlInput ''kubectl get ns'')
              else FinalAnswer ''two namespaces''"
        5 2 "DONE ''two namespaces''"
        "[Rejected ''loki_labels_query'',
          Invocation KubectlTool (KubectlInput ''kubectl get ns'')
            (PDict [(''status'', PStr ''success''), (''output'', PStr ''defaultkube-system''),
                    (''command'', PStr ''kubectl get ns'')])]"
        debug_tools]
  by (simp add: debug_loop_def debug_tools_def kubectl_run_def remove_spaces_def)

section \<open>The endpoint with memory and the policy gate\<close>

text \<open>
  The history variant's \<^verbatim>\<open>/ask\<close> never consults the judge: whatever the judge would
  say, the outcome is the agent stage's, and a returned response is marked safe.
\<close>

lemma history_ask_llm_ignores_judge:
  "history_ask_llm (sv\<lparr>llm_judge := judge\<rparr>) app st message = history_ask_llm sv app st message"
  by (simp add: history_ask_llm_def)

lemma history_ask_llm_safe:
  "fst (history_ask_llm sv app st message) = Returns r \<Longrightarrow> is_safe r"
  using agent_stage_safe by (simp add: history_ask_llm_def)

text \<open>
  C2. In the history variant, \<^verbatim>\<open>POST /ask\<close> with the message "delete all pods", which
  the judge answers with \<^verbatim>\<open>DENIED\<close>: the judge is not called, the debug agent executor
  is, and the response carries the agent's output with \<open>is_safe = True\<close>, with an empty
  and with a non-empty stored conversation alike. The gated endpoint of the variant
  without memory answers the same message and judge with the policy message and
  \<open>is_safe = False\<close>, and does not call the agent executor.
\<close>

theorem history_ask_llm_skips_policy_gate:
  "history_ask_llm
     \<lparr>llm_judge = (\<lambda>m. Inr (PStr ''DENIED'')),
      agent_executor = (\<lambda>hm. Inr (PDict [(''output'', PStr ''pod web-1 deleted'')])),
      agent_analyzer = (\<lambda>hm. Inr (PDict [(''output'', PStr ''fine'')])),
      json_decode = (\<lambda>s. Inl (Exc JSONDecodeError ''Expecting value''))\<rparr>
     \<lparr>session_id = ''6f1c''\<rparr> (\<lambda>sid. []) ''delete all pods''
   = (Returns \<lparr>reply = PDict [(''output'', PStr ''pod web-1 deleted'')], is_safe = True\<rparr>,
      [ExecutorCall ''delete all pods''])
   \<and>
   history_ask_llm
     \<lparr>llm_judge = (\<lambda>m. Inr (PStr ''DENIED'')),
      agent_executor = (\<lambda>hm. Inr (PDict [(''output'', PStr ''pod web-1 deleted'')])),
      agent_analyzer = (\<lambda>hm. Inr (PDict [(''output'', PStr ''fine'')])),
      json_decode = (\<lambda>s. Inl (Exc JSONDecodeError ''Expecting value''))\<rparr>
     \<lparr>session_id = ''6f1c''\<rparr>
     (\<lambda>sid. [Message ''human'' (PStr ''list pods''), Message ''ai'' (PStr ''web-1'')])
     ''delete all pods''
   = (Returns \<lparr>reply = PDict [(''output'', PStr ''pod web-1 deleted'')], is_safe = True\<rparr>,
      [ExecutorCall ''delete all pods''])
   \<and>
   ask_llm
     \<lparr>llm_judge = (\<lambda>m. Inr (PStr ''DENIED'')),
      agent_executor = (\<lambda>m. Inr (PDict [(''output'', PStr ''pod web-1 deleted'')])),
      agent_analyzer = (\<lambda>m. Inr (PDict [(''output'', PStr ''fine'')])),
      json_decode = (\<lambda>s. Inl (Exc JSONDecodeError ''Expecting value''))\<rparr>
     ''delete all pods''
   = (Returns \<lparr>reply = policy_violation, is_safe = False\<rparr>, [JudgeCall ''delete all pods''])"
  by (simp add: history_ask_llm_def ask_llm_def judge_decision_def agent_stage_def
        agent_output_def normalize_output_def is_json_dict_def json_loads_def dict_get_def
        case_simps)
end
